theory Spec2Isabelle
  imports Main "HOL-Library.Log_Nat"
begin

section \<open>JavaScript numbers, \<open>parseInt\<close>, \<open>parseFloat\<close> and \<open>Number.prototype.toString\<close>\<close>

text \<open>
  A JavaScript number is an IEEE-754 binary64 value. A finite one is a binary fraction:
  \<open>Num m k\<close> denotes \<open>m / 2 ^ k\<close>, kept in lowest terms (\<open>k = 0\<close> or \<open>m\<close> odd), so that equal
  numbers are equal terms and an integer \<open>n\<close> reads \<open>Num n 0\<close>. Every operation is the exact
  operation on these fractions followed by rounding to the nearest binary64 value, ties
  to even. The two zeros are not distinguished: nothing in the repository observes the
  sign of a zero.
\<close>

datatype jsnum = NaN | Num int nat | PosInfinity | NegInfinity

text \<open>The number of binary digits of a natural number.\<close>

fun bit_length :: "nat \<Rightarrow> nat" where
  "bit_length n = (if n = 0 then 0 else Suc (bit_length (n div 2)))"

text \<open>For \<open>p, q > 0\<close>: the \<open>e\<close> with \<open>2 ^ e \<le> p / q < 2 ^ (e + 1)\<close>.\<close>

definition floor_log2_ratio :: "nat \<Rightarrow> nat \<Rightarrow> int" where
  "floor_log2_ratio p q =
     (let d = int (bit_length p) - int (bit_length q)
      in if (if 0 \<le> d then q * 2 ^ nat d \<le> p else q \<le> p * 2 ^ nat (- d)) then d else d - 1)"

text \<open>\<open>m / 2 ^ k\<close> in lowest terms.\<close>

fun reduce :: "int \<Rightarrow> nat \<Rightarrow> jsnum" where
  "reduce m k = (if k = 0 \<or> odd m then Num m k else reduce (m div 2) (k - 1))"

text \<open>
  Division of \<open>num\<close> by \<open>den\<close>, rounded to the nearest integer, ties to the even one.
\<close>

definition div_half_even :: "nat \<Rightarrow> nat \<Rightarrow> nat" where
  "div_half_even num den =
     (let f = num div den; r = num mod den
      in if 2 * r < den then f else if den < 2 * r then f + 1 else if even f then f else f + 1)"

text \<open>
  Rounding the rational \<open>\<plusminus> p / q\<close> (\<open>q > 0\<close>) to binary64: 53 significant bits, binary
  exponents from \<open>-1022\<close> (below that, the subnormal spacing \<open>2 ^ -1074\<close>), overflow to
  an infinity. With \<open>s\<close> the exponent of the last kept bit, the result is
  \<open>round (p / (q * 2 ^ s)) * 2 ^ s\<close>.
\<close>

definition signed :: "bool \<Rightarrow> nat \<Rightarrow> int" where
  "signed neg n = (if neg then - int n else int n)"

definition round_at :: "bool \<Rightarrow> nat \<Rightarrow> nat \<Rightarrow> int \<Rightarrow> jsnum" where
  "round_at neg p q s =
     (if s < 0 then reduce (signed neg (div_half_even (p * 2 ^ nat (- s)) q)) (nat (- s))
      else if 2 ^ 1024 \<le> div_half_even p (q * 2 ^ nat s) * 2 ^ nat s
      then (if neg then NegInfinity else PosInfinity)
      else Num (signed neg (div_half_even p (q * 2 ^ nat s) * 2 ^ nat s)) 0)"

definition round_ratio :: "bool \<Rightarrow> nat \<Rightarrow> nat \<Rightarrow> jsnum" where
  "round_ratio neg p q =
     (if p = 0 then Num 0 0 else round_at neg p q (max (floor_log2_ratio p q) (- 1022) - 52))"

text \<open>Rounding the rational \<open>n / q\<close> for an integer \<open>n\<close>.\<close>

definition round_int_ratio :: "int \<Rightarrow> nat \<Rightarrow> jsnum" where
  "round_int_ratio n q = round_ratio (n < 0) (nat \<bar>n\<bar>) q"

text \<open>The operator \<open>/\<close> on two numbers.\<close>

fun js_div :: "jsnum \<Rightarrow> jsnum \<Rightarrow> jsnum" where
  "js_div (Num m1 k1) (Num m2 k2) =
     (if m2 = 0 then (if m1 = 0 then NaN else if 0 < m1 then PosInfinity else NegInfinity)
      else round_ratio ((m1 < 0) \<noteq> (m2 < 0)) (nat \<bar>m1\<bar> * 2 ^ k2) (nat \<bar>m2\<bar> * 2 ^ k1))"
| "js_div (Num m k) PosInfinity = Num 0 0"
| "js_div (Num m k) NegInfinity = Num 0 0"
| "js_div PosInfinity (Num m k) = (if m < 0 then NegInfinity else PosInfinity)"
| "js_div NegInfinity (Num m k) = (if m < 0 then PosInfinity else NegInfinity)"
| "js_div _ _ = NaN"

text \<open>Unary minus, and the operator \<open>-\<close>.\<close>

fun js_neg :: "jsnum \<Rightarrow> jsnum" where
  "js_neg (Num m k) = Num (- m) k"
| "js_neg PosInfinity = NegInfinity"
| "js_neg NegInfinity = PosInfinity"
| "js_neg NaN = NaN"

text \<open>The operator \<open>+\<close> on two numbers.\<close>

fun js_add :: "jsnum \<Rightarrow> jsnum \<Rightarrow> jsnum" where
  "js_add NaN _ = NaN"
| "js_add _ NaN = NaN"
| "js_add PosInfinity NegInfinity = NaN"
| "js_add NegInfinity PosInfinity = NaN"
| "js_add PosInfinity _ = PosInfinity"
| "js_add _ PosInfinity = PosInfinity"
| "js_add NegInfinity _ = NegInfinity"
| "js_add _ NegInfinity = NegInfinity"
| "js_add (Num m1 k1) (Num m2 k2) =
     round_int_ratio (m1 * 2 ^ (max k1 k2 - k1) + m2 * 2 ^ (max k1 k2 - k2)) (2 ^ max k1 k2)"

definition js_sub :: "jsnum \<Rightarrow> jsnum \<Rightarrow> jsnum" where
  "js_sub x y = js_add x (js_neg y)"

text \<open>The operator \<open>*\<close> on two numbers.\<close>

fun js_mul :: "jsnum \<Rightarrow> jsnum \<Rightarrow> jsnum" where
  "js_mul NaN _ = NaN"
| "js_mul _ NaN = NaN"
| "js_mul (Num m1 k1) (Num m2 k2) = round_int_ratio (m1 * m2) (2 ^ (k1 + k2))"
| "js_mul (Num m k) PosInfinity = (if m = 0 then NaN else if 0 < m then PosInfinity else NegInfinity)"
| "js_mul (Num m k) NegInfinity = (if m = 0 then NaN else if 0 < m then NegInfinity else PosInfinity)"
| "js_mul PosInfinity (Num m k) = (if m = 0 then NaN else if 0 < m then PosInfinity else NegInfinity)"
| "js_mul NegInfinity (Num m k) = (if m = 0 then NaN else if 0 < m then NegInfinity else PosInfinity)"
| "js_mul PosInfinity PosInfinity = PosInfinity"
| "js_mul NegInfinity NegInfinity = PosInfinity"
| "js_mul PosInfinity NegInfinity = NegInfinity"
| "js_mul NegInfinity PosInfinity = NegInfinity"

text \<open>The comparison \<open>x > 0\<close> (false for \<open>NaN\<close>).\<close>

fun js_positive :: "jsnum \<Rightarrow> bool" where
  "js_positive (Num m k) = (0 < m)"
| "js_positive PosInfinity = True"
| "js_positive _ = False"

text \<open>A number in a condition: \<open>NaN\<close> and zero are falsy.\<close>

fun truthy_num :: "jsnum \<Rightarrow> bool" where
  "truthy_num NaN = False"
| "truthy_num (Num m k) = (m \<noteq> 0)"
| "truthy_num _ = True"

subsection \<open>Characters\<close>

definition is_digit :: "char \<Rightarrow> bool" where
  "is_digit c = (48 \<le> (of_char c :: nat) \<and> (of_char c :: nat) \<le> 57)"

definition digit_val :: "char \<Rightarrow> nat" where
  "digit_val c = of_char c - 48"

definition is_lower_hex :: "char \<Rightarrow> bool" where
  "is_lower_hex c = (is_digit c \<or> (97 \<le> (of_char c :: nat) \<and> (of_char c :: nat) \<le> 102))"

definition is_upper_hex :: "char \<Rightarrow> bool" where
  "is_upper_hex c = (is_digit c \<or> (65 \<le> (of_char c :: nat) \<and> (of_char c :: nat) \<le> 70))"

definition is_hex :: "char \<Rightarrow> bool" where
  "is_hex c = (is_lower_hex c \<or> is_upper_hex c)"

definition hex_val :: "char \<Rightarrow> nat" where
  "hex_val c = (if is_digit c then of_char c - 48
                else if 97 \<le> (of_char c :: nat) then of_char c - 87 else of_char c - 55)"

text \<open>The ASCII white space and line terminators that \<open>parseInt\<close> and \<open>parseFloat\<close> skip.\<close>

definition is_space :: "char \<Rightarrow> bool" where
  "is_space c = ((of_char c :: nat) \<in> {9, 10, 11, 12, 13, 32})"

text \<open>The value of a digit string in a radix, most significant digit first.\<close>

definition digits_value :: "nat \<Rightarrow> (char \<Rightarrow> nat) \<Rightarrow> string \<Rightarrow> nat" where
  "digits_value radix dv ds = foldl (\<lambda>acc c. acc * radix + dv c) 0 ds"

definition nat_of_digits :: "string \<Rightarrow> nat" where
  "nat_of_digits ds = digits_value 10 digit_val ds"

definition digit_char :: "nat \<Rightarrow> char" where
  "digit_char d = ''0123456789'' ! d"

text \<open>The decimal digits of a natural number, without leading zeros (\<open>0\<close> is \<open>''0''\<close>).\<close>

fun digits_of_nat :: "nat \<Rightarrow> string" where
  "digits_of_nat n = (if n < 10 then [digit_char n] else digits_of_nat (n div 10) @ [digit_char (n mod 10)])"

declare digits_of_nat.simps [simp del]

subsection \<open>\<open>parseInt(string)\<close>, without a radix argument\<close>

text \<open>
  Leading white space is skipped, then an optional sign; a \<open>0x\<close> or \<open>0X\<close> prefix selects
  radix 16; the longest prefix of digits of the radix is read; with no digit the result
  is \<open>NaN\<close>. The integer read is rounded to a binary64 value.
\<close>

definition parse_radix :: "bool \<Rightarrow> string \<Rightarrow> jsnum" where
  "parse_radix neg u =
     (if take 2 u = ''0x'' \<or> take 2 u = ''0X''
      then (if takeWhile is_hex (drop 2 u) = [] then NaN
            else round_ratio neg (digits_value 16 hex_val (takeWhile is_hex (drop 2 u))) 1)
      else (if takeWhile is_digit u = [] then NaN
            else round_ratio neg (digits_value 10 digit_val (takeWhile is_digit u)) 1))"

definition parse_sign :: "(bool \<Rightarrow> string \<Rightarrow> jsnum) \<Rightarrow> string \<Rightarrow> jsnum" where
  "parse_sign parse t =
     (if take 1 t = ''-'' then parse True (drop 1 t)
      else if take 1 t = ''+'' then parse False (drop 1 t)
      else parse False t)"

definition parseInt :: "string \<Rightarrow> jsnum" where
  "parseInt s = parse_sign parse_radix (dropWhile is_space s)"

subsection \<open>\<open>parseFloat(string)\<close>\<close>

text \<open>
  Leading white space is skipped; the longest prefix that is a decimal literal (an
  optional sign, then \<open>Infinity\<close>, or digits with an optional fraction and an optional
  exponent) is read and rounded to binary64; with no such prefix the result is \<open>NaN\<close>.
  The literal \<open>d\<^sub>1...d\<^sub>i.f\<^sub>1...f\<^sub>j e x\<close> denotes the integer \<open>d\<^sub>1...d\<^sub>if\<^sub>1...f\<^sub>j\<close> times
  \<open>10 ^ (x - j)\<close>.
\<close>

definition exponent_digits :: "bool \<Rightarrow> string \<Rightarrow> int" where
  "exponent_digits neg ds =
     (if ds = [] then 0 else if neg then - int (nat_of_digits ds) else int (nat_of_digits ds))"

definition exponent_part :: "string \<Rightarrow> int" where
  "exponent_part r =
     (if take 1 r = ''e'' \<or> take 1 r = ''E'' then
        (if take 1 (drop 1 r) = ''-'' then exponent_digits True (takeWhile is_digit (drop 2 r))
         else if take 1 (drop 1 r) = ''+'' then exponent_digits False (takeWhile is_digit (drop 2 r))
         else exponent_digits False (takeWhile is_digit (drop 1 r)))
      else 0)"

definition scale_decimal :: "bool \<Rightarrow> nat \<Rightarrow> int \<Rightarrow> jsnum" where
  "scale_decimal neg m x =
     (if 0 \<le> x then round_ratio neg (m * 10 ^ nat x) 1 else round_ratio neg m (10 ^ nat (- x)))"

definition parse_mantissa :: "bool \<Rightarrow> string \<Rightarrow> string \<Rightarrow> string \<Rightarrow> jsnum" where
  "parse_mantissa neg ip fp r =
     (if ip = [] \<and> fp = [] then NaN
      else scale_decimal neg (nat_of_digits (ip @ fp)) (exponent_part r - int (length fp)))"

definition parse_fraction :: "bool \<Rightarrow> string \<Rightarrow> string \<Rightarrow> jsnum" where
  "parse_fraction neg ip r =
     (if take 1 r = ''.''
      then parse_mantissa neg ip (takeWhile is_digit (drop 1 r)) (dropWhile is_digit (drop 1 r))
      else parse_mantissa neg ip [] r)"

definition parse_decimal :: "bool \<Rightarrow> string \<Rightarrow> jsnum" where
  "parse_decimal neg u =
     (if take 8 u = ''Infinity'' then (if neg then NegInfinity else PosInfinity)
      else parse_fraction neg (takeWhile is_digit u) (dropWhile is_digit u))"

definition parseFloat :: "string \<Rightarrow> jsnum" where
  "parseFloat s = parse_sign parse_decimal (dropWhile is_space s)"

declare bit_length.simps [simp del] reduce.simps [simp del]
  js_add.simps [simp del] js_mul.simps [simp del] js_div.simps [simp del]

named_theorems js_eval \<open>the defining equations, for evaluating a function at a concrete input\<close>

declare is_digit_def [js_eval] is_space_def [js_eval] digit_val_def [js_eval]
  is_hex_def [js_eval] is_lower_hex_def [js_eval] is_upper_hex_def [js_eval]
  hex_val_def [js_eval] digit_char_def [js_eval]
  bit_length.simps [js_eval] reduce.simps [js_eval] digits_of_nat.simps [js_eval]
  js_add.simps [js_eval] js_mul.simps [js_eval] js_div.simps [js_eval]
  floor_log2_ratio_def [js_eval] div_half_even_def [js_eval] signed_def [js_eval]
  round_at_def [js_eval] round_ratio_def [js_eval] round_int_ratio_def [js_eval]
  digits_value_def [js_eval] nat_of_digits_def [js_eval]
  parse_radix_def [js_eval] parse_sign_def [js_eval] parseInt_def [js_eval]
  exponent_digits_def [js_eval] exponent_part_def [js_eval] scale_decimal_def [js_eval]
  parse_mantissa_def [js_eval] parse_fraction_def [js_eval] parse_decimal_def [js_eval]
  parseFloat_def [js_eval]

subsection \<open>\<open>Number.prototype.toString()\<close>\<close>

text \<open>
  For a finite \<open>x > 0\<close> the language definition takes integers \<open>n\<close>, \<open>k\<close> and \<open>s\<close> with
  \<open>k \<ge> 1\<close>, \<open>10 ^ (k - 1) \<le> s < 10 ^ k\<close> and \<open>s * 10 ^ (n - k)\<close> a decimal that rounds to
  \<open>x\<close>, with \<open>k\<close> as small as possible (and \<open>s\<close> as close to \<open>x\<close> as possible), and prints
  the digits of \<open>s\<close> with the decimal point placed by \<open>n\<close>. Below, \<open>x\<close> is the fraction
  \<open>p / q\<close>.
\<close>

text \<open>\<open>10 ^ n * q \<le> p\<close>, for an integer \<open>n\<close> of either sign.\<close>

definition pow10_le :: "int \<Rightarrow> nat \<Rightarrow> nat \<Rightarrow> bool" where
  "pow10_le n q p = (if 0 \<le> n then 10 ^ nat n * q \<le> p else q \<le> p * 10 ^ nat (- n))"

definition in_decade :: "nat \<Rightarrow> nat \<Rightarrow> int \<Rightarrow> bool" where
  "in_decade p q n = (pow10_le (n - 1) q p \<and> \<not> pow10_le n q p)"

text \<open>
  The \<open>n\<close> with \<open>10 ^ (n - 1) \<le> p / q < 10 ^ n\<close>. The binary logarithm, scaled by
  \<open>0.30103\<close>, is at most one below and at most two above \<open>n - 1\<close>.
\<close>

definition decimal_exponent_near :: "nat \<Rightarrow> nat \<Rightarrow> int \<Rightarrow> int" where
  "decimal_exponent_near p q g =
     (if in_decade p q g then g
      else if in_decade p q (g + 1) then g + 1
      else if in_decade p q (g + 2) then g + 2
      else g + 3)"

definition decimal_exponent :: "nat \<Rightarrow> nat \<Rightarrow> int" where
  "decimal_exponent p q = decimal_exponent_near p q ((floor_log2_ratio p q * 30103) div 100000)"

text \<open>\<open>\<lfloor>p / (q * 10 ^ e)\<rfloor>\<close>, for an integer \<open>e\<close> of either sign.\<close>

definition scaled_floor :: "nat \<Rightarrow> nat \<Rightarrow> int \<Rightarrow> nat" where
  "scaled_floor p q e = (if 0 \<le> e then p div (q * 10 ^ nat e) else (p * 10 ^ nat (- e)) div q)"

text \<open>
  \<open>2 * (p / q) \<le> t * 10 ^ e\<close> and \<open>t * 10 ^ e \<le> 2 * (p / q)\<close>: with \<open>t = 2 * lo + 1\<close> they
  compare \<open>x\<close> with the midpoint of the candidates \<open>lo\<close> and \<open>lo + 1\<close>.
\<close>

definition twice_le_scaled :: "nat \<Rightarrow> nat \<Rightarrow> nat \<Rightarrow> int \<Rightarrow> bool" where
  "twice_le_scaled p q t e =
     (if 0 \<le> e then 2 * p \<le> t * 10 ^ nat e * q else 2 * p * 10 ^ nat (- e) \<le> t * q)"

definition scaled_le_twice :: "nat \<Rightarrow> nat \<Rightarrow> nat \<Rightarrow> int \<Rightarrow> bool" where
  "scaled_le_twice p q t e =
     (if 0 \<le> e then t * 10 ^ nat e * q \<le> 2 * p else t * q \<le> 2 * p * 10 ^ nat (- e))"

text \<open>Of \<open>lo\<close> and \<open>lo + 1\<close>, the one nearer to \<open>x / 10 ^ e\<close>; the even one when both are as near.\<close>

definition nearest_candidate :: "nat \<Rightarrow> nat \<Rightarrow> int \<Rightarrow> nat \<Rightarrow> nat" where
  "nearest_candidate p q e lo =
     (if \<not> scaled_le_twice p q (2 * lo + 1) e then lo
      else if \<not> twice_le_scaled p q (2 * lo + 1) e then lo + 1
      else if even lo then lo else lo + 1)"

text \<open>
  The candidates with \<open>k\<close> digits are the two integers around \<open>x / 10 ^ (n - k)\<close>. The
  result is the chosen \<open>s\<close>, if one of them reads back as \<open>x\<close>.
\<close>

definition pick_candidate :: "jsnum \<Rightarrow> nat \<Rightarrow> nat \<Rightarrow> int \<Rightarrow> nat \<Rightarrow> nat option" where
  "pick_candidate x p q e lo =
     (if scale_decimal False lo e = x then
        (if scale_decimal False (lo + 1) e = x then Some (nearest_candidate p q e lo) else Some lo)
      else if scale_decimal False (lo + 1) e = x then Some (lo + 1)
      else None)"

text \<open>
  The search for the least number of digits. Seventeen digits always identify a binary64
  value; at seventeen the nearer candidate is taken.
\<close>

function shortest_digits :: "jsnum \<Rightarrow> nat \<Rightarrow> nat \<Rightarrow> int \<Rightarrow> nat \<Rightarrow> nat \<times> nat" where
  "shortest_digits x p q n k =
     (if 17 \<le> k then (nearest_candidate p q (n - int k) (scaled_floor p q (n - int k)), k)
      else
        (case pick_candidate x p q (n - int k) (scaled_floor p q (n - int k)) of
           Some s \<Rightarrow> (s, k)
         | None \<Rightarrow> shortest_digits x p q n (k + 1)))"
  by pat_completeness auto
termination
  by (relation "measure (\<lambda>(x, p, q, n, k). 17 - k)") auto

text \<open>
  The digits of \<open>s\<close> placed by \<open>n\<close>. A candidate \<open>s = 10 ^ k\<close> has \<open>k + 1\<close> digits; it stands
  for the digit \<open>1\<close> with the exponent \<open>n + 1\<close>.
\<close>

definition exponent_text :: "int \<Rightarrow> string" where
  "exponent_text e = (if e < 0 then ''e-'' @ digits_of_nat (nat (- e)) else ''e+'' @ digits_of_nat (nat e))"

definition place_point :: "string \<Rightarrow> int \<Rightarrow> string" where
  "place_point ds n =
     (if int (length ds) \<le> n \<and> n \<le> 21 then ds @ replicate (nat n - length ds) CHR ''0''
      else if 0 < n \<and> n \<le> 21 then take (nat n) ds @ ''.'' @ drop (nat n) ds
      else if - 6 < n \<and> n \<le> 0 then ''0.'' @ replicate (nat (- n)) CHR ''0'' @ ds
      else if length ds = 1 then ds @ exponent_text (n - 1)
      else take 1 ds @ ''.'' @ drop 1 ds @ exponent_text (n - 1))"

definition print_digits :: "nat \<times> nat \<Rightarrow> int \<Rightarrow> string" where
  "print_digits sk n =
     (if fst sk = 10 ^ snd sk then place_point ''1'' (n + 1)
      else place_point (digits_of_nat (fst sk)) n)"

definition toString_positive :: "nat \<Rightarrow> nat \<Rightarrow> string" where
  "toString_positive m k =
     print_digits
       (shortest_digits (Num (int m) k) m (2 ^ k) (decimal_exponent m (2 ^ k)) 1)
       (decimal_exponent m (2 ^ k))"

fun toString :: "jsnum \<Rightarrow> string" where
  "toString NaN = ''NaN''"
| "toString PosInfinity = ''Infinity''"
| "toString NegInfinity = ''-Infinity''"
| "toString (Num m k) =
     (if m = 0 then ''0''
      else if m < 0 then ''-'' @ toString_positive (nat (- m)) k
      else toString_positive (nat m) k)"

declare shortest_digits.simps [simp del] toString.simps [simp del]

declare pow10_le_def [js_eval] in_decade_def [js_eval] decimal_exponent_near_def [js_eval]
  decimal_exponent_def [js_eval] scaled_floor_def [js_eval] twice_le_scaled_def [js_eval]
  scaled_le_twice_def [js_eval] nearest_candidate_def [js_eval] pick_candidate_def [js_eval]
  shortest_digits.simps [js_eval] exponent_text_def [js_eval] place_point_def [js_eval]
  print_digits_def [js_eval] toString_positive_def [js_eval] toString.simps [js_eval]

section \<open>Thrown values\<close>

text \<open>
  A JavaScript exception is modelled as a value: the thrown error, identified by its
  message. A computation that can throw returns \<open>js_error + 'a\<close>, with \<open>Inl\<close> the
  thrown error.
\<close>

datatype js_error = JsError string

section \<open>The retry executor (\<open>DataFetcher.retryOperation\<close>)\<close>

text \<open>
  \<^verbatim>\<open>
  async retryOperation(operation, maxRetries = this.maxRetries) {
    for (let attempt = 1; attempt <= maxRetries; attempt++) {
      try {
        return await operation();
      } catch (error) {
        console.error(`Attempt ${attempt} failed:`, error.message);
        if (attempt === maxRetries) {
          throw error;
        }
        await this.delay(this.retryDelay * attempt);
      }
    }
  }
  \<close>
  The operation is effectful: its outcome may differ from call to call. It is modelled
  as the function from the attempt number at which it is invoked to the outcome of that
  invocation. The effects of the loop (invocations, log lines, delays) are recorded in
  a trace, in the order in which they happen. Falling out of the loop returns
  \<open>undefined\<close>, the result \<open>Inr None\<close>.
\<close>

datatype retry_event = Invoked int | LoggedFailure int js_error | Delayed int

type_synonym 'a retry_run = "(js_error + 'a option) \<times> retry_event list"

definition after_events :: "retry_event list \<Rightarrow> 'a retry_run \<Rightarrow> 'a retry_run" where
  "after_events evs run = (fst run, evs @ snd run)"

function retry_loop :: "int \<Rightarrow> (int \<Rightarrow> js_error + 'a) \<Rightarrow> int \<Rightarrow> int \<Rightarrow> 'a retry_run" where
  "retry_loop retryDelay operation maxRetries attempt =
     (if attempt \<le> maxRetries then
        (case operation attempt of
           Inr v \<Rightarrow> (Inr (Some v), [Invoked attempt])
         | Inl e \<Rightarrow>
             if attempt = maxRetries
             then (Inl e, [Invoked attempt, LoggedFailure attempt e])
             else after_events
                    [Invoked attempt, LoggedFailure attempt e, Delayed (retryDelay * attempt)]
                    (retry_loop retryDelay operation maxRetries (attempt + 1)))
      else (Inr None, []))"
  by pat_completeness auto
termination
  by (relation "measure (\<lambda>(d, operation, maxRetries, attempt). nat (maxRetries + 1 - attempt))") auto

definition retryOperation :: "int \<Rightarrow> (int \<Rightarrow> js_error + 'a) \<Rightarrow> int \<Rightarrow> 'a retry_run" where
  "retryOperation retryDelay operation maxRetries = retry_loop retryDelay operation maxRetries 1"

definition invocations :: "retry_event list \<Rightarrow> int list" where
  "invocations tr = concat (map (\<lambda>ev. case ev of Invoked k \<Rightarrow> [k] | _ \<Rightarrow> []) tr)"

definition delays :: "retry_event list \<Rightarrow> int list" where
  "delays tr = concat (map (\<lambda>ev. case ev of Delayed ms \<Rightarrow> [ms] | _ \<Rightarrow> []) tr)"

text \<open>The events of one failed attempt that is followed by another one.\<close>

definition failed_attempt :: "int \<Rightarrow> (int \<Rightarrow> js_error + 'a) \<Rightarrow> int \<Rightarrow> retry_event list" where
  "failed_attempt retryDelay operation j =
     [Invoked j, LoggedFailure j (projl (operation j)), Delayed (retryDelay * j)]"

text \<open>Two operations used as concrete inputs: one that fails twice and then succeeds, one that
  always fails, with a different error on the third attempt.\<close>

definition flaky :: "int \<Rightarrow> js_error + string" where
  "flaky attempt = (if attempt < 3 then Inl (JsError ''timeout'') else Inr ''payload'')"

definition unreachable :: "int \<Rightarrow> js_error + string" where
  "unreachable attempt = Inl (JsError (if attempt = 3 then ''last'' else ''earlier''))"

section \<open>Strings and dates\<close>

text \<open>\<open>String.prototype.toLowerCase\<close> on ASCII text.\<close>

definition lower_char :: "char \<Rightarrow> char" where
  "lower_char c =
     (case map_of (zip ''ABCDEFGHIJKLMNOPQRSTUVWXYZ'' ''abcdefghijklmnopqrstuvwxyz'') c of
        Some l \<Rightarrow> l
      | None \<Rightarrow> c)"

definition toLowerCase :: "string \<Rightarrow> string" where
  "toLowerCase s = map lower_char s"

text \<open>\<open>s.includes(sub)\<close>: \<open>sub\<close> occurs in \<open>s\<close> as a contiguous substring.\<close>

fun str_includes :: "string \<Rightarrow> string \<Rightarrow> bool" where
  "str_includes [] sub = (sub = [])"
| "str_includes (c # cs) sub = (take (length sub) (c # cs) = sub \<or> str_includes cs sub)"

text \<open>A string in a condition: the empty string is falsy.\<close>

definition truthy_str :: "string \<Rightarrow> bool" where
  "truthy_str s = (s \<noteq> [])"

text \<open>
  \<open>a || b\<close> for a property \<open>a\<close> that may be absent (\<open>undefined\<close> or \<open>null\<close>, the value
  \<open>None\<close>): the first operand if it is truthy, the second otherwise.
\<close>

definition or_str :: "string option \<Rightarrow> string \<Rightarrow> string" where
  "or_str a b = (case a of Some s \<Rightarrow> if truthy_str s then s else b | None \<Rightarrow> b)"

definition or_num :: "jsnum option \<Rightarrow> jsnum \<Rightarrow> jsnum" where
  "or_num a b = (case a of Some n \<Rightarrow> if truthy_num n then n else b | None \<Rightarrow> b)"

text \<open>
  A \<open>Date\<close> is a time value in milliseconds since the epoch, or invalid. \<open>new Date(x)\<close>
  for a number \<open>x\<close> clips it: a value that is not finite or beyond \<open>8.64e15\<close> in
  magnitude gives an invalid date, any other is truncated to an integer.
\<close>

datatype js_date = InvalidDate | DateMs int

fun new_Date :: "jsnum \<Rightarrow> js_date" where
  "new_Date (Num m k) =
     (if \<bar>m\<bar> \<le> 8640000000000000 * 2 ^ k then DateMs (sgn m * (\<bar>m\<bar> div 2 ^ k)) else InvalidDate)"
| "new_Date _ = InvalidDate"

text \<open>The error thrown by a property access on \<open>null\<close> or \<open>undefined\<close>.\<close>

definition TypeError :: js_error where
  "TypeError = JsError ''TypeError: Cannot read properties of null''"

declare lower_char_def [js_eval] toLowerCase_def [js_eval] truthy_str_def [js_eval]
  or_str_def [js_eval] or_num_def [js_eval] TypeError_def [js_eval]

section \<open>The web3 utilities behind the unit converter\<close>

subsection \<open>\<open>isValidAddress\<close>\<close>

text \<open>
  \<^verbatim>\<open>
  isValidAddress(address) {
    return this.web3.utils.isAddress(address);
  }
  \<close>
  The method hands its argument to \<open>web3.utils.isAddress\<close> of the web3.js library, which
  is documented as follows: the string must consist of an optional \<open>0x\<close> prefix (matched
  without regard to case) and 40 hexadecimal digits; if the digits are all lower case or
  all upper case the address is accepted; otherwise the EIP-55 checksum decides. In the
  library's own words:
  \<^verbatim>\<open>
  if (!/^(0x)?[0-9a-f]{40}$/i.test(address)) return false;
  else if (/^(0x|0X)?[0-9a-f]{40}$/.test(address) ||
           /^(0x|0X)?[0-9A-F]{40}$/.test(address)) return true;
  else return checkAddressChecksum(address);
  \<close>
  The checksum test hashes the address with Keccak-256; it is a parameter of the model.
\<close>

definition strip_hex_prefix :: "string \<Rightarrow> string" where
  "strip_hex_prefix s = (if take 2 s = ''0x'' \<or> take 2 s = ''0X'' then drop 2 s else s)"

definition isAddress :: "(string \<Rightarrow> bool) \<Rightarrow> string \<Rightarrow> bool" where
  "isAddress checkAddressChecksum address =
     (if \<not> (length (strip_hex_prefix address) = 40 \<and> list_all is_hex (strip_hex_prefix address))
      then False
      else if list_all is_lower_hex (strip_hex_prefix address)
              \<or> list_all is_upper_hex (strip_hex_prefix address)
      then True
      else checkAddressChecksum address)"

definition isValidAddress :: "(string \<Rightarrow> bool) \<Rightarrow> string \<Rightarrow> bool" where
  "isValidAddress checkAddressChecksum address = isAddress checkAddressChecksum address"

text \<open>
  The format the specification states for a valid address, \<open>/^0x[0-9a-fA-F]{40}$/\<close>: the
  prefix \<open>0x\<close> followed by exactly 40 hexadecimal digits of either case.
\<close>

definition matches_0x_hex40 :: "string \<Rightarrow> bool" where
  "matches_0x_hex40 s = (take 2 s = ''0x'' \<and> length (drop 2 s) = 40 \<and> list_all is_hex (drop 2 s))"

text \<open>
  A stand-in for the checksum test in concrete inputs whose digits are of one case, where
  the test is never consulted.
\<close>

definition checksum_not_consulted :: "string \<Rightarrow> bool" where
  "checksum_not_consulted address = False"

subsection \<open>\<open>toWei\<close> and \<open>fromWei\<close>\<close>

text \<open>
  \<^verbatim>\<open>
  toWei(amount, unit = "ether")   { return this.web3.utils.toWei(amount, unit); }
  fromWei(amount, unit = "ether") { return this.web3.utils.fromWei(amount, unit); }
  \<close>
  Both methods delegate to the web3.js library, whose code is not among the sources.
\<close>

definition InvalidAmount :: js_error where
  "InvalidAmount = JsError ''InvalidAmount''"

definition InvalidUnit :: js_error where
  "InvalidUnit = JsError ''InvalidUnit''"

definition is_numeric :: "string \<Rightarrow> bool" where
  "is_numeric s = (s \<noteq> [] \<and> list_all is_digit s)"

definition strip_trailing_zeros :: "string \<Rightarrow> string" where
  "strip_trailing_zeros s = rev (dropWhile (\<lambda>c. c = CHR ''0'') (rev s))"

definition pad_left :: "nat \<Rightarrow> string \<Rightarrow> string" where
  "pad_left n s = replicate (n - length s) CHR ''0'' @ s"

definition pad_right :: "nat \<Rightarrow> string \<Rightarrow> string" where
  "pad_right n s = s @ replicate (n - length s) CHR ''0''"

definition join_decimal :: "string \<Rightarrow> string \<Rightarrow> string" where
  "join_decimal ip fp = (if fp = [] then ip else ip @ ''.'' @ fp)"

text \<open>
  Modelled from the spec: the number of decimals of a unit, missing from the sources with
  the library. The specification names one convention, 18-decimal fixed point, which is
  the unit \<open>ether\<close> that every call in the repository uses.
\<close>

definition unit_decimals :: "string \<Rightarrow> nat option" where
  "unit_decimals unit = (if unit = ''ether'' then Some 18 else None)"

text \<open>
  Modelled from the spec: \<open>web3.utils.fromWei\<close>, missing from the sources.
  \<open>fromBaseUnits(baseAmount, unit)\<close> takes an integer string of base units to the decimal
  string of the amount in the unit, by fixed-point arithmetic on the digits, and fails
  with \<open>InvalidAmount\<close> when the input is not a valid numeric string. The result has no
  trailing zeros in its fraction, and no fraction when the amount is whole.
\<close>

definition fromWei :: "string \<Rightarrow> string \<Rightarrow> js_error + string" where
  "fromWei amount unit =
     (case unit_decimals unit of
        None \<Rightarrow> Inl InvalidUnit
      | Some n \<Rightarrow>
          if \<not> is_numeric amount then Inl InvalidAmount
          else Inr (join_decimal
                 (digits_of_nat (nat_of_digits amount div 10 ^ n))
                 (strip_trailing_zeros (pad_left n (digits_of_nat (nat_of_digits amount mod 10 ^ n))))))"

text \<open>
  Modelled from the spec: \<open>web3.utils.toWei\<close>, missing from the sources.
  \<open>toBaseUnits(decimalAmount, unit)\<close> takes a decimal string (digits, with an optional
  fraction of at most as many digits as the unit has decimals) to the integer string of
  base units, and fails with \<open>InvalidAmount\<close> on any other input.
\<close>

definition toWei_fraction :: "nat \<Rightarrow> string \<Rightarrow> string \<Rightarrow> js_error + string" where
  "toWei_fraction n ip rest =
     (if ip = [] then Inl InvalidAmount
      else if rest = [] then Inr (digits_of_nat (nat_of_digits ip * 10 ^ n))
      else if take 1 rest = ''.'' \<and> is_numeric (drop 1 rest) \<and> length (drop 1 rest) \<le> n
      then Inr (digits_of_nat (nat_of_digits ip * 10 ^ n + nat_of_digits (pad_right n (drop 1 rest))))
      else Inl InvalidAmount)"

definition toWei :: "string \<Rightarrow> string \<Rightarrow> js_error + string" where
  "toWei amount unit =
     (case unit_decimals unit of
        None \<Rightarrow> Inl InvalidUnit
      | Some n \<Rightarrow> toWei_fraction n (takeWhile is_digit amount) (dropWhile is_digit amount))"

text \<open>The conversion from base units to ether, as the normalizers call it.\<close>

definition fromWei_ether :: "string \<Rightarrow> js_error + string" where
  "fromWei_ether amount = fromWei amount ''ether''"

text \<open>
  A decimal string in the sense of the round-trip property: digits without a redundant
  leading zero, optionally followed by a point and one to eighteen digits.
\<close>

definition canonical_digits :: "string \<Rightarrow> bool" where
  "canonical_digits ds = (is_numeric ds \<and> (ds = ''0'' \<or> take 1 ds \<noteq> ''0''))"

definition valid_decimal :: "string \<Rightarrow> bool" where
  "valid_decimal d =
     (canonical_digits (takeWhile is_digit d)
      \<and> (dropWhile is_digit d = []
         \<or> (take 1 (dropWhile is_digit d) = ''.''
            \<and> is_numeric (drop 1 (dropWhile is_digit d))
            \<and> length (drop 1 (dropWhile is_digit d)) \<le> 18)))"

text \<open>
  Trailing-zero normalization of a decimal string: the zeros at the end of the fraction
  are dropped, and the point with them when no fraction is left.
\<close>

definition normalize_trailing_zeros :: "string \<Rightarrow> string" where
  "normalize_trailing_zeros d =
     join_decimal (takeWhile is_digit d) (strip_trailing_zeros (drop 1 (dropWhile is_digit d)))"

text \<open>
  The round trip of an amount in ether: \<open>fromWei(toWei(d, "ether"), "ether")\<close>, where an
  exception of the first conversion is the exception of the whole.
\<close>

definition round_trip :: "string \<Rightarrow> js_error + string" where
  "round_trip d =
     (case toWei d ''ether'' of Inl e \<Rightarrow> Inl e | Inr w \<Rightarrow> fromWei w ''ether'')"

declare strip_hex_prefix_def [js_eval] isAddress_def [js_eval] isValidAddress_def [js_eval]
  matches_0x_hex40_def [js_eval] checksum_not_consulted_def [js_eval]
  InvalidAmount_def [js_eval] InvalidUnit_def [js_eval] is_numeric_def [js_eval]
  strip_trailing_zeros_def [js_eval] pad_left_def [js_eval] pad_right_def [js_eval]
  join_decimal_def [js_eval] unit_decimals_def [js_eval] fromWei_def [js_eval]
  toWei_fraction_def [js_eval] toWei_def [js_eval] fromWei_ether_def [js_eval]
  canonical_digits_def [js_eval] valid_decimal_def [js_eval] normalize_trailing_zeros_def [js_eval]
  round_trip_def [js_eval]

section \<open>Delegation normalization (\<open>DataFetcher.transformRestakingData\<close>)\<close>

text \<open>
  The raw payload of the subgraph query \<open>GetRestakers\<close>. The scalars of the subgraph
  (ids, big integers, byte strings) arrive as strings; a nested object that is \<open>null\<close>
  is \<open>None\<close>, and so is a result set that is missing from the payload.
\<close>

record raw_delegation =
  dg_delegator :: "string option"
  dg_operator :: "string option"
  dg_shares :: string
  dg_createdAt :: string
  dg_transactionHash :: string
  dg_blockNumber :: string

record raw_deposit =
  dp_strategy :: "string option"
  dp_shares :: string
  dp_createdAt :: string
  dp_transactionHash :: string
  dp_blockNumber :: string

record raw_staker =
  st_id :: string
  st_deposits :: "raw_deposit list option"

record restaking_data =
  delegations :: "raw_delegation list option"
  stakers :: "raw_staker list option"

text \<open>The canonical delegation record the normalizer emits.\<close>

record restaker =
  userAddress :: string
  amountRestakedStETH :: string
  targetAVSOperatorAddress :: string
  delegationTimestamp :: js_date
  transactionHash :: string
  blockNumber :: jsnum
  status :: string

definition zero_address :: string where
  "zero_address = ''0x0000000000000000000000000000000000000000''"

text \<open>
  The body of the \<open>try\<close> block for one delegation event:
  \<^verbatim>\<open>
  const sharesInEther = this.web3.utils.fromWei(delegation.shares, "ether");
  restakers.push({
    userAddress: delegation.delegator.id,
    amountRestakedStETH: sharesInEther,
    targetAVSOperatorAddress: delegation.operator.id,
    delegationTimestamp: new Date(parseInt(delegation.createdAt) * 1000),
    transactionHash: delegation.transactionHash,
    blockNumber: parseInt(delegation.blockNumber),
    status: "active",
  });
  \<close>
  The conversion \<open>fw\<close> stands for \<open>web3.utils.fromWei(_, "ether")\<close>; it may throw, and so
  does reading \<open>id\<close> of a delegator or operator that is \<open>null\<close>.
\<close>

definition transform_delegation :: "(string \<Rightarrow> js_error + string) \<Rightarrow> raw_delegation \<Rightarrow> js_error + restaker" where
  "transform_delegation fw delegation =
     (case fw (dg_shares delegation) of
        Inl e \<Rightarrow> Inl e
      | Inr sharesInEther \<Rightarrow>
          (case dg_delegator delegation of
             None \<Rightarrow> Inl TypeError
           | Some delegator_id \<Rightarrow>
               (case dg_operator delegation of
                  None \<Rightarrow> Inl TypeError
                | Some operator_id \<Rightarrow>
                    Inr \<lparr>userAddress = delegator_id,
                         amountRestakedStETH = sharesInEther,
                         targetAVSOperatorAddress = operator_id,
                         delegationTimestamp =
                           new_Date (js_mul (parseInt (dg_createdAt delegation)) (Num 1000 0)),
                         transactionHash = dg_transactionHash delegation,
                         blockNumber = parseInt (dg_blockNumber delegation),
                         status = ''active''\<rparr>)))"

text \<open>
  \<open>data.delegations.forEach\<close> with its \<open>try\<close>/\<open>catch\<close>: a record is pushed for an event
  that transforms, the error of any other event is written to the console and the
  loop goes on. The state of the loop is the array \<open>restakers\<close> and the console.
\<close>

fun delegations_forEach ::
  "(string \<Rightarrow> js_error + string) \<Rightarrow> raw_delegation list \<Rightarrow> restaker list \<times> js_error list
     \<Rightarrow> restaker list \<times> js_error list" where
  "delegations_forEach fw [] acc = acc"
| "delegations_forEach fw (delegation # rest) (restakers, console) =
     (case transform_delegation fw delegation of
        Inr r \<Rightarrow> delegations_forEach fw rest (restakers @ [r], console)
      | Inl e \<Rightarrow> delegations_forEach fw rest (restakers, console @ [e]))"

text \<open>
  The filter on a staker's deposits,
  \<^verbatim>\<open>
  deposit.strategy.id.toLowerCase().includes("steth") ||
  deposit.strategy.id === process.env.STETH_STRATEGY_ADDRESS?.toLowerCase()
  \<close>
  which stands outside every \<open>try\<close> block: a deposit without a strategy throws.
\<close>

definition is_stETH_deposit :: "string option \<Rightarrow> raw_deposit \<Rightarrow> js_error + bool" where
  "is_stETH_deposit STETH_STRATEGY_ADDRESS deposit =
     (case dp_strategy deposit of
        None \<Rightarrow> Inl TypeError
      | Some strategy_id \<Rightarrow>
          Inr (str_includes (toLowerCase strategy_id) ''steth''
               \<or> (case STETH_STRATEGY_ADDRESS of
                     None \<Rightarrow> False
                   | Some a \<Rightarrow> strategy_id = toLowerCase a)))"

fun deposits_filter :: "string option \<Rightarrow> raw_deposit list \<Rightarrow> js_error + raw_deposit list" where
  "deposits_filter env [] = Inr []"
| "deposits_filter env (deposit # rest) =
     (case is_stETH_deposit env deposit of
        Inl e \<Rightarrow> Inl e
      | Inr keep \<Rightarrow>
          (case deposits_filter env rest of
             Inl e \<Rightarrow> Inl e
           | Inr kept \<Rightarrow> Inr (if keep then deposit # kept else kept)))"

definition transform_deposit :: "(string \<Rightarrow> js_error + string) \<Rightarrow> string \<Rightarrow> raw_deposit \<Rightarrow> js_error + restaker" where
  "transform_deposit fw staker_id deposit =
     (case fw (dp_shares deposit) of
        Inl e \<Rightarrow> Inl e
      | Inr sharesInEther \<Rightarrow>
          Inr \<lparr>userAddress = staker_id,
               amountRestakedStETH = sharesInEther,
               targetAVSOperatorAddress = zero_address,
               delegationTimestamp = new_Date (js_mul (parseInt (dp_createdAt deposit)) (Num 1000 0)),
               transactionHash = dp_transactionHash deposit,
               blockNumber = parseInt (dp_blockNumber deposit),
               status = ''active''\<rparr>)"

fun deposits_forEach ::
  "(string \<Rightarrow> js_error + string) \<Rightarrow> string \<Rightarrow> raw_deposit list \<Rightarrow> restaker list \<times> js_error list
     \<Rightarrow> restaker list \<times> js_error list" where
  "deposits_forEach fw staker_id [] acc = acc"
| "deposits_forEach fw staker_id (deposit # rest) (restakers, console) =
     (case transform_deposit fw staker_id deposit of
        Inr r \<Rightarrow> deposits_forEach fw staker_id rest (restakers @ [r], console)
      | Inl e \<Rightarrow> deposits_forEach fw staker_id rest (restakers, console @ [e]))"

text \<open>
  \<open>data.stakers.forEach\<close>: an exception of the filter, or of reading \<open>deposits\<close> of a staker
  that has none, ends the whole normalizer.
\<close>

fun stakers_forEach ::
  "(string \<Rightarrow> js_error + string) \<Rightarrow> string option \<Rightarrow> raw_staker list \<Rightarrow> restaker list \<times> js_error list
     \<Rightarrow> js_error + restaker list \<times> js_error list" where
  "stakers_forEach fw env [] acc = Inr acc"
| "stakers_forEach fw env (staker # rest) acc =
     (case st_deposits staker of
        None \<Rightarrow> Inl TypeError
      | Some deposits \<Rightarrow>
          (case deposits_filter env deposits of
             Inl e \<Rightarrow> Inl e
           | Inr stETHDeposits \<Rightarrow>
               stakers_forEach fw env rest (deposits_forEach fw (st_id staker) stETHDeposits acc)))"

text \<open>
  The normalizer. Its result is the exception that escapes it, or the array it returns
  together with the errors written to the console on the way.
\<close>

definition transformRestakingData ::
  "(string \<Rightarrow> js_error + string) \<Rightarrow> string option \<Rightarrow> restaking_data
     \<Rightarrow> js_error + restaker list \<times> js_error list" where
  "transformRestakingData fw STETH_STRATEGY_ADDRESS data =
     (case stakers data of
        None \<Rightarrow>
          Inr (case delegations data of
                 None \<Rightarrow> ([], [])
               | Some ds \<Rightarrow> delegations_forEach fw ds ([], []))
      | Some ss \<Rightarrow>
          stakers_forEach fw STETH_STRATEGY_ADDRESS ss
            (case delegations data of
               None \<Rightarrow> ([], [])
             | Some ds \<Rightarrow> delegations_forEach fw ds ([], [])))"

text \<open>
  What the claim about fault isolation calls a well-formed event, and the record it
  stands for.
\<close>

definition well_formed_delegation :: "(string \<Rightarrow> js_error + string) \<Rightarrow> raw_delegation \<Rightarrow> bool" where
  "well_formed_delegation fw delegation =
     (\<not> isl (fw (dg_shares delegation)) \<and> dg_delegator delegation \<noteq> None
      \<and> dg_operator delegation \<noteq> None)"

definition delegation_record :: "(string \<Rightarrow> js_error + string) \<Rightarrow> raw_delegation \<Rightarrow> restaker" where
  "delegation_record fw delegation =
     \<lparr>userAddress = the (dg_delegator delegation),
      amountRestakedStETH = projr (fw (dg_shares delegation)),
      targetAVSOperatorAddress = the (dg_operator delegation),
      delegationTimestamp = new_Date (js_mul (parseInt (dg_createdAt delegation)) (Num 1000 0)),
      transactionHash = dg_transactionHash delegation,
      blockNumber = parseInt (dg_blockNumber delegation),
      status = ''active''\<rparr>"

text \<open>
  The staker part of a payload is readable when every staker has its array of deposits and
  every deposit its strategy: then neither the filter nor the loop over the stakers reads
  a property of \<open>null\<close> or \<open>undefined\<close>. A payload without stakers has nothing to read.
\<close>

definition staker_list :: "restaking_data \<Rightarrow> raw_staker list" where
  "staker_list data = (case stakers data of None \<Rightarrow> [] | Some ss \<Rightarrow> ss)"

definition readable_staker :: "raw_staker \<Rightarrow> bool" where
  "readable_staker staker =
     (case st_deposits staker of
        None \<Rightarrow> False
      | Some deposits \<Rightarrow> list_all (\<lambda>deposit. dp_strategy deposit \<noteq> None) deposits)"

text \<open>
  The deposits of a staker that pass the filter, and of these the ones whose shares
  convert; the record of such a deposit, and the records and console lines of a list of
  stakers.
\<close>

definition passes_filter :: "string option \<Rightarrow> raw_deposit \<Rightarrow> bool" where
  "passes_filter STETH_STRATEGY_ADDRESS deposit =
     (case dp_strategy deposit of
        None \<Rightarrow> False
      | Some strategy_id \<Rightarrow>
          (str_includes (toLowerCase strategy_id) ''steth''
           \<or> (case STETH_STRATEGY_ADDRESS of
                 None \<Rightarrow> False
               | Some a \<Rightarrow> strategy_id = toLowerCase a)))"

definition stETH_deposits :: "string option \<Rightarrow> raw_staker \<Rightarrow> raw_deposit list" where
  "stETH_deposits STETH_STRATEGY_ADDRESS staker =
     filter (passes_filter STETH_STRATEGY_ADDRESS)
       (case st_deposits staker of None \<Rightarrow> [] | Some deposits \<Rightarrow> deposits)"

definition converts :: "(string \<Rightarrow> js_error + string) \<Rightarrow> raw_deposit \<Rightarrow> bool" where
  "converts fw deposit = (\<not> isl (fw (dp_shares deposit)))"

definition deposit_record :: "(string \<Rightarrow> js_error + string) \<Rightarrow> string \<Rightarrow> raw_deposit \<Rightarrow> restaker" where
  "deposit_record fw staker_id deposit =
     \<lparr>userAddress = staker_id,
      amountRestakedStETH = projr (fw (dp_shares deposit)),
      targetAVSOperatorAddress = zero_address,
      delegationTimestamp = new_Date (js_mul (parseInt (dp_createdAt deposit)) (Num 1000 0)),
      transactionHash = dp_transactionHash deposit,
      blockNumber = parseInt (dp_blockNumber deposit),
      status = ''active''\<rparr>"

definition staker_records ::
  "(string \<Rightarrow> js_error + string) \<Rightarrow> string option \<Rightarrow> raw_staker \<Rightarrow> restaker list" where
  "staker_records fw STETH_STRATEGY_ADDRESS staker =
     map (deposit_record fw (st_id staker))
       (filter (converts fw) (stETH_deposits STETH_STRATEGY_ADDRESS staker))"

definition staker_errors ::
  "(string \<Rightarrow> js_error + string) \<Rightarrow> string option \<Rightarrow> raw_staker \<Rightarrow> js_error list" where
  "staker_errors fw STETH_STRATEGY_ADDRESS staker =
     map (\<lambda>deposit. projl (fw (dp_shares deposit)))
       (filter (\<lambda>deposit. \<not> converts fw deposit) (stETH_deposits STETH_STRATEGY_ADDRESS staker))"

text \<open>The console lines of a batch of delegation events.\<close>

definition delegation_errors ::
  "(string \<Rightarrow> js_error + string) \<Rightarrow> raw_delegation list \<Rightarrow> js_error list" where
  "delegation_errors fw ds =
     map (\<lambda>delegation. projl (transform_delegation fw delegation))
       (filter (\<lambda>delegation. \<not> well_formed_delegation fw delegation) ds)"

text \<open>A batch of five delegation events; the third has a non-numeric \<open>shares\<close> field.\<close>

definition sample_delegation :: "string \<Rightarrow> string \<Rightarrow> raw_delegation" where
  "sample_delegation user shares =
     \<lparr>dg_delegator = Some user,
      dg_operator = Some ''0x1234567890123456789012345678901234567890'',
      dg_shares = shares,
      dg_createdAt = ''1700000000'',
      dg_transactionHash = ''0xabababababababababababababababababababababababababababababababab'',
      dg_blockNumber = ''18000000''\<rparr>"

definition five_events :: "raw_delegation list" where
  "five_events =
     [sample_delegation ''0xa1a1a1a1a1a1a1a1a1a1a1a1a1a1a1a1a1a1a1a1'' ''1000000000000000000'',
      sample_delegation ''0xa2a2a2a2a2a2a2a2a2a2a2a2a2a2a2a2a2a2a2a2'' ''2500000000000000000'',
      sample_delegation ''0xa3a3a3a3a3a3a3a3a3a3a3a3a3a3a3a3a3a3a3a3'' ''not-a-number'',
      sample_delegation ''0xa4a4a4a4a4a4a4a4a4a4a4a4a4a4a4a4a4a4a4a4'' ''100000000000000000'',
      sample_delegation ''0xa5a5a5a5a5a5a5a5a5a5a5a5a5a5a5a5a5a5a5a5'' ''0'']"

text \<open>
  A staker with four deposits: one in a strategy named after stETH, one in the configured
  strategy, one in another strategy, and one in a stETH strategy whose shares are not a
  number; the configured strategy address, written in upper case; and a staker whose
  deposit carries no strategy.
\<close>

definition sample_deposit :: "string option \<Rightarrow> string \<Rightarrow> raw_deposit" where
  "sample_deposit strategy shares =
     \<lparr>dp_strategy = strategy,
      dp_shares = shares,
      dp_createdAt = ''1700000100'',
      dp_transactionHash = ''0xabababababababababababababababababababababababababababababababab'',
      dp_blockNumber = ''18000100''\<rparr>"

definition sample_staker :: raw_staker where
  "sample_staker =
     \<lparr>st_id = ''0xa6a6a6a6a6a6a6a6a6a6a6a6a6a6a6a6a6a6a6a6'',
      st_deposits =
        Some [sample_deposit (Some ''stETH-strategy'') ''3000000000000000000'',
              sample_deposit (Some ''0x93c4b944d05dfe6df7645a86cd2206016c51564d'')
                ''4000000000000000000'',
              sample_deposit (Some ''0x1111111111111111111111111111111111111111'')
                ''5000000000000000000'',
              sample_deposit (Some ''0xStEth'') ''1e18'']\<rparr>"

definition configured_strategy :: "string option" where
  "configured_strategy = Some ''0x93C4B944D05DFE6DF7645A86CD2206016C51564D''"

definition staker_without_strategy :: raw_staker where
  "staker_without_strategy =
     \<lparr>st_id = ''0xa6a6a6a6a6a6a6a6a6a6a6a6a6a6a6a6a6a6a6a6'',
      st_deposits = Some [sample_deposit None ''3000000000000000000'']\<rparr>"

declare zero_address_def [js_eval] transform_delegation_def [js_eval]
  is_stETH_deposit_def [js_eval] transform_deposit_def [js_eval]
  transformRestakingData_def [js_eval] well_formed_delegation_def [js_eval]
  delegation_record_def [js_eval] sample_delegation_def [js_eval] five_events_def [js_eval]
  staker_list_def [js_eval] readable_staker_def [js_eval] passes_filter_def [js_eval]
  stETH_deposits_def [js_eval] converts_def [js_eval] deposit_record_def [js_eval]
  staker_records_def [js_eval] staker_errors_def [js_eval] delegation_errors_def [js_eval]
  sample_deposit_def [js_eval] sample_staker_def [js_eval] configured_strategy_def [js_eval] staker_without_strategy_def [js_eval]

section \<open>Operator normalization (\<open>DataFetcher.transformValidatorData\<close>)\<close>

record raw_slashing =
  sl_operator :: "string option"
  sl_amount :: string
  sl_createdAt :: string
  sl_transactionHash :: string
  sl_blockNumber :: string

record raw_operator =
  op_id :: string
  op_metadataURI :: "string option"
  op_totalShares :: "string option"
  op_createdAt :: string

record validator_data =
  operators :: "raw_operator list option"
  slashings :: "raw_slashing list option"

record slash_event =
  se_timestamp :: jsnum
  se_amountStETH :: string
  se_reason :: string
  se_transactionHash :: string
  se_blockNumber :: jsnum

text \<open>
  The operator record, as the normalizer builds it and as it is persisted. The field
  \<open>lastUpdated\<close> belongs to the persisted document only (the schema's default sets it);
  the normalizer's object does not have it, which is the value \<open>None\<close>.
\<close>

record validator =
  operatorAddress :: string
  totalDelegatedStakeStETH :: string
  slashHistory :: "slash_event list"
  v_status :: string
  registrationTimestamp :: js_date
  lastActivityTimestamp :: js_date
  delegatorCount :: nat
  commission :: nat
  metadataURI :: "string option"
  lastUpdated :: "js_date option"

text \<open>
  The first loop, outside every \<open>try\<close> block:
  \<^verbatim>\<open>
  data.slashings.forEach((slash) => {
    if (!slashingMap.has(slash.operator.id)) {
      slashingMap.set(slash.operator.id, []);
    }
    slashingMap.get(slash.operator.id).push({
      timestamp: parseInt(slash.createdAt),
      amountStETH: this.web3.utils.fromWei(slash.amount, "ether"),
      reason: "Protocol violation", // Default reason
      transactionHash: slash.transactionHash,
      blockNumber: parseInt(slash.blockNumber),
    });
  });
  \<close>
  The \<open>Map\<close> is a map from operator ids to arrays of slash events.
\<close>

definition slash_event_of :: "(string \<Rightarrow> js_error + string) \<Rightarrow> raw_slashing \<Rightarrow> js_error + slash_event" where
  "slash_event_of fw slash =
     (case fw (sl_amount slash) of
        Inl e \<Rightarrow> Inl e
      | Inr amount \<Rightarrow>
          Inr \<lparr>se_timestamp = parseInt (sl_createdAt slash),
               se_amountStETH = amount,
               se_reason = ''Protocol violation'',
               se_transactionHash = sl_transactionHash slash,
               se_blockNumber = parseInt (sl_blockNumber slash)\<rparr>)"

fun slashings_forEach ::
  "(string \<Rightarrow> js_error + string) \<Rightarrow> raw_slashing list \<Rightarrow> (string \<rightharpoonup> slash_event list)
     \<Rightarrow> js_error + (string \<rightharpoonup> slash_event list)" where
  "slashings_forEach fw [] slashingMap = Inr slashingMap"
| "slashings_forEach fw (slash # rest) slashingMap =
     (case sl_operator slash of
        None \<Rightarrow> Inl TypeError
      | Some operator_id \<Rightarrow>
          (case slash_event_of fw slash of
             Inl e \<Rightarrow> Inl e
           | Inr ev \<Rightarrow>
               slashings_forEach fw rest
                 (slashingMap(operator_id \<mapsto>
                    (case slashingMap operator_id of None \<Rightarrow> [] | Some evs \<Rightarrow> evs) @ [ev]))))"

text \<open>
  The body of the \<open>try\<close> block for one operator:
  \<^verbatim>\<open>
  const totalStake = this.web3.utils.fromWei(operator.totalShares || "0", "ether");
  const slashHistory = slashingMap.get(operator.id) || [];
  const hasBeenSlashed = slashHistory.length > 0;
  validators.push({
    operatorAddress: operator.id,
    totalDelegatedStakeStETH: totalStake,
    slashHistory: slashHistory,
    status: hasBeenSlashed ? "slashed" : "active",
    registrationTimestamp: new Date(parseInt(operator.createdAt) * 1000),
    lastActivityTimestamp: new Date(),
    delegatorCount: 0, // Will be calculated from delegations
    commission: 0, // Default commission
    metadata: { metadataURI: operator.metadataURI },
  });
  \<close>
  The current time \<open>now\<close> is a parameter.
\<close>

definition transform_operator ::
  "(string \<Rightarrow> js_error + string) \<Rightarrow> js_date \<Rightarrow> (string \<rightharpoonup> slash_event list) \<Rightarrow> raw_operator
     \<Rightarrow> js_error + validator" where
  "transform_operator fw now slashingMap operator =
     (case fw (or_str (op_totalShares operator) ''0'') of
        Inl e \<Rightarrow> Inl e
      | Inr totalStake \<Rightarrow>
          Inr \<lparr>operatorAddress = op_id operator,
               totalDelegatedStakeStETH = totalStake,
               slashHistory = (case slashingMap (op_id operator) of None \<Rightarrow> [] | Some evs \<Rightarrow> evs),
               v_status =
                 (if 0 < length (case slashingMap (op_id operator) of None \<Rightarrow> [] | Some evs \<Rightarrow> evs)
                  then ''slashed'' else ''active''),
               registrationTimestamp = new_Date (js_mul (parseInt (op_createdAt operator)) (Num 1000 0)),
               lastActivityTimestamp = now,
               delegatorCount = 0,
               commission = 0,
               metadataURI = op_metadataURI operator,
               lastUpdated = None\<rparr>)"

fun operators_forEach ::
  "(string \<Rightarrow> js_error + string) \<Rightarrow> js_date \<Rightarrow> (string \<rightharpoonup> slash_event list) \<Rightarrow> raw_operator list
     \<Rightarrow> validator list \<times> js_error list \<Rightarrow> validator list \<times> js_error list" where
  "operators_forEach fw now slashingMap [] acc = acc"
| "operators_forEach fw now slashingMap (operator # rest) (validators, console) =
     (case transform_operator fw now slashingMap operator of
        Inr v \<Rightarrow> operators_forEach fw now slashingMap rest (validators @ [v], console)
      | Inl e \<Rightarrow> operators_forEach fw now slashingMap rest (validators, console @ [e]))"

definition transformValidatorData ::
  "(string \<Rightarrow> js_error + string) \<Rightarrow> js_date \<Rightarrow> validator_data \<Rightarrow> js_error + validator list \<times> js_error list" where
  "transformValidatorData fw now data =
     (case (case slashings data of
              None \<Rightarrow> Inr Map.empty
            | Some ss \<Rightarrow> slashings_forEach fw ss Map.empty) of
        Inl e \<Rightarrow> Inl e
      | Inr slashingMap \<Rightarrow>
          Inr (case operators data of
                 None \<Rightarrow> ([], [])
               | Some os \<Rightarrow> operators_forEach fw now slashingMap os ([], [])))"

text \<open>The slash events of one operator among a list of raw slashing events, in their order.\<close>

definition slashes_of :: "(string \<Rightarrow> js_error + string) \<Rightarrow> string \<Rightarrow> raw_slashing list \<Rightarrow> slash_event list" where
  "slashes_of fw operator_id ss =
     map (\<lambda>slash. projr (slash_event_of fw slash))
       (filter (\<lambda>slash. sl_operator slash = Some operator_id) ss)"

text \<open>\<open>slashingMap.get(id) || []\<close>.\<close>

definition history_of :: "(string \<rightharpoonup> slash_event list) \<Rightarrow> string \<Rightarrow> slash_event list" where
  "history_of m operator_id = (case m operator_id of None \<Rightarrow> [] | Some evs \<Rightarrow> evs)"

text \<open>The operators whose stake converts: the others are skipped by the \<open>catch\<close> block.\<close>

definition stake_converts :: "(string \<Rightarrow> js_error + string) \<Rightarrow> raw_operator \<Rightarrow> bool" where
  "stake_converts fw operator = (\<not> isl (fw (or_str (op_totalShares operator) ''0'')))"

text \<open>
  A payload with two operators, the first without a total-shares field, and one slashing
  event, of the second operator.
\<close>

definition sample_validator_data :: validator_data where
  "sample_validator_data =
     \<lparr>operators =
        Some [\<lparr>op_id = ''0x01'', op_metadataURI = None, op_totalShares = None,
                op_createdAt = ''1600000000''\<rparr>,
              \<lparr>op_id = ''0x02'', op_metadataURI = None, op_totalShares = Some ''2000000000000000000'',
                op_createdAt = ''1600000000''\<rparr>],
      slashings =
        Some [\<lparr>sl_operator = Some ''0x02'', sl_amount = ''500000000000000000'',
                sl_createdAt = ''1700000000'', sl_transactionHash = ''0xabc'',
                sl_blockNumber = ''18000000''\<rparr>]\<rparr>"

subsection \<open>\<open>Validator.addSlashEvent\<close>\<close>

text \<open>
  \<^verbatim>\<open>
  validatorSchema.methods.addSlashEvent = function (slashData) {
    this.slashHistory.push(slashData);
    if (this.status === "active") {
      this.status = "slashed";
    }
    return this.save();
  };
  validatorSchema.pre("save", function (next) {
    this.lastUpdated = new Date();
    next();
  });
  \<close>
  The document after the method has run, with the hook of \<open>save\<close> applied.
\<close>

definition validator_pre_save :: "js_date \<Rightarrow> validator \<Rightarrow> validator" where
  "validator_pre_save now v = v\<lparr>lastUpdated := Some now\<rparr>"

definition addSlashEvent :: "js_date \<Rightarrow> slash_event \<Rightarrow> validator \<Rightarrow> validator" where
  "addSlashEvent now slashData v =
     validator_pre_save now
       ((v\<lparr>slashHistory := slashHistory v @ [slashData]\<rparr>)
          \<lparr>v_status := (if v_status v = ''active'' then ''slashed'' else v_status v)\<rparr>)"

subsection \<open>The subgraph query of \<open>fetchValidatorData\<close>\<close>

text \<open>
  \<^verbatim>\<open>
  query GetOperators($first: Int!, $skip: Int!) {
    operators(first: $first, skip: $skip, orderBy: createdAt, orderDirection: desc) { ... }
    slashings(first: 100, orderBy: createdAt, orderDirection: desc) { ... }
  }
  \<close>
  A selection of the query names a result set and gives its page: the argument \<open>first\<close>
  and, when present, the argument \<open>skip\<close>, each a variable of the query or a literal.
  Both selections are ordered by \<open>createdAt\<close>, descending.
\<close>

datatype gql_arg = Variable string | Literal int

record gql_selection =
  sel_first :: gql_arg
  sel_skip :: "gql_arg option"

record operators_query =
  q_operators :: gql_selection
  q_slashings :: gql_selection

definition GetOperators :: operators_query where
  "GetOperators =
     \<lparr>q_operators = \<lparr>sel_first = Variable ''first'', sel_skip = Some (Variable ''skip'')\<rparr>,
      q_slashings = \<lparr>sel_first = Literal 100, sel_skip = None\<rparr>\<rparr>"

text \<open>The variables \<open>{ first, skip }\<close> that \<open>fetchValidatorData\<close> sends with the query.\<close>

definition query_variables :: "int \<Rightarrow> int \<Rightarrow> (string \<rightharpoonup> int)" where
  "query_variables first skip = [''first'' \<mapsto> first, ''skip'' \<mapsto> skip]"

text \<open>
  How the indexing service reads a page: an argument is its literal or the value of its
  variable, a missing \<open>skip\<close> is \<open>0\<close>, and the page of a result set is what remains of it
  after skipping \<open>skip\<close> entries, cut at \<open>first\<close> entries.
\<close>

definition arg_value :: "(string \<rightharpoonup> int) \<Rightarrow> gql_arg \<Rightarrow> int" where
  "arg_value vars a = (case a of Literal n \<Rightarrow> n | Variable x \<Rightarrow> (case vars x of Some n \<Rightarrow> n | None \<Rightarrow> 0))"

definition page_first :: "(string \<rightharpoonup> int) \<Rightarrow> gql_selection \<Rightarrow> int" where
  "page_first vars sel = arg_value vars (sel_first sel)"

definition page_skip :: "(string \<rightharpoonup> int) \<Rightarrow> gql_selection \<Rightarrow> int" where
  "page_skip vars sel = (case sel_skip sel of None \<Rightarrow> 0 | Some a \<Rightarrow> arg_value vars a)"

definition page_of :: "(string \<rightharpoonup> int) \<Rightarrow> gql_selection \<Rightarrow> 'a list \<Rightarrow> 'a list" where
  "page_of vars sel xs = take (nat (page_first vars sel)) (drop (nat (page_skip vars sel)) xs)"

text \<open>
  The upstream state of the indexing service: all its operators and all its slashing
  events, each in the order of the query (most recently created first).
\<close>

record upstream =
  up_operators :: "raw_operator list"
  up_slashings :: "raw_slashing list"

definition subgraph_response :: "upstream \<Rightarrow> operators_query \<Rightarrow> (string \<rightharpoonup> int) \<Rightarrow> validator_data" where
  "subgraph_response up q vars =
     \<lparr>operators = Some (page_of vars (q_operators q) (up_operators up)),
      slashings = Some (page_of vars (q_slashings q) (up_slashings up))\<rparr>"

text \<open>
  \<^verbatim>\<open>
  return await this.retryOperation(async () => {
    const data = await request(this.eigenlayerSubgraphUrl, query, { first, skip });
    return this.transformValidatorData(data);
  });
  \<close>
  The network is the function \<open>request\<close> from the attempt number, the query and its
  variables to the payload or the error of that request; \<open>now\<close> gives the time of each
  attempt.
\<close>

definition fetchValidatorData ::
  "(string \<Rightarrow> js_error + string) \<Rightarrow> int \<Rightarrow> int \<Rightarrow> (int \<Rightarrow> js_date)
     \<Rightarrow> (int \<Rightarrow> operators_query \<Rightarrow> (string \<rightharpoonup> int) \<Rightarrow> js_error + validator_data)
     \<Rightarrow> int \<Rightarrow> int \<Rightarrow> (validator list \<times> js_error list) retry_run" where
  "fetchValidatorData fw retryDelay maxRetries now request first skip =
     retryOperation retryDelay
       (\<lambda>attempt.
          case request attempt GetOperators (query_variables first skip) of
            Inl e \<Rightarrow> Inl e
          | Inr data \<Rightarrow> transformValidatorData fw (now attempt) data)
       maxRetries"

text \<open>
  An upstream state with one operator, \<open>0x01\<close>, and 101 slashing events: the 100 most
  recent ones of another operator, the oldest one of \<open>0x01\<close>. The service answers every
  request from it.
\<close>

definition slashing_of :: "string \<Rightarrow> raw_slashing" where
  "slashing_of operator_id =
     \<lparr>sl_operator = Some operator_id, sl_amount = ''0'', sl_createdAt = ''1700000000'',
      sl_transactionHash = ''0xabc'', sl_blockNumber = ''18000000''\<rparr>"

definition busy_upstream :: upstream where
  "busy_upstream =
     \<lparr>up_operators =
        [\<lparr>op_id = ''0x01'', op_metadataURI = None, op_totalShares = None,
          op_createdAt = ''1600000000''\<rparr>],
      up_slashings = replicate 100 (slashing_of ''0x02'') @ [slashing_of ''0x01'']\<rparr>"

definition busy_service :: "int \<Rightarrow> operators_query \<Rightarrow> (string \<rightharpoonup> int) \<Rightarrow> js_error + validator_data" where
  "busy_service attempt q vars = Inr (subgraph_response busy_upstream q vars)"

definition epoch_clock :: "int \<Rightarrow> js_date" where
  "epoch_clock attempt = DateMs 0"

declare history_of_def [js_eval] slashing_of_def [js_eval] busy_upstream_def [js_eval]
  busy_service_def [js_eval] epoch_clock_def [js_eval] stake_converts_def [js_eval] sample_validator_data_def [js_eval]
  slash_event_of_def [js_eval] transform_operator_def [js_eval]
  transformValidatorData_def [js_eval] slashes_of_def [js_eval]
  validator_pre_save_def [js_eval] addSlashEvent_def [js_eval]
  GetOperators_def [js_eval] query_variables_def [js_eval] arg_value_def [js_eval]
  page_first_def [js_eval] page_skip_def [js_eval] page_of_def [js_eval]
  subgraph_response_def [js_eval] fetchValidatorData_def [js_eval]

section \<open>Reward normalization (\<open>DataFetcher.transformRatedRewardsData\<close>)\<close>

text \<open>
  A reward item of the rewards service, with the aliases the normalizer reads. A property
  that is missing is \<open>None\<close>; amounts, addresses and hashes are strings, times and block
  numbers are numbers. An item of the array that is \<open>null\<close> is \<open>None\<close>. The body has the
  array \<open>rewards\<close>, or has none (\<open>None\<close>: the property is missing or is not an array).
\<close>

record raw_reward =
  rw_amount :: "string option"
  rw_value :: "string option"
  rw_operator :: "string option"
  rw_validator :: "string option"
  rw_timestamp :: "jsnum option"
  rw_block_time :: "jsnum option"
  rw_tx_hash :: "string option"
  rw_block_number :: "jsnum option"

record rated_body =
  rewards :: "raw_reward option list option"

record reward_breakdown =
  rb_operatorAddress :: string
  rb_amountStETH :: string
  rb_timestamps :: "jsnum list"
  rb_transactionHashes :: "string list"
  rb_blockNumbers :: "jsnum list"

record reward_payload =
  rp_walletAddress :: string
  rp_totalRewardsReceivedStETH :: string
  rp_rewardsBreakdown :: "reward_breakdown list"

text \<open>
  One turn of \<open>data.rewards.forEach\<close>, on the state \<open>(rewardsBreakdown, totalRewards)\<close>:
  \<^verbatim>\<open>
  const amount = reward.amount || reward.value || "0";
  const operatorAddress = reward.operator || reward.validator ||
    "0x0000000000000000000000000000000000000000";
  const timestamp = reward.timestamp || reward.block_time || Math.floor(Date.now() / 1000);
  rewardsBreakdown.push({
    operatorAddress: operatorAddress,
    amountStETH: this.web3.utils.fromWei(amount, "ether"),
    timestamps: [timestamp],
    transactionHashes: reward.tx_hash ? [reward.tx_hash] : [],
    blockNumbers: reward.block_number ? [reward.block_number] : [],
  });
  totalRewards = (
    parseFloat(totalRewards) + parseFloat(this.web3.utils.fromWei(amount, "ether"))
  ).toString();
  \<close>
  Nothing here is inside a \<open>try\<close> block: reading a property of a \<open>null\<close> item throws,
  and so does a conversion that fails. \<open>now_seconds\<close> is \<open>Math.floor(Date.now() / 1000)\<close>.
\<close>

definition reward_step ::
  "(string \<Rightarrow> js_error + string) \<Rightarrow> jsnum \<Rightarrow> raw_reward option \<Rightarrow> reward_breakdown list \<times> string
     \<Rightarrow> js_error + reward_breakdown list \<times> string" where
  "reward_step fw now_seconds item acc =
     (case item of
        None \<Rightarrow> Inl TypeError
      | Some reward \<Rightarrow>
          (case fw (or_str (rw_amount reward) (or_str (rw_value reward) ''0'')) of
             Inl e \<Rightarrow> Inl e
           | Inr amountStETH \<Rightarrow>
               Inr (fst acc @
                      [\<lparr>rb_operatorAddress =
                          or_str (rw_operator reward) (or_str (rw_validator reward) zero_address),
                        rb_amountStETH = amountStETH,
                        rb_timestamps =
                          [or_num (rw_timestamp reward) (or_num (rw_block_time reward) now_seconds)],
                        rb_transactionHashes =
                          (case rw_tx_hash reward of
                             Some h \<Rightarrow> if truthy_str h then [h] else []
                           | None \<Rightarrow> []),
                        rb_blockNumbers =
                          (case rw_block_number reward of
                             Some n \<Rightarrow> if truthy_num n then [n] else []
                           | None \<Rightarrow> [])\<rparr>],
                    toString (js_add (parseFloat (snd acc)) (parseFloat amountStETH)))))"

fun rewards_forEach ::
  "(string \<Rightarrow> js_error + string) \<Rightarrow> jsnum \<Rightarrow> raw_reward option list \<Rightarrow> reward_breakdown list \<times> string
     \<Rightarrow> js_error + reward_breakdown list \<times> string" where
  "rewards_forEach fw now_seconds [] acc = Inr acc"
| "rewards_forEach fw now_seconds (item # rest) acc =
     (case reward_step fw now_seconds item acc of
        Inl e \<Rightarrow> Inl e
      | Inr acc' \<Rightarrow> rewards_forEach fw now_seconds rest acc')"

definition transformRatedRewardsData ::
  "(string \<Rightarrow> js_error + string) \<Rightarrow> jsnum \<Rightarrow> rated_body \<Rightarrow> string \<Rightarrow> js_error + reward_payload" where
  "transformRatedRewardsData fw now_seconds data walletAddress =
     (case (case rewards data of
              None \<Rightarrow> Inr ([], ''0'')
            | Some items \<Rightarrow> rewards_forEach fw now_seconds items ([], ''0'')) of
        Inl e \<Rightarrow> Inl e
      | Inr acc \<Rightarrow>
          Inr \<lparr>rp_walletAddress = toLowerCase walletAddress,
               rp_totalRewardsReceivedStETH = snd acc,
               rp_rewardsBreakdown = fst acc\<rparr>)"

text \<open>
  The accumulation of the total, on its own: from \<open>"0"\<close>, each converted amount is added
  in binary64 arithmetic and the sum is printed again.
\<close>

definition float_total :: "string list \<Rightarrow> string" where
  "float_total amounts =
     foldl (\<lambda>total amount. toString (js_add (parseFloat total) (parseFloat amount))) ''0'' amounts"

text \<open>The amounts of the items of a body, converted, in the order of the items.\<close>

definition converted_amounts :: "(string \<Rightarrow> js_error + string) \<Rightarrow> raw_reward option list \<Rightarrow> string list" where
  "converted_amounts fw items =
     map (\<lambda>item. projr (fw (or_str (rw_amount (the item)) (or_str (rw_value (the item)) ''0''))))
       items"

text \<open>
  The exact decimal sum of the converted amounts of a list of base-unit amounts: the
  conversion of the sum of the base units (the conversion only moves the decimal point).
\<close>

definition exact_decimal_total :: "string list \<Rightarrow> js_error + string" where
  "exact_decimal_total base_amounts =
     fromWei_ether (digits_of_nat (sum_list (map nat_of_digits base_amounts)))"

definition reward_item :: "string \<Rightarrow> raw_reward" where
  "reward_item amount =
     \<lparr>rw_amount = Some amount, rw_value = None,
      rw_operator = Some ''0x1234567890123456789012345678901234567890'', rw_validator = None,
      rw_timestamp = Some (Num 1700000000 0), rw_block_time = None,
      rw_tx_hash = None, rw_block_number = None\<rparr>"

text \<open>A body with rewards of 0.1 and 0.2 ether, and one with a single reward of 1.5 ether.\<close>

definition body_tenth_and_fifth :: rated_body where
  "body_tenth_and_fifth =
     \<lparr>rewards = Some [Some (reward_item ''100000000000000000''),
                      Some (reward_item ''200000000000000000'')]\<rparr>"

definition body_one_and_a_half :: rated_body where
  "body_one_and_a_half = \<lparr>rewards = Some [Some (reward_item ''1500000000000000000'')]\<rparr>"

text \<open>A body whose array holds a \<open>null\<close> item.\<close>

definition body_with_null_item :: rated_body where
  "body_with_null_item = \<lparr>rewards = Some [None]\<rparr>"

section \<open>The rewards-service client (\<open>DataFetcher.fetchRewardsFromRated\<close>)\<close>

text \<open>
  \<^verbatim>\<open>
  async fetchRewardsFromRated(address) {
    if (!process.env.RATED_API_KEY) {
      console.warn("Rated API key not provided, skipping Rated API calls");
      return null;
    }
    const endpoints = [
      `/v1/eigenlayer/rewards/delegator/${address}`,
      `/v1/eigenlayer/rewards/rewards?delegator=${address}`,
    ];
    for (const endpoint of endpoints) {
      try {
        const response = await axios.get(`${this.ratedApiUrl}${endpoint}`, { ... });
        if (response.data) {
          return this.transformRatedRewardsData(response.data, address);
        }
      } catch (error) {
        console.error(`Error fetching from Rated API endpoint ${endpoint}:`, error.message);
      }
    }
    return null;
  }
  \<close>
  The network is the function \<open>http_get\<close> from the requested URL to the rejection of the
  request (an HTTP error status, a timeout) or to the body of the response, \<open>None\<close> for
  a body that is falsy. The result is the value returned (\<open>None\<close> for \<open>null\<close>), the URLs
  requested, in order, and the errors written to the console.
\<close>

record rated_env =
  RATED_API_KEY :: "string option"
  ratedApiUrl :: string

definition rated_endpoints :: "string \<Rightarrow> string list" where
  "rated_endpoints address =
     [''/v1/eigenlayer/rewards/delegator/'' @ address,
      ''/v1/eigenlayer/rewards/rewards?delegator='' @ address]"

type_synonym rated_run = "reward_payload option \<times> string list \<times> js_error list"

definition after_request :: "string \<Rightarrow> js_error list \<Rightarrow> rated_run \<Rightarrow> rated_run" where
  "after_request url errs run = (fst run, url # fst (snd run), errs @ snd (snd run))"

fun endpoints_loop ::
  "(string \<Rightarrow> js_error + string) \<Rightarrow> jsnum \<Rightarrow> (string \<Rightarrow> js_error + rated_body option) \<Rightarrow> string
     \<Rightarrow> string \<Rightarrow> string list \<Rightarrow> rated_run" where
  "endpoints_loop fw now_seconds http_get base address [] = (None, [], [])"
| "endpoints_loop fw now_seconds http_get base address (endpoint # rest) =
     (case http_get (base @ endpoint) of
        Inl e \<Rightarrow> after_request (base @ endpoint) [e]
                  (endpoints_loop fw now_seconds http_get base address rest)
      | Inr None \<Rightarrow> after_request (base @ endpoint) []
                     (endpoints_loop fw now_seconds http_get base address rest)
      | Inr (Some data) \<Rightarrow>
          (case transformRatedRewardsData fw now_seconds data address of
             Inr payload \<Rightarrow> (Some payload, [base @ endpoint], [])
           | Inl e \<Rightarrow> after_request (base @ endpoint) [e]
                       (endpoints_loop fw now_seconds http_get base address rest)))"

definition fetchRewardsFromRated ::
  "(string \<Rightarrow> js_error + string) \<Rightarrow> jsnum \<Rightarrow> rated_env \<Rightarrow> (string \<Rightarrow> js_error + rated_body option)
     \<Rightarrow> string \<Rightarrow> rated_run" where
  "fetchRewardsFromRated fw now_seconds env http_get address =
     (if \<not> (case RATED_API_KEY env of Some k \<Rightarrow> truthy_str k | None \<Rightarrow> False)
      then (None, [], [])
      else endpoints_loop fw now_seconds http_get (ratedApiUrl env) address (rated_endpoints address))"

text \<open>
  What an endpoint yields: the normalized data of a response that has a body which
  normalizes, and nothing for a request that is rejected, a response without a body, or
  a body whose normalization throws.
\<close>

definition endpoint_data ::
  "(string \<Rightarrow> js_error + string) \<Rightarrow> jsnum \<Rightarrow> (string \<Rightarrow> js_error + rated_body option) \<Rightarrow> string
     \<Rightarrow> string \<Rightarrow> reward_payload option" where
  "endpoint_data fw now_seconds http_get address url =
     (case http_get url of
        Inr (Some data) \<Rightarrow>
          (case transformRatedRewardsData fw now_seconds data address of
             Inr payload \<Rightarrow> Some payload
           | Inl e \<Rightarrow> None)
      | _ \<Rightarrow> None)"

text \<open>Whether the response to a request has a body at all.\<close>

definition returns_body :: "(string \<Rightarrow> js_error + rated_body option) \<Rightarrow> string \<Rightarrow> bool" where
  "returns_body http_get url = (case http_get url of Inr (Some data) \<Rightarrow> True | _ \<Rightarrow> False)"

text \<open>Three services, for a wallet \<open>0xAb\<close> behind the base URL \<open>https://api\<close>.\<close>

definition primary_url :: string where
  "primary_url = ''https://api/v1/eigenlayer/rewards/delegator/0xAb''"

definition secondary_url :: string where
  "secondary_url = ''https://api/v1/eigenlayer/rewards/rewards?delegator=0xAb''"

definition configured_env :: rated_env where
  "configured_env = \<lparr>RATED_API_KEY = Some ''secret'', ratedApiUrl = ''https://api''\<rparr>"

definition unconfigured_env :: rated_env where
  "unconfigured_env = \<lparr>RATED_API_KEY = None, ratedApiUrl = ''https://api''\<rparr>"

definition http_404_then_body :: "string \<Rightarrow> js_error + rated_body option" where
  "http_404_then_body url =
     (if url = secondary_url then Inr (Some body_one_and_a_half)
      else Inl (JsError ''Request failed with status code 404''))"

definition http_null_item_then_body :: "string \<Rightarrow> js_error + rated_body option" where
  "http_null_item_then_body url =
     (if url = primary_url then Inr (Some body_with_null_item)
      else if url = secondary_url then Inr (Some body_one_and_a_half)
      else Inl (JsError ''Request failed with status code 404''))"

definition payload_from_body :: reward_payload where
  "payload_from_body =
     \<lparr>rp_walletAddress = ''0xab'', rp_totalRewardsReceivedStETH = ''1.5'',
      rp_rewardsBreakdown =
        [\<lparr>rb_operatorAddress = ''0x1234567890123456789012345678901234567890'',
          rb_amountStETH = ''1.5'', rb_timestamps = [Num 1700000000 0],
          rb_transactionHashes = [], rb_blockNumbers = []\<rparr>]\<rparr>"

definition http_all_fail :: "string \<Rightarrow> js_error + rated_body option" where
  "http_all_fail url = Inl (JsError ''timeout of 10000ms exceeded'')"

declare converted_amounts_def [js_eval] reward_step_def [js_eval] transformRatedRewardsData_def [js_eval] float_total_def [js_eval]
  exact_decimal_total_def [js_eval] reward_item_def [js_eval] body_tenth_and_fifth_def [js_eval]
  body_one_and_a_half_def [js_eval] body_with_null_item_def [js_eval]
  rated_endpoints_def [js_eval] after_request_def [js_eval] fetchRewardsFromRated_def [js_eval]
  endpoint_data_def [js_eval] returns_body_def [js_eval] primary_url_def [js_eval]
  secondary_url_def [js_eval] configured_env_def [js_eval] unconfigured_env_def [js_eval]
  payload_from_body_def [js_eval] http_404_then_body_def [js_eval] http_null_item_then_body_def [js_eval] http_all_fail_def [js_eval]

section \<open>The persisted store and the reconciliation stage\<close>

text \<open>
  A reward document of the collection \<open>rewards\<close>: the fields of the payload and the
  derived fields of the schema, with its defaults (\<open>null\<close> dates are \<open>None\<close>), and the two
  dates \<open>createdAt\<close> and \<open>updatedAt\<close> that the option \<open>timestamps: true\<close> of the schema adds to
  every document. The field \<open>rewardType\<close> of a breakdown, which the pipeline never reads or
  writes, is left out.
\<close>

record reward_doc =
  walletAddress :: string
  totalRewardsReceivedStETH :: string
  rewardsBreakdown :: "reward_breakdown list"
  firstRewardTimestamp :: "js_date option"
  lastRewardTimestamp :: "js_date option"
  totalRewardEvents :: jsnum
  averageRewardAmount :: string
  dailyAverage :: string
  weeklyAverage :: string
  monthlyAverage :: string
  r_lastUpdated :: js_date
  createdAt :: js_date
  updatedAt :: js_date

text \<open>The three collections, each in the order in which its documents were inserted.\<close>

record database =
  db_restakers :: "restaker list"
  db_validators :: "validator list"
  db_rewards :: "reward_doc list"

subsection \<open>\<open>DatabasePopulator.updateStatistics\<close>\<close>

text \<open>
  \<^verbatim>\<open>
  try {
    const validators = await Validator.find({});
    for (const validator of validators) {
      const delegatorCount = await Restaker.countDocuments({
        targetAVSOperatorAddress: validator.operatorAddress,
      });
      if (validator.delegatorCount !== delegatorCount) {
        validator.delegatorCount = delegatorCount;
        await validator.save();
      }
    }
    ... // summary statistics, read from the store and written to the console
  } catch (error) {
    console.error("Error updating statistics:", error.message);
  }
  \<close>
  \<open>countDocuments\<close> counts the documents whose field equals the value of the filter.
  \<open>save\<close> runs the hook of the schema and writes the document back in its place; it can
  be rejected (by the validation of the schema, or by the database), which \<open>save_ok\<close>
  decides. A rejection is an exception: it leaves the loop for the \<open>catch\<close> block. The
  result is the store, the positions of the documents written, in order, and whether
  the loop ended without an exception.
\<close>

definition countDocuments_target :: "string \<Rightarrow> restaker list \<Rightarrow> nat" where
  "countDocuments_target address rs = length (filter (\<lambda>r. targetAVSOperatorAddress r = address) rs)"

fun statistics_loop ::
  "(validator \<Rightarrow> bool) \<Rightarrow> (nat \<Rightarrow> js_date) \<Rightarrow> nat \<Rightarrow> validator list \<Rightarrow> database \<times> nat list
     \<Rightarrow> (database \<times> nat list) \<times> bool" where
  "statistics_loop save_ok now i [] st = (st, True)"
| "statistics_loop save_ok now i (v # rest) st =
     (if delegatorCount v \<noteq> countDocuments_target (operatorAddress v) (db_restakers (fst st)) then
        (if save_ok
              (validator_pre_save (now i)
                 (v\<lparr>delegatorCount :=
                      countDocuments_target (operatorAddress v) (db_restakers (fst st))\<rparr>))
         then statistics_loop save_ok now (Suc i) rest
                ((fst st)\<lparr>db_validators :=
                    (db_validators (fst st))
                      [i := validator_pre_save (now i)
                              (v\<lparr>delegatorCount :=
                                   countDocuments_target (operatorAddress v)
                                     (db_restakers (fst st))\<rparr>)]\<rparr>,
                 snd st @ [i])
         else (st, False))
      else statistics_loop save_ok now (Suc i) rest st)"

definition updateStatistics ::
  "(validator \<Rightarrow> bool) \<Rightarrow> (nat \<Rightarrow> js_date) \<Rightarrow> database \<Rightarrow> (database \<times> nat list) \<times> bool" where
  "updateStatistics save_ok now db = statistics_loop save_ok now 0 (db_validators db) (db, [])"

text \<open>The count the claim speaks of: the persisted delegations that target a validator.\<close>

definition delegators_of :: "database \<Rightarrow> validator \<Rightarrow> nat" where
  "delegators_of db v =
     length (filter (\<lambda>r. targetAVSOperatorAddress r = operatorAddress v) (db_restakers db))"

text \<open>A stored count is stale when it differs from the recomputed one.\<close>

definition stale :: "database \<Rightarrow> validator \<Rightarrow> bool" where
  "stale db v = (delegatorCount v \<noteq> delegators_of db v)"

text \<open>
  The document that the pass saves for the validator at a position of the store, and the
  positions at which the pass stops: those of a stale document that \<open>save\<close> rejects.
\<close>

definition reconciled :: "(nat \<Rightarrow> js_date) \<Rightarrow> database \<Rightarrow> nat \<Rightarrow> validator" where
  "reconciled now db i =
     validator_pre_save (now i)
       ((db_validators db ! i)\<lparr>delegatorCount := delegators_of db (db_validators db ! i)\<rparr>)"

definition rejected :: "(validator \<Rightarrow> bool) \<Rightarrow> (nat \<Rightarrow> js_date) \<Rightarrow> database \<Rightarrow> nat \<Rightarrow> bool" where
  "rejected save_ok now db i =
     (stale db (db_validators db ! i) \<and> \<not> save_ok (reconciled now db i))"

text \<open>
  A database whose only rejection is the validation that the schema declares for
  \<open>operatorAddress\<close>, which \<open>save\<close> runs and \<open>findOneAndUpdate\<close> does not:
  \<^verbatim>\<open>
  validate: { validator: function (v) { return /^0x[a-fA-F0-9]{40}$/.test(v); }, ... }
  \<close>
\<close>

definition operatorAddress_validates :: "validator \<Rightarrow> bool" where
  "operatorAddress_validates v = matches_0x_hex40 (operatorAddress v)"

text \<open>
  A store with two validators, the first with a stale count, and three delegations; the
  same store with addresses that are too short for the schema, both counts stale; and a
  clock.
\<close>

definition stats_clock :: "nat \<Rightarrow> js_date" where
  "stats_clock i = DateMs 1800000000000"


definition sample_restaker :: "string \<Rightarrow> string \<Rightarrow> restaker" where
  "sample_restaker user target =
     \<lparr>userAddress = user, amountRestakedStETH = ''1'', targetAVSOperatorAddress = target,
      delegationTimestamp = DateMs 1700000000000,
      transactionHash = ''0xabababababababababababababababababababababababababababababababab'',
      blockNumber = Num 18000000 0, status = ''active''\<rparr>"

definition sample_validator :: "string \<Rightarrow> nat \<Rightarrow> validator" where
  "sample_validator address n =
     \<lparr>operatorAddress = address, totalDelegatedStakeStETH = ''10'', slashHistory = [],
      v_status = ''active'', registrationTimestamp = DateMs 1600000000000,
      lastActivityTimestamp = DateMs 1700000000000, delegatorCount = n, commission = 0,
      metadataURI = None, lastUpdated = Some (DateMs 1700000000000)\<rparr>"

definition sample_db :: database where
  "sample_db =
     \<lparr>db_restakers = [sample_restaker ''0xa1a1a1a1a1a1a1a1a1a1a1a1a1a1a1a1a1a1a1a1'' ''0x0101010101010101010101010101010101010101'',
                      sample_restaker ''0xa2a2a2a2a2a2a2a2a2a2a2a2a2a2a2a2a2a2a2a2'' ''0x0202020202020202020202020202020202020202'',
                      sample_restaker ''0xa3a3a3a3a3a3a3a3a3a3a3a3a3a3a3a3a3a3a3a3'' ''0x0101010101010101010101010101010101010101''],
      db_validators = [sample_validator ''0x0101010101010101010101010101010101010101'' 0,
                       sample_validator ''0x0202020202020202020202020202020202020202'' 1],
      db_rewards = []\<rparr>"

definition short_address_db :: database where
  "short_address_db =
     \<lparr>db_restakers = [sample_restaker ''0xa1'' ''0x01'', sample_restaker ''0xa2'' ''0x02'',
                      sample_restaker ''0xa3'' ''0x01''],
      db_validators = [sample_validator ''0x01'' 0, sample_validator ''0x02'' 0],
      db_rewards = []\<rparr>"

subsection \<open>\<open>Reward.findOneAndUpdate\<close> with \<open>upsert\<close>\<close>

text \<open>
  \<^verbatim>\<open>
  await Reward.findOneAndUpdate(
    { walletAddress: rewardData.walletAddress },
    rewardData,
    { upsert: true, new: true }
  );
  \<close>
  The update document has no update operator, so the fields it names are set on the first
  document that matches the filter, and every other field of that document stays as it
  is (the hooks of \<open>save\<close> do not run), except \<open>updatedAt\<close>, which the option \<open>timestamps\<close> of
  the schema adds to the fields set by every update. When no document matches, one is
  inserted with the fields of the update, the defaults of the schema, and both
  timestamps. The schema lower-cases the addresses.
\<close>

definition cast_breakdown :: "reward_breakdown \<Rightarrow> reward_breakdown" where
  "cast_breakdown b = b\<lparr>rb_operatorAddress := toLowerCase (rb_operatorAddress b)\<rparr>"

definition set_payload :: "js_date \<Rightarrow> reward_payload \<Rightarrow> reward_doc \<Rightarrow> reward_doc" where
  "set_payload now rewardData doc =
     doc\<lparr>walletAddress := toLowerCase (rp_walletAddress rewardData),
         totalRewardsReceivedStETH := rp_totalRewardsReceivedStETH rewardData,
         rewardsBreakdown := map cast_breakdown (rp_rewardsBreakdown rewardData),
         updatedAt := now\<rparr>"

definition new_reward_doc :: "js_date \<Rightarrow> reward_payload \<Rightarrow> reward_doc" where
  "new_reward_doc now rewardData =
     \<lparr>walletAddress = toLowerCase (rp_walletAddress rewardData),
      totalRewardsReceivedStETH = rp_totalRewardsReceivedStETH rewardData,
      rewardsBreakdown = map cast_breakdown (rp_rewardsBreakdown rewardData),
      firstRewardTimestamp = None,
      lastRewardTimestamp = None,
      totalRewardEvents = Num 0 0,
      averageRewardAmount = ''0'',
      dailyAverage = ''0'',
      weeklyAverage = ''0'',
      monthlyAverage = ''0'',
      r_lastUpdated = now,
      createdAt = now,
      updatedAt = now\<rparr>"

fun update_first :: "js_date \<Rightarrow> reward_payload \<Rightarrow> reward_doc list \<Rightarrow> reward_doc list" where
  "update_first now rewardData [] = [new_reward_doc now rewardData]"
| "update_first now rewardData (doc # docs) =
     (if walletAddress doc = toLowerCase (rp_walletAddress rewardData)
      then set_payload now rewardData doc # docs
      else doc # update_first now rewardData docs)"

definition Reward_findOneAndUpdate :: "js_date \<Rightarrow> reward_payload \<Rightarrow> database \<Rightarrow> database" where
  "Reward_findOneAndUpdate now rewardData db =
     db\<lparr>db_rewards := update_first now rewardData (db_rewards db)\<rparr>"

definition find_reward :: "string \<Rightarrow> database \<Rightarrow> reward_doc option" where
  "find_reward wallet db = find (\<lambda>doc. walletAddress doc = wallet) (db_rewards db)"

subsection \<open>\<open>DatabasePopulator.populateRewards\<close>\<close>

text \<open>
  \<^verbatim>\<open>
  const restakers = await Restaker.find({}, "userAddress").lean();
  const walletAddresses = [...new Set(restakers.map((r) => r.userAddress))];
  for (const walletAddress of walletAddresses) {
    try {
      let rewardData;
      if (this.useMockData) {
        rewardData = this.dataFetcher.generateMockRewardsData(walletAddress);
      } else {
        rewardData = await this.dataFetcher.fetchRewardsFromRated(walletAddress);
        if (!rewardData) {
          rewardData = this.dataFetcher.generateMockRewardsData(walletAddress);
        }
      }
      if (rewardData && parseFloat(rewardData.totalRewardsReceivedStETH) > 0) {
        await Reward.findOneAndUpdate(...);
        processedCount++;
      }
    } catch (error) { ... }
  }
  \<close>
  The placeholder generator draws random numbers; \<open>mock\<close> is the data it produces for a
  wallet in this run, and \<open>fetch\<close> is what the rewards-service client returns for it
  (neither throws). The write can be rejected by the database, which \<open>write_ok\<close> decides:
  the exception is caught by the \<open>catch\<close> of the loop body, and the loop goes on with the
  next wallet. The state of the loop is the store and \<open>processedCount\<close>.
\<close>

text \<open>The elements of a \<open>Set\<close> built from an array: each value once, at its first place.\<close>

definition unique_first :: "'a list \<Rightarrow> 'a list" where
  "unique_first xs = rev (remdups (rev xs))"

definition reward_data_for ::
  "bool \<Rightarrow> (string \<Rightarrow> reward_payload) \<Rightarrow> (string \<Rightarrow> reward_payload option) \<Rightarrow> string \<Rightarrow> reward_payload" where
  "reward_data_for useMockData mock fetch wallet =
     (if useMockData then mock wallet
      else (case fetch wallet of Some rewardData \<Rightarrow> rewardData | None \<Rightarrow> mock wallet))"

fun wallets_loop ::
  "(reward_payload \<Rightarrow> bool) \<Rightarrow> bool \<Rightarrow> (string \<Rightarrow> reward_payload)
     \<Rightarrow> (string \<Rightarrow> reward_payload option) \<Rightarrow> js_date
     \<Rightarrow> string list \<Rightarrow> database \<times> nat \<Rightarrow> database \<times> nat" where
  "wallets_loop write_ok useMockData mock fetch now [] st = st"
| "wallets_loop write_ok useMockData mock fetch now (wallet # rest) st =
     wallets_loop write_ok useMockData mock fetch now rest
       (if js_positive
             (parseFloat
                (rp_totalRewardsReceivedStETH (reward_data_for useMockData mock fetch wallet)))
        then (if write_ok (reward_data_for useMockData mock fetch wallet)
              then (Reward_findOneAndUpdate now (reward_data_for useMockData mock fetch wallet)
                      (fst st),
                    Suc (snd st))
              else st)
        else st)"

definition populateRewards ::
  "(reward_payload \<Rightarrow> bool) \<Rightarrow> bool \<Rightarrow> (string \<Rightarrow> reward_payload)
     \<Rightarrow> (string \<Rightarrow> reward_payload option) \<Rightarrow> js_date
     \<Rightarrow> database \<Rightarrow> database \<times> nat" where
  "populateRewards write_ok useMockData mock fetch now db =
     wallets_loop write_ok useMockData mock fetch now
       (unique_first (map userAddress (db_restakers db))) (db, 0)"

subsection \<open>\<open>Reward.addReward\<close> and the hook of \<open>save\<close>\<close>

text \<open>
  The order of two numbers under the comparator \<open>(a, b) => a - b\<close> of the hook: \<open>a\<close> stays
  before \<open>b\<close> unless \<open>a - b\<close> is positive.
\<close>

definition stays_before :: "jsnum \<Rightarrow> jsnum \<Rightarrow> bool" where
  "stays_before a b = (\<not> js_positive (js_sub a b))"

fun insert_sorted :: "jsnum \<Rightarrow> jsnum list \<Rightarrow> jsnum list" where
  "insert_sorted a [] = [a]"
| "insert_sorted a (b # bs) = (if stays_before a b then a # b # bs else b # insert_sorted a bs)"

definition sort_numbers :: "jsnum list \<Rightarrow> jsnum list" where
  "sort_numbers xs = foldr insert_sorted xs []"

fun getTime :: "js_date \<Rightarrow> jsnum" where
  "getTime InvalidDate = NaN"
| "getTime (DateMs ms) = round_int_ratio ms 1"

text \<open>
  \<^verbatim>\<open>
  rewardSchema.pre("save", function (next) {
    this.lastUpdated = new Date();
    this.totalRewardEvents = this.rewardsBreakdown.reduce((total, breakdown) => {
      return total + (breakdown.timestamps ? breakdown.timestamps.length : 0);
    }, 0);
    if (this.totalRewardEvents > 0) {
      const avgAmount = parseFloat(this.totalRewardsReceivedStETH) / this.totalRewardEvents;
      this.averageRewardAmount = avgAmount.toString();
    }
    const allTimestamps = this.rewardsBreakdown.reduce((acc, breakdown) => {
      return acc.concat(breakdown.timestamps || []);
    }, []);
    if (allTimestamps.length > 0) {
      const sortedTimestamps = allTimestamps.sort((a, b) => a - b);
      this.firstRewardTimestamp = new Date(sortedTimestamps[0] * 1000);
      this.lastRewardTimestamp = new Date(sortedTimestamps[sortedTimestamps.length - 1] * 1000);
      const daysSinceFirst =
        (Date.now() - this.firstRewardTimestamp.getTime()) / (1000 * 60 * 60 * 24);
      if (daysSinceFirst > 0) {
        const totalRewards = parseFloat(this.totalRewardsReceivedStETH);
        this.rewardFrequency.dailyAverage = (totalRewards / daysSinceFirst).toString();
        this.rewardFrequency.weeklyAverage = (totalRewards / (daysSinceFirst / 7)).toString();
        this.rewardFrequency.monthlyAverage = (totalRewards / (daysSinceFirst / 30)).toString();
      }
    }
    next();
  });
  \<close>
  The hook is written as a chain of steps, each on the document left by the one before.
  \<open>now\<close> is the current time in milliseconds.
\<close>

definition count_events :: "reward_doc \<Rightarrow> nat" where
  "count_events doc = sum_list (map (\<lambda>b. length (rb_timestamps b)) (rewardsBreakdown doc))"

definition set_event_count :: "reward_doc \<Rightarrow> reward_doc" where
  "set_event_count doc = doc\<lparr>totalRewardEvents := round_ratio False (count_events doc) 1\<rparr>"

definition set_average :: "reward_doc \<Rightarrow> reward_doc" where
  "set_average doc =
     (if js_positive (totalRewardEvents doc)
      then doc\<lparr>averageRewardAmount :=
                 toString (js_div (parseFloat (totalRewardsReceivedStETH doc)) (totalRewardEvents doc))\<rparr>
      else doc)"

definition days_since :: "int \<Rightarrow> js_date \<Rightarrow> jsnum" where
  "days_since now first = js_div (js_sub (round_int_ratio now 1) (getTime first)) (Num 86400000 0)"

definition set_frequency :: "jsnum \<Rightarrow> reward_doc \<Rightarrow> reward_doc" where
  "set_frequency daysSinceFirst doc =
     (if js_positive daysSinceFirst
      then doc\<lparr>dailyAverage :=
                 toString (js_div (parseFloat (totalRewardsReceivedStETH doc)) daysSinceFirst),
               weeklyAverage :=
                 toString (js_div (parseFloat (totalRewardsReceivedStETH doc))
                             (js_div daysSinceFirst (Num 7 0))),
               monthlyAverage :=
                 toString (js_div (parseFloat (totalRewardsReceivedStETH doc))
                             (js_div daysSinceFirst (Num 30 0)))\<rparr>
      else doc)"

definition set_first_last :: "int \<Rightarrow> jsnum list \<Rightarrow> reward_doc \<Rightarrow> reward_doc" where
  "set_first_last now sortedTimestamps doc =
     (case sortedTimestamps of
        [] \<Rightarrow> doc
      | t # ts \<Rightarrow>
          set_frequency (days_since now (new_Date (js_mul t (Num 1000 0))))
            (doc\<lparr>firstRewardTimestamp := Some (new_Date (js_mul t (Num 1000 0))),
                 lastRewardTimestamp := Some (new_Date (js_mul (last (t # ts)) (Num 1000 0)))\<rparr>))"

definition reward_pre_save :: "int \<Rightarrow> reward_doc \<Rightarrow> reward_doc" where
  "reward_pre_save now doc =
     set_first_last now
       (sort_numbers (concat (map rb_timestamps (rewardsBreakdown doc))))
       (set_average (set_event_count (doc\<lparr>r_lastUpdated := DateMs now\<rparr>)))"

text \<open>
  \<^verbatim>\<open>
  rewardSchema.methods.addReward = function (
    operatorAddress, amount, timestamp, transactionHash, blockNumber) {
    const existingBreakdown = this.rewardsBreakdown.find(
      (breakdown) => breakdown.operatorAddress === operatorAddress.toLowerCase());
    if (existingBreakdown) {
      const currentAmount = parseFloat(existingBreakdown.amountStETH);
      existingBreakdown.amountStETH = (currentAmount + parseFloat(amount)).toString();
      existingBreakdown.timestamps.push(timestamp);
      if (transactionHash) existingBreakdown.transactionHashes.push(transactionHash);
      if (blockNumber) existingBreakdown.blockNumbers.push(blockNumber);
    } else {
      this.rewardsBreakdown.push({
        operatorAddress: operatorAddress.toLowerCase(),
        amountStETH: amount.toString(),
        timestamps: [timestamp],
        transactionHashes: transactionHash ? [transactionHash] : [],
        blockNumbers: blockNumber ? [blockNumber] : [],
      });
    }
    const currentTotal = parseFloat(this.totalRewardsReceivedStETH);
    this.totalRewardsReceivedStETH = (currentTotal + parseFloat(amount)).toString();
    return this.save();
  };
  \<close>
  The amount is a decimal string; a hash or block number that is not given is \<open>None\<close>.
  The result is the document that \<open>save\<close> writes: the hook has run, and \<open>updatedAt\<close> is the
  time of the write.
\<close>

definition hash_entries :: "string option \<Rightarrow> string list" where
  "hash_entries tx_hash =
     (case tx_hash of Some h \<Rightarrow> if truthy_str h then [h] else [] | None \<Rightarrow> [])"

definition block_entries :: "jsnum option \<Rightarrow> jsnum list" where
  "block_entries block_no =
     (case block_no of Some n \<Rightarrow> if truthy_num n then [n] else [] | None \<Rightarrow> [])"

definition add_to_breakdown ::
  "string \<Rightarrow> jsnum \<Rightarrow> string option \<Rightarrow> jsnum option \<Rightarrow> reward_breakdown \<Rightarrow> reward_breakdown" where
  "add_to_breakdown amount timestamp tx_hash block_no b =
     b\<lparr>rb_amountStETH := toString (js_add (parseFloat (rb_amountStETH b)) (parseFloat amount)),
       rb_timestamps := rb_timestamps b @ [timestamp],
       rb_transactionHashes := rb_transactionHashes b @ hash_entries tx_hash,
       rb_blockNumbers := rb_blockNumbers b @ block_entries block_no\<rparr>"

fun merge_breakdown ::
  "string \<Rightarrow> string \<Rightarrow> jsnum \<Rightarrow> string option \<Rightarrow> jsnum option \<Rightarrow> reward_breakdown list
     \<Rightarrow> reward_breakdown list" where
  "merge_breakdown operator amount timestamp tx_hash block_no [] =
     [\<lparr>rb_operatorAddress = operator,
       rb_amountStETH = amount,
       rb_timestamps = [timestamp],
       rb_transactionHashes = hash_entries tx_hash,
       rb_blockNumbers = block_entries block_no\<rparr>]"
| "merge_breakdown operator amount timestamp tx_hash block_no (b # bs) =
     (if rb_operatorAddress b = operator
      then add_to_breakdown amount timestamp tx_hash block_no b # bs
      else b # merge_breakdown operator amount timestamp tx_hash block_no bs)"

definition addReward ::
  "int \<Rightarrow> string \<Rightarrow> string \<Rightarrow> jsnum \<Rightarrow> string option \<Rightarrow> jsnum option \<Rightarrow> reward_doc \<Rightarrow> reward_doc" where
  "addReward now operator amount timestamp tx_hash block_no doc =
     (reward_pre_save now
        (doc\<lparr>rewardsBreakdown :=
               merge_breakdown (toLowerCase operator) amount timestamp tx_hash
                 block_no (rewardsBreakdown doc),
             totalRewardsReceivedStETH :=
               toString (js_add (parseFloat (totalRewardsReceivedStETH doc)) (parseFloat amount))\<rparr>))
       \<lparr>updatedAt := DateMs now\<rparr>"

text \<open>
  A store with one delegation of the wallet \<open>0xabab...\<close>, and the rewards service answering
  for it with one reward of 1.5 for the operator \<open>0x0101...\<close>.
\<close>

definition payload_one_and_a_half :: reward_payload where
  "payload_one_and_a_half =
     \<lparr>rp_walletAddress = ''0xabababababababababababababababababababab'',
      rp_totalRewardsReceivedStETH = ''1.5'',
      rp_rewardsBreakdown =
        [\<lparr>rb_operatorAddress = ''0x0101010101010101010101010101010101010101'',
          rb_amountStETH = ''1.5'',
          rb_timestamps = [Num 1700000000 0], rb_transactionHashes = [],
          rb_blockNumbers = []\<rparr>]\<rparr>"

definition fetch_one_and_a_half :: "string \<Rightarrow> reward_payload option" where
  "fetch_one_and_a_half wallet = Some payload_one_and_a_half"

definition mock_one_and_a_half :: "string \<Rightarrow> reward_payload" where
  "mock_one_and_a_half wallet = payload_one_and_a_half"

text \<open>A database that accepts every write.\<close>

definition write_accepted :: "reward_payload \<Rightarrow> bool" where
  "write_accepted rewardData = True"

text \<open>The key under which a payload is stored, and a document that holds a payload.\<close>

definition reward_key :: "reward_payload \<Rightarrow> string" where
  "reward_key rewardData = toLowerCase (rp_walletAddress rewardData)"

definition holds_payload :: "reward_payload \<Rightarrow> reward_doc \<Rightarrow> bool" where
  "holds_payload rewardData doc =
     (walletAddress doc = reward_key rewardData
      \<and> totalRewardsReceivedStETH doc = rp_totalRewardsReceivedStETH rewardData
      \<and> rewardsBreakdown doc = map cast_breakdown (rp_rewardsBreakdown rewardData))"

text \<open>
  The keys that a run of the population stage writes to, one for each wallet of the store, and
  the lookup of \<open>getRewardsFromOperator\<close>, which is also the one at the head of \<open>addReward\<close>:
  \<^verbatim>\<open>
  return this.rewardsBreakdown.find(
    (breakdown) => breakdown.operatorAddress === operatorAddress.toLowerCase());
  \<close>
\<close>

definition stored_keys ::
  "bool \<Rightarrow> (string \<Rightarrow> reward_payload) \<Rightarrow> (string \<Rightarrow> reward_payload option) \<Rightarrow> database
     \<Rightarrow> string list" where
  "stored_keys useMockData mock fetch db =
     map (\<lambda>wallet. reward_key (reward_data_for useMockData mock fetch wallet))
       (unique_first (map userAddress (db_restakers db)))"

definition getRewardsFromOperator :: "string \<Rightarrow> reward_doc \<Rightarrow> reward_breakdown option" where
  "getRewardsFromOperator operator doc =
     find (\<lambda>breakdown. rb_operatorAddress breakdown = toLowerCase operator) (rewardsBreakdown doc)"

text \<open>The payloads that a run of the population stage persists, in order.\<close>

definition persisted_payloads ::
  "(reward_payload \<Rightarrow> bool) \<Rightarrow> bool \<Rightarrow> (string \<Rightarrow> reward_payload)
     \<Rightarrow> (string \<Rightarrow> reward_payload option) \<Rightarrow> string list \<Rightarrow> reward_payload list" where
  "persisted_payloads write_ok useMockData mock fetch wallets =
     map (reward_data_for useMockData mock fetch)
       (filter (\<lambda>wallet. js_positive (parseFloat (rp_totalRewardsReceivedStETH
                                  (reward_data_for useMockData mock fetch wallet)))
                         \<and> write_ok (reward_data_for useMockData mock fetch wallet)) wallets)"

definition one_wallet_db :: database where
  "one_wallet_db =
     \<lparr>db_restakers = [sample_restaker ''0xabababababababababababababababababababab''
                       ''0x0101010101010101010101010101010101010101''],
      db_validators = [], db_rewards = []\<rparr>"

text \<open>
  The same store after an earlier run that recorded a reward of 4 for the wallet, from the same
  operator.
\<close>

definition earlier_breakdown :: reward_breakdown where
  "earlier_breakdown =
     \<lparr>rb_operatorAddress = ''0x0101010101010101010101010101010101010101'',
      rb_amountStETH = ''4'',
      rb_timestamps = [Num 1600000000 0], rb_transactionHashes = [],
      rb_blockNumbers = []\<rparr>"

definition earlier_reward_doc :: reward_doc where
  "earlier_reward_doc =
     \<lparr>walletAddress = ''0xabababababababababababababababababababab'',
      totalRewardsReceivedStETH = ''4'',
      rewardsBreakdown = [earlier_breakdown],
      firstRewardTimestamp = None,
      lastRewardTimestamp = None,
      totalRewardEvents = Num 0 0,
      averageRewardAmount = ''0'',
      dailyAverage = ''0'',
      weeklyAverage = ''0'',
      monthlyAverage = ''0'',
      r_lastUpdated = DateMs 0,
      createdAt = DateMs 0,
      updatedAt = DateMs 0\<rparr>"

definition db_with_earlier_reward :: database where
  "db_with_earlier_reward = one_wallet_db\<lparr>db_rewards := [earlier_reward_doc]\<rparr>"

declare stale_def [js_eval] stats_clock_def [js_eval]
  countDocuments_target_def [js_eval] updateStatistics_def [js_eval] delegators_of_def [js_eval]
  sample_restaker_def [js_eval] sample_validator_def [js_eval] sample_db_def [js_eval]
  short_address_db_def [js_eval] reconciled_def [js_eval] rejected_def [js_eval]
  operatorAddress_validates_def [js_eval]
  cast_breakdown_def [js_eval] set_payload_def [js_eval] new_reward_doc_def [js_eval]
  Reward_findOneAndUpdate_def [js_eval] find_reward_def [js_eval] unique_first_def [js_eval]
  reward_data_for_def [js_eval] populateRewards_def [js_eval] stays_before_def [js_eval]
  sort_numbers_def [js_eval] count_events_def [js_eval] set_event_count_def [js_eval]
  set_average_def [js_eval] days_since_def [js_eval] set_frequency_def [js_eval]
  set_first_last_def [js_eval] reward_pre_save_def [js_eval] hash_entries_def [js_eval]
  block_entries_def [js_eval] add_to_breakdown_def [js_eval] addReward_def [js_eval]
  payload_one_and_a_half_def [js_eval] fetch_one_and_a_half_def [js_eval] one_wallet_db_def [js_eval]
  js_sub_def [js_eval] mock_one_and_a_half_def [js_eval] reward_key_def [js_eval]
  holds_payload_def [js_eval] persisted_payloads_def [js_eval] write_accepted_def [js_eval] earlier_breakdown_def [js_eval]
  earlier_reward_doc_def [js_eval] db_with_earlier_reward_def [js_eval] stored_keys_def [js_eval]
  getRewardsFromOperator_def [js_eval]

section \<open>Evaluation at concrete inputs\<close>

lemma replicate_numeral_eval [js_eval]:
  "replicate (numeral k) x = x # replicate (pred_numeral k) x"
  by (simp add: numeral_eq_Suc)

section \<open>Proofs: the retry executor\<close>

declare retry_loop.simps [simp del]

lemma retry_loop_success:
  assumes "a \<le> k" "k \<le> m" "\<forall>j. a \<le> j \<and> j < k \<longrightarrow> isl (operation j)" "operation k = Inr v"
  shows "retry_loop d operation m a =
           (Inr (Some v), concat (map (failed_attempt d operation) [a..k - 1]) @ [Invoked k])"
  using assms
proof (induction "nat (k - a)" arbitrary: a)
  case 0
  then have "a = k" by simp
  with 0 show ?case by (simp add: retry_loop.simps [of d operation m k])
next
  case (Suc n)
  then have lt: "a < k" and am: "a < m" by auto
  from Suc.prems lt obtain e where e: "operation a = Inl e"
    by (metis isl_def order_refl)
  have ih: "retry_loop d operation m (a + 1) =
      (Inr (Some v), concat (map (failed_attempt d operation) [a + 1..k - 1]) @ [Invoked k])"
    using Suc.hyps(1) [of "a + 1"] Suc.hyps(2) Suc.prems lt by auto
  have up: "[a..k - 1] = a # [a + 1..k - 1]"
    using lt by (simp add: upto_rec1)
  show ?case
    using am e
    by (simp add: retry_loop.simps [of d operation m a] ih up after_events_def failed_attempt_def)
qed

lemma retry_loop_exhausted:
  assumes "a \<le> m" "\<forall>j. a \<le> j \<and> j \<le> m \<longrightarrow> isl (operation j)"
  shows "retry_loop d operation m a =
           (Inl (projl (operation m)),
            concat (map (failed_attempt d operation) [a..m - 1])
              @ [Invoked m, LoggedFailure m (projl (operation m))])"
  using assms
proof (induction "nat (m - a)" arbitrary: a)
  case 0
  then have am: "a = m" by simp
  with 0 obtain e where "operation m = Inl e" by (metis isl_def order_refl)
  with am show ?case by (simp add: retry_loop.simps [of d operation m m])
next
  case (Suc n)
  then have lt: "a < m" by auto
  from Suc.prems obtain e where e: "operation a = Inl e"
    by (metis isl_def order_refl)
  have ih: "retry_loop d operation m (a + 1) =
      (Inl (projl (operation m)),
       concat (map (failed_attempt d operation) [a + 1..m - 1])
         @ [Invoked m, LoggedFailure m (projl (operation m))])"
    using Suc.hyps(1) [of "a + 1"] Suc.hyps(2) Suc.prems lt by auto
  have up: "[a..m - 1] = a # [a + 1..m - 1]"
    using lt by (simp add: upto_rec1)
  show ?case
    using lt e
    by (simp add: retry_loop.simps [of d operation m a] ih up after_events_def failed_attempt_def)
qed

lemma invocations_failed_attempts:
  "invocations (concat (map (failed_attempt d operation) js) @ tr) = js @ invocations tr"
  by (induction js) (simp_all add: invocations_def failed_attempt_def)

lemma delays_failed_attempts:
  "delays (concat (map (failed_attempt d operation) js) @ tr) = map (\<lambda>j. d * j) js @ delays tr"
  by (induction js) (simp_all add: delays_def failed_attempt_def)


lemma retry_loop_invocations_bound:
  "length (invocations (snd (retry_loop d operation m a))) \<le> nat (m + 1 - a)"
proof (induction d operation m a rule: retry_loop.induct)
  case (1 d operation m a)
  show ?case
  proof (cases "a \<le> m")
    case False
    then show ?thesis by (subst retry_loop.simps) (simp add: invocations_def)
  next
    case le: True
    show ?thesis
    proof (cases "operation a")
      case (Inr v)
      with le show ?thesis by (subst retry_loop.simps) (simp add: invocations_def)
    next
      case (Inl e)
      show ?thesis
      proof (cases "a = m")
        case True
        with Inl show ?thesis by (subst retry_loop.simps) (simp add: invocations_def)
      next
        case False
        with le Inl "1.IH" [of e] have "length (invocations (snd (retry_loop d operation m (a + 1)))) \<le> nat (m + 1 - (a + 1))"
          by simp
        with le Inl False show ?thesis
          by (subst retry_loop.simps) (simp add: after_events_def invocations_def)
      qed
    qed
  qed
qed

text \<open>
  Claim C6. For every operation and every \<open>maxAttempts \<ge> 1\<close>, \<open>retryOperation\<close> invokes the
  operation at most \<open>maxAttempts\<close> times. If attempt \<open>k\<close> is the first that succeeds, its
  value is returned after exactly the invocations \<open>1..k\<close>, and after each of the failed
  attempts \<open>j < k\<close> the executor waited \<open>baseDelay * j\<close> before the next one. If all
  \<open>maxAttempts\<close> attempts fail, the error of the last attempt is thrown as it is (not
  wrapped), after the waits \<open>baseDelay * j\<close> for \<open>j < maxAttempts\<close> and with no wait
  after the final attempt.
\<close>

theorem retryOperation_bounded_linear_backoff:
  assumes "1 \<le> maxAttempts"
  shows "length (invocations (snd (retryOperation baseDelay operation maxAttempts))) \<le> nat maxAttempts
    \<and> (\<forall>k v. 1 \<le> k \<and> k \<le> maxAttempts \<and> (\<forall>j. 1 \<le> j \<and> j < k \<longrightarrow> isl (operation j))
           \<and> operation k = Inr v \<longrightarrow>
         retryOperation baseDelay operation maxAttempts =
           (Inr (Some v), concat (map (failed_attempt baseDelay operation) [1..k - 1]) @ [Invoked k])
         \<and> invocations (snd (retryOperation baseDelay operation maxAttempts)) = [1..k]
         \<and> delays (snd (retryOperation baseDelay operation maxAttempts))
             = map (\<lambda>attempt. baseDelay * attempt) [1..k - 1])
    \<and> ((\<forall>j. 1 \<le> j \<and> j \<le> maxAttempts \<longrightarrow> isl (operation j)) \<longrightarrow>
         retryOperation baseDelay operation maxAttempts =
           (Inl (projl (operation maxAttempts)),
            concat (map (failed_attempt baseDelay operation) [1..maxAttempts - 1])
              @ [Invoked maxAttempts, LoggedFailure maxAttempts (projl (operation maxAttempts))])
         \<and> operation maxAttempts = Inl (projl (operation maxAttempts))
         \<and> invocations (snd (retryOperation baseDelay operation maxAttempts)) = [1..maxAttempts]
         \<and> delays (snd (retryOperation baseDelay operation maxAttempts))
             = map (\<lambda>attempt. baseDelay * attempt) [1..maxAttempts - 1])"
proof (intro conjI allI impI)
  show "length (invocations (snd (retryOperation baseDelay operation maxAttempts))) \<le> nat maxAttempts"
    using retry_loop_invocations_bound [of baseDelay operation maxAttempts 1]
    by (simp add: retryOperation_def)
next
  fix k v
  assume h: "1 \<le> k \<and> k \<le> maxAttempts \<and> (\<forall>j. 1 \<le> j \<and> j < k \<longrightarrow> isl (operation j))
           \<and> operation k = Inr v"
  then have run: "retryOperation baseDelay operation maxAttempts =
           (Inr (Some v), concat (map (failed_attempt baseDelay operation) [1..k - 1]) @ [Invoked k])"
    unfolding retryOperation_def by (intro retry_loop_success) auto
  show "retryOperation baseDelay operation maxAttempts =
           (Inr (Some v), concat (map (failed_attempt baseDelay operation) [1..k - 1]) @ [Invoked k])"
    by (rule run)
  have upk: "[1..k - 1] @ [k] = [1..k]"
    using h upto_rec2 [of 1 k] by simp
  show "invocations (snd (retryOperation baseDelay operation maxAttempts)) = [1..k]"
    by (simp add: run invocations_failed_attempts upk) (simp add: invocations_def upk)
  show "delays (snd (retryOperation baseDelay operation maxAttempts))
             = map (\<lambda>attempt. baseDelay * attempt) [1..k - 1]"
    by (simp add: run delays_failed_attempts) (simp add: delays_def)
next
  assume h: "\<forall>j. 1 \<le> j \<and> j \<le> maxAttempts \<longrightarrow> isl (operation j)"
  have run: "retryOperation baseDelay operation maxAttempts =
           (Inl (projl (operation maxAttempts)),
            concat (map (failed_attempt baseDelay operation) [1..maxAttempts - 1])
              @ [Invoked maxAttempts, LoggedFailure maxAttempts (projl (operation maxAttempts))])"
    unfolding retryOperation_def using assms h by (intro retry_loop_exhausted) auto
  show "retryOperation baseDelay operation maxAttempts =
           (Inl (projl (operation maxAttempts)),
            concat (map (failed_attempt baseDelay operation) [1..maxAttempts - 1])
              @ [Invoked maxAttempts, LoggedFailure maxAttempts (projl (operation maxAttempts))])"
    by (rule run)
  show "operation maxAttempts = Inl (projl (operation maxAttempts))"
    using h assms by (metis isl_def order_refl sum.sel(1))
  have upk: "[1..maxAttempts - 1] @ [maxAttempts] = [1..maxAttempts]"
    using assms upto_rec2 [of 1 maxAttempts] by simp
  show "invocations (snd (retryOperation baseDelay operation maxAttempts)) = [1..maxAttempts]"
    by (simp add: run invocations_failed_attempts) (simp add: invocations_def upk)
  show "delays (snd (retryOperation baseDelay operation maxAttempts))
             = map (\<lambda>attempt. baseDelay * attempt) [1..maxAttempts - 1]"
    by (simp add: run delays_failed_attempts) (simp add: delays_def)
qed

theorem retryOperation_bounded_linear_backoff_witness:
  "retryOperation 5000 flaky 3 =
      (Inr (Some ''payload''),
       [Invoked 1, LoggedFailure 1 (JsError ''timeout''), Delayed 5000,
        Invoked 2, LoggedFailure 2 (JsError ''timeout''), Delayed 10000,
        Invoked 3])
   \<and> delays (snd (retryOperation 5000 flaky 3)) = [5000, 10000]
   \<and> fst (retryOperation 5000 unreachable 3) = Inl (JsError ''last'')
   \<and> delays (snd (retryOperation 5000 unreachable 3)) = [5000, 10000]
   \<and> invocations (snd (retryOperation 5000 unreachable 3)) = [1, 2, 3]"
proof -
  have u: "[1..(2::int)] = [1, 2]" "[1..(3::int)] = [1,2,3]" by (simp_all add: upto_rec1)
  have f: "\<forall>j. 1 \<le> j \<and> j < 3 \<longrightarrow> isl (flaky j)" by (simp add: flaky_def)
  have g: "\<forall>j. 1 \<le> j \<and> j \<le> 3 \<longrightarrow> isl (unreachable j)" by (simp add: unreachable_def)
  have one: "(1::int) \<le> 3" by simp
  note t1 = retryOperation_bounded_linear_backoff [OF one, of 5000 flaky]
  note t2 = retryOperation_bounded_linear_backoff [OF one, of 5000 unreachable]
  have k3: "1 \<le> (3::int) \<and> (3::int) \<le> 3 \<and> (\<forall>j. 1 \<le> j \<and> j < 3 \<longrightarrow> isl (flaky j))
      \<and> flaky 3 = Inr ''payload''"
    using f by (simp add: flaky_def)
  note a = t1 [THEN conjunct2, THEN conjunct1, rule_format, OF k3]
  note b = t2 [THEN conjunct2, THEN conjunct2, THEN mp, OF g]
  from a b show ?thesis
    by (simp add: u failed_attempt_def flaky_def unreachable_def delays_def invocations_def)
qed

section \<open>Proofs: address validation\<close>

lemma is_hex_not_x: "\<not> is_hex CHR ''x''" "\<not> is_hex CHR ''X''"
  by (simp_all add: is_hex_def is_lower_hex_def is_upper_hex_def is_digit_def)

lemma take2_cases:
  assumes "take 2 s = [a, b]"
  shows "s = a # b # drop 2 s"
proof -
  have "take 2 s @ drop 2 s = s" by (rule append_take_drop_id)
  then have "[a, b] @ drop 2 s = s" unfolding assms .
  then show ?thesis by simp
qed

lemma prefixed_not_hex:
  assumes "take 2 s = ''0x'' \<or> take 2 s = ''0X''"
  shows "\<not> list_all is_hex s"
proof
  assume h: "list_all is_hex s"
  from assms show False
  proof
    assume "take 2 s = ''0x''"
    from take2_cases [OF this] have "s = CHR ''0'' # CHR ''x'' # drop 2 s" .
    then have "list_all is_hex (CHR ''0'' # CHR ''x'' # drop 2 s)" using h by metis
    then show False using is_hex_not_x by simp
  next
    assume "take 2 s = ''0X''"
    from take2_cases [OF this] have "s = CHR ''0'' # CHR ''X'' # drop 2 s" .
    then have "list_all is_hex (CHR ''0'' # CHR ''X'' # drop 2 s)" using h by metis
    then show False using is_hex_not_x by simp
  qed
qed

lemma isAddress_body:
  "isAddress cs s =
     (length (strip_hex_prefix s) = 40 \<and> list_all is_hex (strip_hex_prefix s)
      \<and> (list_all is_lower_hex (strip_hex_prefix s) \<or> list_all is_upper_hex (strip_hex_prefix s)
          \<or> cs s))"
  unfolding isAddress_def by (cases "cs s") auto

text \<open>
  Claim C4, as amended. For a string that matches \<open>/^0x[0-9a-fA-F]{40}$/\<close>,
  \<open>isValidAddress\<close> returns true when its 40 digits are all lower-case or all upper-case,
  and otherwise what the EIP-55 checksum test of web3 returns. For a string that does
  not match, it returns true only when the string is 40 hexadecimal digits with no
  prefix, or with the prefix \<open>0X\<close>, under the same condition on the case of the digits;
  for every other string it returns false.
\<close>

theorem isValidAddress_accepts:
  "(matches_0x_hex40 s \<longrightarrow>
      isValidAddress checkAddressChecksum s =
        (list_all is_lower_hex (drop 2 s) \<or> list_all is_upper_hex (drop 2 s)
         \<or> checkAddressChecksum s))
   \<and> (\<not> matches_0x_hex40 s \<longrightarrow>
      isValidAddress checkAddressChecksum s =
        ((take 2 s = ''0X'' \<and> length (drop 2 s) = 40 \<and> list_all is_hex (drop 2 s)
            \<and> (list_all is_lower_hex (drop 2 s) \<or> list_all is_upper_hex (drop 2 s)
                \<or> checkAddressChecksum s))
         \<or> (length s = 40 \<and> list_all is_hex s
            \<and> (list_all is_lower_hex s \<or> list_all is_upper_hex s \<or> checkAddressChecksum s))))"
proof (intro conjI impI)
  assume m: "matches_0x_hex40 s"
  then have p: "take 2 s = ''0x''" and len: "length (drop 2 s) = 40"
    and hex: "list_all is_hex (drop 2 s)"
    by (simp_all add: matches_0x_hex40_def)
  from p have st: "strip_hex_prefix s = drop 2 s" by (simp add: strip_hex_prefix_def)
  show "isValidAddress checkAddressChecksum s =
        (list_all is_lower_hex (drop 2 s) \<or> list_all is_upper_hex (drop 2 s)
         \<or> checkAddressChecksum s)"
    unfolding isValidAddress_def isAddress_body st using len hex by simp
next
  assume n: "\<not> matches_0x_hex40 s"
  show "isValidAddress checkAddressChecksum s =
        ((take 2 s = ''0X'' \<and> length (drop 2 s) = 40 \<and> list_all is_hex (drop 2 s)
            \<and> (list_all is_lower_hex (drop 2 s) \<or> list_all is_upper_hex (drop 2 s)
                \<or> checkAddressChecksum s))
         \<or> (length s = 40 \<and> list_all is_hex s
            \<and> (list_all is_lower_hex s \<or> list_all is_upper_hex s \<or> checkAddressChecksum s)))"
  proof (cases "take 2 s = ''0x''")
    case True
    then have st: "strip_hex_prefix s = drop 2 s" by (simp add: strip_hex_prefix_def)
    from True have nh: "\<not> list_all is_hex s" using prefixed_not_hex by blast
    from True have nX: "take 2 s \<noteq> ''0X''" by simp
    from True n have "\<not> (length (drop 2 s) = 40 \<and> list_all is_hex (drop 2 s))"
      by (simp add: matches_0x_hex40_def)
    then show ?thesis
      unfolding isValidAddress_def isAddress_body st using nh nX by blast
  next
    case nx: False
    show ?thesis
    proof (cases "take 2 s = ''0X''")
      case True
      then have st: "strip_hex_prefix s = drop 2 s" by (simp add: strip_hex_prefix_def)
      from True have nh: "\<not> list_all is_hex s" using prefixed_not_hex by blast
      show ?thesis
        unfolding isValidAddress_def isAddress_body st using nh True by blast
    next
      case False
      with nx have st: "strip_hex_prefix s = s" by (simp add: strip_hex_prefix_def)
      show ?thesis
        unfolding isValidAddress_def isAddress_body st using False by blast
    qed
  qed
qed

theorem isValidAddress_accepts_witness:
  "matches_0x_hex40 ''0xaaaaaaaaaaaaaaaaaaaaaaaaaaaaaaaaaaaaaaaa''
   \<and> isValidAddress checksum_not_consulted ''0xaaaaaaaaaaaaaaaaaaaaaaaaaaaaaaaaaaaaaaaa''
   \<and> \<not> matches_0x_hex40 ''0x12''
   \<and> \<not> isValidAddress checksum_not_consulted ''0x12''"
proof -
  have m: "matches_0x_hex40 ''0xaaaaaaaaaaaaaaaaaaaaaaaaaaaaaaaaaaaaaaaa''"
    by (simp add: js_eval)
  have l: "list_all is_lower_hex (drop 2 ''0xaaaaaaaaaaaaaaaaaaaaaaaaaaaaaaaaaaaaaaaa'')"
    by (simp add: js_eval)
  have n: "\<not> matches_0x_hex40 ''0x12''" by (simp add: js_eval)
  from isValidAddress_accepts [of "''0xaaaaaaaaaaaaaaaaaaaaaaaaaaaaaaaaaaaaaaaa''" checksum_not_consulted,
      THEN conjunct1, rule_format, OF m] l
  have a: "isValidAddress checksum_not_consulted ''0xaaaaaaaaaaaaaaaaaaaaaaaaaaaaaaaaaaaaaaaa''"
    by blast
  from isValidAddress_accepts [of "''0x12''" checksum_not_consulted,
      THEN conjunct2, rule_format, OF n]
  have b: "\<not> isValidAddress checksum_not_consulted ''0x12''"
    by (simp add: checksum_not_consulted_def)
  from m a n b show ?thesis by blast
qed

text \<open>
  The claim as stated fails: a string of 40 lower-case hexadecimal digits without the
  prefix \<open>0x\<close> does not match the format, and \<open>isValidAddress\<close> returns true for it.
\<close>

theorem isValidAddress_unprefixed_counterexample:
  "isValidAddress checksum_not_consulted ''aaaaaaaaaaaaaaaaaaaaaaaaaaaaaaaaaaaaaaaa''
   \<and> \<not> matches_0x_hex40 ''aaaaaaaaaaaaaaaaaaaaaaaaaaaaaaaaaaaaaaaa''"
  by (simp add: js_eval)

section \<open>The round trip of the unit conversions\<close>

lemma digit_code_cases:
  "48 \<le> k \<Longrightarrow> k \<le> 57 \<Longrightarrow> k \<in> {48 :: nat, 49, 50, 51, 52, 53, 54, 55, 56, 57}"
  by simp arith

lemma char_of_code: "(of_char c :: nat) = k \<Longrightarrow> k = of_char x \<Longrightarrow> c = x"
  by simp

lemma is_digit_cases:
  assumes "is_digit c"
  shows "c \<in> set ''0123456789''"
proof -
  from assms have "48 \<le> (of_char c :: nat)" "(of_char c :: nat) \<le> 57"
    by (simp_all add: is_digit_def)
  then have "(of_char c :: nat) \<in> {48, 49, 50, 51, 52, 53, 54, 55, 56, 57}"
    by (rule digit_code_cases)
  then consider "(of_char c :: nat) = 48" | "(of_char c :: nat) = 49" | "(of_char c :: nat) = 50"
    | "(of_char c :: nat) = 51" | "(of_char c :: nat) = 52" | "(of_char c :: nat) = 53"
    | "(of_char c :: nat) = 54" | "(of_char c :: nat) = 55" | "(of_char c :: nat) = 56"
    | "(of_char c :: nat) = 57"
    by blast
  then show ?thesis
  proof cases
    case 1 then have "c = CHR ''0''" by (rule char_of_code) simp
    then show ?thesis by simp
  next
    case 2 then have "c = CHR ''1''" by (rule char_of_code) simp
    then show ?thesis by simp
  next
    case 3 then have "c = CHR ''2''" by (rule char_of_code) simp
    then show ?thesis by simp
  next
    case 4 then have "c = CHR ''3''" by (rule char_of_code) simp
    then show ?thesis by simp
  next
    case 5 then have "c = CHR ''4''" by (rule char_of_code) simp
    then show ?thesis by simp
  next
    case 6 then have "c = CHR ''5''" by (rule char_of_code) simp
    then show ?thesis by simp
  next
    case 7 then have "c = CHR ''6''" by (rule char_of_code) simp
    then show ?thesis by simp
  next
    case 8 then have "c = CHR ''7''" by (rule char_of_code) simp
    then show ?thesis by simp
  next
    case 9 then have "c = CHR ''8''" by (rule char_of_code) simp
    then show ?thesis by simp
  next
    case 10 then have "c = CHR ''9''" by (rule char_of_code) simp
    then show ?thesis by simp
  qed
qed

lemma digit_char_digit_val: "is_digit c \<Longrightarrow> digit_char (digit_val c) = c"
  using is_digit_cases [of c] by (auto simp: digit_char_def digit_val_def)

lemma digit_val_less: "is_digit c \<Longrightarrow> digit_val c < 10"
  using is_digit_cases [of c] by (auto simp: digit_val_def)

lemma digit_val_zero: "is_digit c \<Longrightarrow> digit_val c = 0 \<Longrightarrow> c = CHR ''0''"
  using is_digit_cases [of c] by (auto simp: digit_val_def)

lemma less_ten_cases: "d < 10 \<Longrightarrow> d \<in> {0 :: nat, 1, 2, 3, 4, 5, 6, 7, 8, 9}"
  by auto

lemma digit_val_digit_char: "d < 10 \<Longrightarrow> digit_val (digit_char d) = d \<and> is_digit (digit_char d)"
  using less_ten_cases [of d] by (auto simp: digit_char_def digit_val_def is_digit_def)

lemma nat_of_digits_snoc: "nat_of_digits (ds @ [c]) = nat_of_digits ds * 10 + digit_val c"
  by (simp add: nat_of_digits_def digits_value_def)

lemma nat_of_digits_Nil: "nat_of_digits [] = 0"
  by (simp add: nat_of_digits_def digits_value_def)

lemma nat_of_digits_single: "nat_of_digits [c] = digit_val c"
  by (simp add: nat_of_digits_def digits_value_def)

lemma nat_of_digits_append_zeros:
  "nat_of_digits (ds @ replicate k CHR ''0'') = nat_of_digits ds * 10 ^ k"
proof (induction k)
  case 0
  show ?case by simp
next
  case (Suc k)
  have "ds @ replicate (Suc k) CHR ''0'' = (ds @ replicate k CHR ''0'') @ [CHR ''0'']"
    by (simp add: replicate_append_same)
  then show ?case
    by (simp only: nat_of_digits_snoc Suc) (simp add: digit_val_def)
qed

lemma nat_of_digits_less: "list_all is_digit ds \<Longrightarrow> nat_of_digits ds < 10 ^ length ds"
proof (induction ds rule: rev_induct)
  case Nil
  show ?case by (simp add: nat_of_digits_Nil)
next
  case (snoc c ds)
  then have "nat_of_digits ds < 10 ^ length ds" and "digit_val c < 10"
    by (simp_all add: digit_val_less)
  then show ?case by (simp add: nat_of_digits_snoc)
qed

lemma nat_of_digits_of_nat: "nat_of_digits (digits_of_nat n) = n"
proof (induction n rule: digits_of_nat.induct)
  case (1 n)
  show ?case
  proof (cases "n < 10")
    case True
    then have "digits_of_nat n = [] @ [digit_char n]"
      by (simp add: digits_of_nat.simps)
    with True show ?thesis
      by (simp only: nat_of_digits_snoc nat_of_digits_Nil) (simp add: digit_val_digit_char)
  next
    case False
    then have "digits_of_nat n = digits_of_nat (n div 10) @ [digit_char (n mod 10)]"
      by (simp add: digits_of_nat.simps)
    with False 1 show ?thesis
      by (simp add: nat_of_digits_snoc digit_val_digit_char)
  qed
qed

lemma digits_of_nat_numeric: "is_numeric (digits_of_nat n)"
proof (induction n rule: digits_of_nat.induct)
  case (1 n)
  show ?case
  proof (cases "n < 10")
    case True
    then show ?thesis
      by (simp add: digits_of_nat.simps [of n] is_numeric_def digit_val_digit_char)
  next
    case False
    with 1 show ?thesis
      by (simp add: digits_of_nat.simps [of n] is_numeric_def digit_val_digit_char)
  qed
qed

lemma nat_of_digits_positive:
  "list_all is_digit ds \<Longrightarrow> ds \<noteq> [] \<Longrightarrow> take 1 ds \<noteq> ''0'' \<Longrightarrow> 0 < nat_of_digits ds"
proof (induction ds rule: rev_induct)
  case Nil
  then show ?case by simp
next
  case (snoc c ds)
  show ?case
  proof (cases "ds = []")
    case True
    with snoc.prems have "is_digit c" "c \<noteq> CHR ''0''" by simp_all
    then have "digit_val c \<noteq> 0" using digit_val_zero by blast
    with True show ?thesis by (simp add: nat_of_digits_single)
  next
    case False
    with snoc.prems have "take 1 ds \<noteq> ''0''" "list_all is_digit ds"
      by (cases ds; simp)+
    with snoc.IH False have "0 < nat_of_digits ds" by blast
    then show ?thesis by (simp add: nat_of_digits_snoc)
  qed
qed

lemma digits_of_nat_of_digits:
  "list_all is_digit ds \<Longrightarrow> ds \<noteq> [] \<Longrightarrow> ds = ''0'' \<or> take 1 ds \<noteq> ''0'' \<Longrightarrow>
     digits_of_nat (nat_of_digits ds) = ds"
proof (induction ds rule: rev_induct)
  case Nil
  then show ?case by simp
next
  case (snoc c ds)
  from snoc.prems have c: "is_digit c" and all: "list_all is_digit ds" by simp_all
  show ?case
  proof (cases "ds = []")
    case True
    with c show ?thesis
      by (simp add: nat_of_digits_single digits_of_nat.simps [of "digit_val c"]
          digit_val_less digit_char_digit_val)
  next
    case False
    with snoc.prems have lead: "take 1 ds \<noteq> ''0''"
      by (cases ds) auto
    with all False have pos: "0 < nat_of_digits ds"
      by (rule nat_of_digits_positive)
    from snoc.IH all False lead have ih: "digits_of_nat (nat_of_digits ds) = ds" by blast
    from c have lt: "digit_val c < 10" by (rule digit_val_less)
    from pos have big: "\<not> nat_of_digits ds * 10 + digit_val c < 10" by simp
    from lt have "(nat_of_digits ds * 10 + digit_val c) div 10 = nat_of_digits ds"
      and "(nat_of_digits ds * 10 + digit_val c) mod 10 = digit_val c"
      by simp_all
    with big ih c show ?thesis
      by (simp add: nat_of_digits_snoc digits_of_nat.simps [of "nat_of_digits ds * 10 + digit_val c"]
          digit_char_digit_val)
  qed
qed

lemma nat_of_digits_Cons:
  "nat_of_digits (c # ds) = digit_val c * 10 ^ length ds + nat_of_digits ds"
proof (induction ds rule: rev_induct)
  case Nil
  show ?case by (simp add: nat_of_digits_single nat_of_digits_Nil)
next
  case (snoc d ds)
  have "nat_of_digits (c # ds @ [d]) = nat_of_digits ((c # ds) @ [d])" by simp
  also have "\<dots> = nat_of_digits (c # ds) * 10 + digit_val d" by (rule nat_of_digits_snoc)
  finally show ?case by (simp add: snoc nat_of_digits_snoc algebra_simps)
qed

lemma nat_of_digits_leading_zeros:
  "nat_of_digits (dropWhile (\<lambda>c. c = CHR ''0'') ds) = nat_of_digits ds"
  by (induction ds) (simp_all add: nat_of_digits_Cons digit_val_def)

lemma takeWhile_zeros:
  "takeWhile (\<lambda>c. c = x) ds = replicate (length (takeWhile (\<lambda>c. c = x) ds)) x"
  by (induction ds) simp_all

lemma take1_hd: "xs \<noteq> [] \<Longrightarrow> take 1 xs = [hd xs]"
  by (cases xs) simp_all

lemma nat_of_digits_zeros_append:
  "nat_of_digits (replicate k CHR ''0'' @ r) = nat_of_digits r"
  by (induction k) (simp_all add: nat_of_digits_Cons digit_val_def)

lemma pad_left_zeros:
  assumes "list_all is_digit r" and "r = [] \<longrightarrow> 0 < k" and "r \<noteq> [] \<longrightarrow> hd r \<noteq> CHR ''0''"
  shows "pad_left (k + length r) (digits_of_nat (nat_of_digits (replicate k CHR ''0'' @ r)))
           = replicate k CHR ''0'' @ r"
proof (cases "r = []")
  case True
  with assms(2) obtain j where k: "k = Suc j" by (cases k) simp_all
  have z: "digits_of_nat 0 = ''0''"
    by (simp add: digits_of_nat.simps [of 0] digit_char_def)
  have v: "nat_of_digits (replicate k CHR ''0'' @ r) = 0"
    by (simp only: nat_of_digits_zeros_append True nat_of_digits_Nil)
  show ?thesis
    unfolding v z using True k by (simp add: pad_left_def replicate_append_same)
next
  case False
  with assms(3) have "hd r \<noteq> CHR ''0''" by simp
  with take1_hd [OF False] have "take 1 r \<noteq> ''0''" by simp
  with assms(1) False have "digits_of_nat (nat_of_digits r) = r"
    by (intro digits_of_nat_of_digits) simp_all
  then show ?thesis
    by (simp only: nat_of_digits_zeros_append) (simp add: pad_left_def)
qed

lemma pad_left_digits:
  assumes "list_all is_digit ds" and "ds \<noteq> []"
  shows "pad_left (length ds) (digits_of_nat (nat_of_digits ds)) = ds"
proof -
  define k where "k = length (takeWhile (\<lambda>c. c = CHR ''0'') ds)"
  define r where "r = dropWhile (\<lambda>c. c = CHR ''0'') ds"
  have "replicate k CHR ''0'' = takeWhile (\<lambda>c. c = CHR ''0'') ds"
    unfolding k_def by (rule takeWhile_zeros [symmetric])
  then have "replicate k CHR ''0'' @ r = ds"
    unfolding r_def by simp
  then have ds: "ds = replicate k CHR ''0'' @ r" by (rule sym)
  from assms(1) have num: "list_all is_digit r"
    unfolding ds by simp
  from assms(2) have empty: "r = [] \<longrightarrow> 0 < k"
    unfolding ds by auto
  have "r \<noteq> [] \<Longrightarrow> hd r \<noteq> CHR ''0''"
    unfolding r_def by (rule hd_dropWhile)
  then have lead: "r \<noteq> [] \<longrightarrow> hd r \<noteq> CHR ''0''" by blast
  have "length ds = k + length r"
    unfolding ds by simp
  with pad_left_zeros [OF num empty lead] show ?thesis
    unfolding ds by simp
qed

lemma dropWhile_replicate_append:
  "dropWhile (\<lambda>c. c = x) (replicate k x @ ys) = dropWhile (\<lambda>c. c = x) ys"
  by (induction k) simp_all

lemma strip_trailing_zeros_pad_right:
  "strip_trailing_zeros (pad_right n ds) = strip_trailing_zeros ds"
  by (simp add: strip_trailing_zeros_def pad_right_def dropWhile_replicate_append)

lemma strip_trailing_zeros_zeros: "strip_trailing_zeros (replicate k CHR ''0'') = []"
  using dropWhile_replicate_append [of "CHR ''0''" k "[]"]
  by (simp add: strip_trailing_zeros_def)

lemma pad_right_props:
  "list_all is_digit ds \<Longrightarrow> length ds \<le> n \<Longrightarrow>
     list_all is_digit (pad_right n ds) \<and> length (pad_right n ds) = n"
  by (auto simp: pad_right_def is_digit_def list_all_iff)

lemma fromWei_digits:
  assumes "unit_decimals unit = Some n" and "F < 10 ^ n"
  shows "fromWei (digits_of_nat (N * 10 ^ n + F)) unit
           = Inr (join_decimal (digits_of_nat N)
                   (strip_trailing_zeros (pad_left n (digits_of_nat F))))"
proof -
  have num: "is_numeric (digits_of_nat (N * 10 ^ n + F))"
    by (rule digits_of_nat_numeric)
  from assms(2) have "(N * 10 ^ n + F) div 10 ^ n = N" and "(N * 10 ^ n + F) mod 10 ^ n = F"
    by simp_all
  with assms(1) num show ?thesis
    by (simp add: fromWei_def nat_of_digits_of_nat)
qed

lemma strip_padded_zero: "strip_trailing_zeros (pad_left n ''0'') = []"
proof -
  have "pad_left n ''0'' = replicate (Suc (n - 1)) CHR ''0''"
    by (simp add: pad_left_def replicate_append_same)
  then show ?thesis by (simp only: strip_trailing_zeros_zeros)
qed

lemma convert_back:
  assumes canon: "canonical_digits ip"
    and rest: "rest = [] \<or> (take 1 rest = ''.'' \<and> is_numeric (drop 1 rest) \<and> length (drop 1 rest) \<le> n)"
    and decimals: "unit_decimals unit = Some n"
  shows "\<exists>w. toWei_fraction n ip rest = Inr w
           \<and> fromWei w unit = Inr (join_decimal ip (strip_trailing_zeros (drop 1 rest)))"
proof -
  from canon have ip: "ip \<noteq> []" and canon_back: "digits_of_nat (nat_of_digits ip) = ip"
    by (auto simp: canonical_digits_def is_numeric_def intro: digits_of_nat_of_digits)
  show ?thesis
  proof (cases "rest = []")
    case True
    have z: "digits_of_nat 0 = ''0''"
      by (simp add: digits_of_nat.simps [of 0] digit_char_def)
    have f: "fromWei (digits_of_nat (nat_of_digits ip * 10 ^ n)) unit
        = Inr (join_decimal (digits_of_nat (nat_of_digits ip))
                (strip_trailing_zeros (pad_left n (digits_of_nat 0))))"
      using fromWei_digits [OF decimals, of 0 "nat_of_digits ip"] by simp
    from ip True have "toWei_fraction n ip rest = Inr (digits_of_nat (nat_of_digits ip * 10 ^ n))"
      by (simp add: toWei_fraction_def)
    moreover have "fromWei (digits_of_nat (nat_of_digits ip * 10 ^ n)) unit
        = Inr (join_decimal ip (strip_trailing_zeros (drop 1 rest)))"
      unfolding f canon_back z strip_padded_zero
      using True by (simp add: strip_trailing_zeros_def)
    ultimately show ?thesis by blast
  next
    case False
    define fp where "fp = drop 1 rest"
    from False rest have dot: "take 1 rest = ''.''" and num: "list_all is_digit fp"
      and len: "length fp \<le> n" and ne: "fp \<noteq> []"
      by (auto simp: fp_def is_numeric_def)
    from pad_right_props [OF num len] have pnum: "list_all is_digit (pad_right n fp)"
      and plen: "length (pad_right n fp) = n" by blast+
    from ne have pne: "pad_right n fp \<noteq> []" by (simp add: pad_right_def)
    from nat_of_digits_less [OF pnum] have lt: "nat_of_digits (pad_right n fp) < 10 ^ n"
      by (simp only: plen)
    from pad_left_digits [OF pnum pne]
    have pad: "pad_left n (digits_of_nat (nat_of_digits (pad_right n fp))) = pad_right n fp"
      by (simp only: plen)
    from ip False dot num len ne
    have "toWei_fraction n ip rest
        = Inr (digits_of_nat (nat_of_digits ip * 10 ^ n + nat_of_digits (pad_right n fp)))"
      by (simp add: toWei_fraction_def fp_def is_numeric_def)
    moreover have "fromWei (digits_of_nat (nat_of_digits ip * 10 ^ n + nat_of_digits (pad_right n fp))) unit
        = Inr (join_decimal ip (strip_trailing_zeros fp))"
      unfolding fromWei_digits [OF decimals lt] canon_back pad strip_trailing_zeros_pad_right ..
    ultimately show ?thesis unfolding fp_def by blast
  qed
qed

text \<open>
  Claim C9. For every valid decimal string \<open>d\<close> (digits without a redundant leading zero,
  optionally a point and one to eighteen digits), converting \<open>d\<close> to base units and back,
  \<open>fromWei(toWei(d, "ether"), "ether")\<close>, returns \<open>d\<close> with the trailing zeros of its fraction
  dropped (and the point with them when no fraction is left): neither conversion fails.
\<close>

theorem toWei_fromWei_round_trip:
  assumes "valid_decimal d"
  shows "round_trip d = Inr (normalize_trailing_zeros d)"
proof -
  have ether: "unit_decimals ''ether'' = Some 18"
    by (simp add: unit_decimals_def)
  from assms have "canonical_digits (takeWhile is_digit d)"
    and "dropWhile is_digit d = []
         \<or> (take 1 (dropWhile is_digit d) = ''.''
            \<and> is_numeric (drop 1 (dropWhile is_digit d))
            \<and> length (drop 1 (dropWhile is_digit d)) \<le> 18)"
    unfolding valid_decimal_def by blast+
  from convert_back [OF this ether] obtain w where
    "toWei_fraction 18 (takeWhile is_digit d) (dropWhile is_digit d) = Inr w"
    "fromWei w ''ether'' = Inr (join_decimal (takeWhile is_digit d)
        (strip_trailing_zeros (drop 1 (dropWhile is_digit d))))"
    by blast
  then show ?thesis
    by (simp add: round_trip_def toWei_def ether normalize_trailing_zeros_def)
qed

text \<open>
  The theorem at \<open>1.50\<close>: one and a half ether is 1500000000000000000 base units, which
  convert back to \<open>1.5\<close>.
\<close>

theorem toWei_fromWei_round_trip_witness:
  "valid_decimal ''1.50''
   \<and> toWei ''1.50'' ''ether'' = Inr ''1500000000000000000''
   \<and> round_trip ''1.50'' = Inr ''1.5''
   \<and> normalize_trailing_zeros ''1.50'' = ''1.5''"
proof -
  have v: "valid_decimal ''1.50''"
    by (simp add: js_eval)
  have n: "normalize_trailing_zeros ''1.50'' = ''1.5''"
    by (simp add: js_eval)
  have t: "toWei ''1.50'' ''ether'' = Inr ''1500000000000000000''"
    by (simp add: js_eval)
  from toWei_fromWei_round_trip [OF v] v n t show ?thesis
    by simp
qed


section \<open>Proofs: delegation normalization\<close>

lemma transform_delegation_cases:
  "transform_delegation fw d =
     (if well_formed_delegation fw d then Inr (delegation_record fw d)
      else Inl (projl (transform_delegation fw d)))"
  by (auto simp: transform_delegation_def well_formed_delegation_def delegation_record_def
           split: sum.splits option.splits)

lemma delegations_forEach_eq:
  "delegations_forEach fw ds (rs, console) =
     (rs @ map (delegation_record fw) (filter (well_formed_delegation fw) ds),
      console @ map (\<lambda>d. projl (transform_delegation fw d))
                 (filter (\<lambda>d. \<not> well_formed_delegation fw d) ds))"
proof (induction ds arbitrary: rs console)
  case Nil
  show ?case by simp
next
  case (Cons d ds)
  show ?case
  proof (cases "well_formed_delegation fw d")
    case True
    then have "transform_delegation fw d = Inr (delegation_record fw d)"
      using transform_delegation_cases [of fw d] by simp
    with True show ?thesis by (simp add: Cons.IH)
  next
    case False
    then have "transform_delegation fw d = Inl (projl (transform_delegation fw d))"
      using transform_delegation_cases [of fw d] by simp
    then obtain e where e: "transform_delegation fw d = Inl e" ..
    with False show ?thesis by (simp add: Cons.IH)
  qed
qed

lemma transform_deposit_cases:
  "transform_deposit fw staker_id d =
     (if converts fw d then Inr (deposit_record fw staker_id d)
      else Inl (projl (fw (dp_shares d))))"
  by (auto simp: transform_deposit_def converts_def deposit_record_def split: sum.splits)

lemma deposits_forEach_eq:
  "deposits_forEach fw staker_id ds (rs, console) =
     (rs @ map (deposit_record fw staker_id) (filter (converts fw) ds),
      console @ map (\<lambda>d. projl (fw (dp_shares d))) (filter (\<lambda>d. \<not> converts fw d) ds))"
proof (induction ds arbitrary: rs console)
  case Nil
  show ?case by simp
next
  case (Cons d ds)
  show ?case
    by (cases "converts fw d") (simp_all add: transform_deposit_cases Cons.IH)
qed

lemma deposits_filter_readable:
  "list_all (\<lambda>d. dp_strategy d \<noteq> None) ds \<Longrightarrow>
     deposits_filter env ds = Inr (filter (passes_filter env) ds)"
  by (induction ds) (auto simp: passes_filter_def is_stETH_deposit_def split: option.splits)

lemma stakers_forEach_eq:
  "list_all readable_staker ss \<Longrightarrow>
     stakers_forEach fw env ss (rs, console) =
       Inr (rs @ concat (map (staker_records fw env) ss),
            console @ concat (map (staker_errors fw env) ss))"
proof (induction ss arbitrary: rs console)
  case Nil
  show ?case by simp
next
  case (Cons staker ss)
  from Cons.prems have rest: "list_all readable_staker ss" and this_one: "readable_staker staker"
    by simp_all
  from this_one obtain deposits where d: "st_deposits staker = Some deposits"
    and r: "list_all (\<lambda>d. dp_strategy d \<noteq> None) deposits"
    by (cases "st_deposits staker") (simp_all add: readable_staker_def)
  from d have s: "stETH_deposits env staker = filter (passes_filter env) deposits"
    by (simp add: stETH_deposits_def)
  show ?case
    by (simp add: d deposits_filter_readable [OF r] deposits_forEach_eq Cons.IH [OF rest]
        staker_records_def staker_errors_def s)
qed

lemma transformRestakingData_eq:
  assumes "delegations data = Some ds" and "list_all readable_staker (staker_list data)"
  shows "transformRestakingData fw env data =
           Inr (map (delegation_record fw) (filter (well_formed_delegation fw) ds)
                  @ concat (map (staker_records fw env) (staker_list data)),
                delegation_errors fw ds
                  @ concat (map (staker_errors fw env) (staker_list data)))"
proof (cases "stakers data")
  case None
  with assms(1) show ?thesis
    by (simp add: transformRestakingData_def delegations_forEach_eq staker_list_def
        delegation_errors_def)
next
  case (Some ss)
  with assms(2) have "list_all readable_staker ss" by (simp add: staker_list_def)
  from stakers_forEach_eq [OF this] Some assms(1) show ?thesis
    by (simp add: transformRestakingData_def delegations_forEach_eq staker_list_def
        delegation_errors_def)
qed

text \<open>
  Claim C5, as amended. For every payload whose staker part is readable (every staker has
  its array of deposits and every deposit its strategy; a payload without stakers is
  one), and for every batch of raw delegation events in it, \<open>transformRestakingData\<close> returns
  normally. Its output starts with one delegation record for each well-formed event, in
  the order of the batch, followed by the records of the stakers' stETH deposits; each
  event that is not well formed contributes one console line and nothing to the output.
  When a single event of the batch is malformed, the events contribute what the batch
  without that event gives, and with no stakers the output has one record fewer than there
  are events. (The witness is the batch of five events whose third has a non-numeric
  \<open>shares\<close> field, which yields four records, alone and in front of a staker's record.)
\<close>

theorem transformRestakingData_fault_isolation:
  assumes "delegations data = Some ds"
    and "list_all readable_staker (staker_list data)"
  shows "transformRestakingData fw env data =
           Inr (map (delegation_record fw) (filter (well_formed_delegation fw) ds)
                  @ concat (map (staker_records fw env) (staker_list data)),
                delegation_errors fw ds
                  @ concat (map (staker_errors fw env) (staker_list data)))
    \<and> (\<forall>before bad after.
          ds = before @ bad # after \<and> \<not> well_formed_delegation fw bad
          \<and> list_all (well_formed_delegation fw) (before @ after) \<longrightarrow>
          transformRestakingData fw env data =
            Inr (map (delegation_record fw) (before @ after)
                   @ concat (map (staker_records fw env) (staker_list data)),
                 projl (transform_delegation fw bad)
                   # concat (map (staker_errors fw env) (staker_list data)))
          \<and> (staker_list data = [] \<longrightarrow>
                length (fst (projr (transformRestakingData fw env data))) = length ds - 1))"
proof -
  note run = transformRestakingData_eq [OF assms, of fw env]
  have one: "transformRestakingData fw env data =
            Inr (map (delegation_record fw) (before @ after)
                   @ concat (map (staker_records fw env) (staker_list data)),
                 projl (transform_delegation fw bad)
                   # concat (map (staker_errors fw env) (staker_list data)))
          \<and> (staker_list data = [] \<longrightarrow>
                length (fst (projr (transformRestakingData fw env data))) = length ds - 1)"
    if h: "ds = before @ bad # after \<and> \<not> well_formed_delegation fw bad
          \<and> list_all (well_formed_delegation fw) (before @ after)"
    for before bad after
  proof -
    from h have wf: "filter (well_formed_delegation fw) before = before"
      "filter (well_formed_delegation fw) after = after"
      "filter (\<lambda>d. \<not> well_formed_delegation fw d) before = []"
      "filter (\<lambda>d. \<not> well_formed_delegation fw d) after = []"
      by (auto simp: list_all_iff filter_empty_conv intro: filter_True)
    from h wf show ?thesis by (simp add: run delegation_errors_def)
  qed
  from run one show ?thesis by blast
qed

text \<open>
  The theorem at the batch of five events, in a payload without stakers and in a payload
  with a staker of whose four deposits two pass the filter and convert, one does not pass
  the filter, and one passes it with shares that are not a number.
\<close>

theorem transformRestakingData_fault_isolation_witness:
  "map userAddress
     (fst (projr (transformRestakingData fromWei_ether None
                    \<lparr>delegations = Some five_events, stakers = None\<rparr>)))
     = [''0xa1a1a1a1a1a1a1a1a1a1a1a1a1a1a1a1a1a1a1a1'', ''0xa2a2a2a2a2a2a2a2a2a2a2a2a2a2a2a2a2a2a2a2'', ''0xa4a4a4a4a4a4a4a4a4a4a4a4a4a4a4a4a4a4a4a4'', ''0xa5a5a5a5a5a5a5a5a5a5a5a5a5a5a5a5a5a5a5a5'']
   \<and> length (fst (projr (transformRestakingData fromWei_ether None
                    \<lparr>delegations = Some five_events, stakers = None\<rparr>))) = 4
   \<and> snd (projr (transformRestakingData fromWei_ether None
                    \<lparr>delegations = Some five_events, stakers = None\<rparr>)) = [InvalidAmount]
   \<and> \<not> isl (transformRestakingData fromWei_ether None
                    \<lparr>delegations = Some five_events, stakers = None\<rparr>)
   \<and> list_all readable_staker [sample_staker]
   \<and> map userAddress
       (fst (projr (transformRestakingData fromWei_ether configured_strategy
                      \<lparr>delegations = Some five_events, stakers = Some [sample_staker]\<rparr>)))
       = [''0xa1a1a1a1a1a1a1a1a1a1a1a1a1a1a1a1a1a1a1a1'', ''0xa2a2a2a2a2a2a2a2a2a2a2a2a2a2a2a2a2a2a2a2'', ''0xa4a4a4a4a4a4a4a4a4a4a4a4a4a4a4a4a4a4a4a4'', ''0xa5a5a5a5a5a5a5a5a5a5a5a5a5a5a5a5a5a5a5a5'', ''0xa6a6a6a6a6a6a6a6a6a6a6a6a6a6a6a6a6a6a6a6'', ''0xa6a6a6a6a6a6a6a6a6a6a6a6a6a6a6a6a6a6a6a6'']
   \<and> map amountRestakedStETH
       (fst (projr (transformRestakingData fromWei_ether configured_strategy
                      \<lparr>delegations = Some five_events, stakers = Some [sample_staker]\<rparr>)))
       = [''1'', ''2.5'', ''0.1'', ''0'', ''3'', ''4'']
   \<and> map targetAVSOperatorAddress
       (fst (projr (transformRestakingData fromWei_ether configured_strategy
                      \<lparr>delegations = Some five_events, stakers = Some [sample_staker]\<rparr>)))
       = [''0x1234567890123456789012345678901234567890'',
          ''0x1234567890123456789012345678901234567890'',
          ''0x1234567890123456789012345678901234567890'',
          ''0x1234567890123456789012345678901234567890'',
          ''0x0000000000000000000000000000000000000000'',
          ''0x0000000000000000000000000000000000000000'']
   \<and> snd (projr (transformRestakingData fromWei_ether configured_strategy
                    \<lparr>delegations = Some five_events, stakers = Some [sample_staker]\<rparr>))
       = [InvalidAmount, InvalidAmount]
   \<and> \<not> isl (transformRestakingData fromWei_ether configured_strategy
                    \<lparr>delegations = Some five_events, stakers = Some [sample_staker]\<rparr>)"
proof -
  let ?data = "\<lparr>delegations = Some five_events, stakers = None\<rparr>"
  let ?data' = "\<lparr>delegations = Some five_events, stakers = Some [sample_staker]\<rparr>"
  let ?before = "[sample_delegation ''0xa1a1a1a1a1a1a1a1a1a1a1a1a1a1a1a1a1a1a1a1'' ''1000000000000000000'',
                  sample_delegation ''0xa2a2a2a2a2a2a2a2a2a2a2a2a2a2a2a2a2a2a2a2'' ''2500000000000000000'']"
  let ?bad = "sample_delegation ''0xa3a3a3a3a3a3a3a3a3a3a3a3a3a3a3a3a3a3a3a3'' ''not-a-number''"
  let ?after = "[sample_delegation ''0xa4a4a4a4a4a4a4a4a4a4a4a4a4a4a4a4a4a4a4a4'' ''100000000000000000'',
                 sample_delegation ''0xa5a5a5a5a5a5a5a5a5a5a5a5a5a5a5a5a5a5a5a5'' ''0'']"
  have d: "delegations ?data = Some five_events" "delegations ?data' = Some five_events"
    by simp_all
  have s: "list_all readable_staker (staker_list ?data)"
    by (simp add: staker_list_def)
  have r: "list_all readable_staker [sample_staker]"
    by (simp add: readable_staker_def sample_staker_def sample_deposit_def)
  then have s': "list_all readable_staker (staker_list ?data')"
    by (simp add: staker_list_def)
  have bad: "fromWei_ether ''not-a-number'' = Inl InvalidAmount"
    "fromWei_ether ''1e18'' = Inl InvalidAmount"
    by (simp_all add: fromWei_ether_def fromWei_def unit_decimals_def is_numeric_def is_digit_def
        InvalidAmount_def)
  have conv: "fromWei_ether ''1000000000000000000'' = Inr ''1''"
    "fromWei_ether ''2500000000000000000'' = Inr ''2.5''"
    "fromWei_ether ''100000000000000000'' = Inr ''0.1''"
    "fromWei_ether ''0'' = Inr ''0''"
    "fromWei_ether ''3000000000000000000'' = Inr ''3''"
    "fromWei_ether ''4000000000000000000'' = Inr ''4''"
    by (simp_all add: js_eval)
  have h: "five_events = ?before @ ?bad # ?after
      \<and> \<not> well_formed_delegation fromWei_ether ?bad
      \<and> list_all (well_formed_delegation fromWei_ether) (?before @ ?after)"
    using bad conv by (simp add: five_events_def well_formed_delegation_def sample_delegation_def)
  note t = transformRestakingData_fault_isolation [OF d(1) s, of fromWei_ether None,
      THEN conjunct2, rule_format, OF h]
  note t' = transformRestakingData_fault_isolation [OF d(2) s', of fromWei_ether
      configured_strategy, THEN conjunct2, rule_format, OF h]
  have e: "projl (transform_delegation fromWei_ether ?bad) = InvalidAmount"
    using bad by (simp add: transform_delegation_def sample_delegation_def)
  have p: "passes_filter configured_strategy (sample_deposit (Some ''stETH-strategy'') x)"
    "passes_filter configured_strategy
       (sample_deposit (Some ''0x93c4b944d05dfe6df7645a86cd2206016c51564d'') x)"
    "\<not> passes_filter configured_strategy
       (sample_deposit (Some ''0x1111111111111111111111111111111111111111'') x)"
    "passes_filter configured_strategy (sample_deposit (Some ''0xStEth'') x)" for x
    by (simp_all add: passes_filter_def sample_deposit_def configured_strategy_def
        toLowerCase_def lower_char_def)
  have f: "stETH_deposits configured_strategy sample_staker
      = [sample_deposit (Some ''stETH-strategy'') ''3000000000000000000'',
         sample_deposit (Some ''0x93c4b944d05dfe6df7645a86cd2206016c51564d'')
           ''4000000000000000000'',
         sample_deposit (Some ''0xStEth'') ''1e18'']"
    by (simp add: stETH_deposits_def sample_staker_def p)
  have g: "staker_records fromWei_ether configured_strategy sample_staker
      = [deposit_record fromWei_ether ''0xa6a6a6a6a6a6a6a6a6a6a6a6a6a6a6a6a6a6a6a6''
           (sample_deposit (Some ''stETH-strategy'') ''3000000000000000000''),
         deposit_record fromWei_ether ''0xa6a6a6a6a6a6a6a6a6a6a6a6a6a6a6a6a6a6a6a6''
           (sample_deposit (Some ''0x93c4b944d05dfe6df7645a86cd2206016c51564d'')
              ''4000000000000000000'')]"
    "staker_errors fromWei_ether configured_strategy sample_staker = [InvalidAmount]"
    using conv(5,6) bad(2)
    by (simp_all add: staker_records_def staker_errors_def f converts_def sample_deposit_def)
       (simp add: sample_staker_def)
  from t have first: "map userAddress (fst (projr (transformRestakingData fromWei_ether None ?data)))
      = [''0xa1a1a1a1a1a1a1a1a1a1a1a1a1a1a1a1a1a1a1a1'', ''0xa2a2a2a2a2a2a2a2a2a2a2a2a2a2a2a2a2a2a2a2'', ''0xa4a4a4a4a4a4a4a4a4a4a4a4a4a4a4a4a4a4a4a4'', ''0xa5a5a5a5a5a5a5a5a5a5a5a5a5a5a5a5a5a5a5a5'']
    \<and> length (fst (projr (transformRestakingData fromWei_ether None ?data))) = 4
    \<and> snd (projr (transformRestakingData fromWei_ether None ?data)) = [InvalidAmount]
    \<and> \<not> isl (transformRestakingData fromWei_ether None ?data)"
    using e by (simp add: delegation_record_def sample_delegation_def five_events_def
        staker_list_def)
  from t' have second: "map userAddress
        (fst (projr (transformRestakingData fromWei_ether configured_strategy ?data')))
      = [''0xa1a1a1a1a1a1a1a1a1a1a1a1a1a1a1a1a1a1a1a1'', ''0xa2a2a2a2a2a2a2a2a2a2a2a2a2a2a2a2a2a2a2a2'', ''0xa4a4a4a4a4a4a4a4a4a4a4a4a4a4a4a4a4a4a4a4'', ''0xa5a5a5a5a5a5a5a5a5a5a5a5a5a5a5a5a5a5a5a5'', ''0xa6a6a6a6a6a6a6a6a6a6a6a6a6a6a6a6a6a6a6a6'', ''0xa6a6a6a6a6a6a6a6a6a6a6a6a6a6a6a6a6a6a6a6'']
    \<and> map amountRestakedStETH
        (fst (projr (transformRestakingData fromWei_ether configured_strategy ?data')))
      = [''1'', ''2.5'', ''0.1'', ''0'', ''3'', ''4'']
    \<and> map targetAVSOperatorAddress
       (fst (projr (transformRestakingData fromWei_ether configured_strategy ?data')))
       = [''0x1234567890123456789012345678901234567890'',
          ''0x1234567890123456789012345678901234567890'',
          ''0x1234567890123456789012345678901234567890'',
          ''0x1234567890123456789012345678901234567890'',
          ''0x0000000000000000000000000000000000000000'',
          ''0x0000000000000000000000000000000000000000'']
    \<and> snd (projr (transformRestakingData fromWei_ether configured_strategy ?data'))
      = [InvalidAmount, InvalidAmount]
    \<and> \<not> isl (transformRestakingData fromWei_ether configured_strategy ?data')"
    using e g conv by (simp add: delegation_record_def sample_delegation_def
        staker_list_def deposit_record_def sample_deposit_def zero_address_def)
  from first second r show ?thesis by blast
qed

text \<open>
  Claim C5 as stated fails. The claim has no exception escape the normalizer for any batch
  with a single malformed event. The filter on a staker's deposits reads
  \<open>deposit.strategy.id\<close> outside every \<open>try\<close> block: with the batch of five events and a
  staker whose deposit carries no strategy, the \<open>TypeError\<close> escapes and no record is
  produced.
\<close>

theorem transformRestakingData_staker_escapes_counterexample:
  "transformRestakingData fromWei_ether None
     \<lparr>delegations = Some five_events, stakers = Some [staker_without_strategy]\<rparr>
     = Inl TypeError"
  by (simp add: js_eval)


section \<open>Proofs: operator normalization\<close>

lemma slashings_forEach_history:
  "slashings_forEach fw ss m = Inr m' \<Longrightarrow>
     history_of m' operator_id = history_of m operator_id @ slashes_of fw operator_id ss"
proof (induction ss arbitrary: m)
  case Nil
  then show ?case by (simp add: slashes_of_def)
next
  case (Cons slash ss)
  from Cons.prems obtain oid ev where
    oid: "sl_operator slash = Some oid" and ev: "slash_event_of fw slash = Inr ev"
    and rest: "slashings_forEach fw ss (m(oid \<mapsto> history_of m oid @ [ev])) = Inr m'"
    by (auto simp: history_of_def split: option.splits sum.splits)
  from Cons.IH [OF rest]
  have "history_of m' operator_id =
      history_of (m(oid \<mapsto> history_of m oid @ [ev])) operator_id @ slashes_of fw operator_id ss" .
  with oid ev show ?case
    by (auto simp: history_of_def slashes_of_def)
qed

lemma transform_operator_props:
  "transform_operator fw now m operator = Inr v \<Longrightarrow>
     operatorAddress v = op_id operator
     \<and> fw (or_str (op_totalShares operator) ''0'') = Inr (totalDelegatedStakeStETH v)
     \<and> slashHistory v = history_of m (op_id operator)
     \<and> v_status v = (if slashHistory v \<noteq> [] then ''slashed'' else ''active'')
     \<and> delegatorCount v = 0"
  by (auto simp: transform_operator_def history_of_def split: sum.splits)

lemma transform_operator_isl:
  "isl (transform_operator fw now m operator) \<longleftrightarrow> \<not> stake_converts fw operator"
  by (auto simp: transform_operator_def stake_converts_def split: sum.splits)

lemma operators_forEach_eq:
  "operators_forEach fw now m os (vs0, c0) =
     (vs0 @ map (\<lambda>operator. projr (transform_operator fw now m operator))
              (filter (stake_converts fw) os),
      c0 @ map (\<lambda>operator. projl (transform_operator fw now m operator))
              (filter (\<lambda>operator. \<not> stake_converts fw operator) os))"
proof (induction os arbitrary: vs0 c0)
  case Nil
  show ?case by simp
next
  case (Cons operator os)
  show ?case
  proof (cases "transform_operator fw now m operator")
    case (Inl e)
    then have "\<not> stake_converts fw operator"
      using transform_operator_isl [of fw now m operator] by simp
    with Inl show ?thesis by (simp add: Cons.IH)
  next
    case (Inr v)
    then have "stake_converts fw operator"
      using transform_operator_isl [of fw now m operator] by simp
    with Inr show ?thesis by (simp add: Cons.IH)
  qed
qed

lemma operators_forEach_props:
  assumes "operators_forEach fw now m os ([], []) = (vs, c)"
  shows "map operatorAddress vs = map op_id (filter (stake_converts fw) os)"
    and "\<forall>v \<in> set vs. \<exists>operator \<in> set os. transform_operator fw now m operator = Inr v"
proof -
  from assms have vs: "vs = map (\<lambda>operator. projr (transform_operator fw now m operator))
              (filter (stake_converts fw) os)"
    by (simp add: operators_forEach_eq)
  have r: "transform_operator fw now m operator = Inr (projr (transform_operator fw now m operator))"
    if "stake_converts fw operator" for operator
    using that transform_operator_isl [of fw now m operator]
    by (cases "transform_operator fw now m operator") auto
  show "\<forall>v \<in> set vs. \<exists>operator \<in> set os. transform_operator fw now m operator = Inr v"
    using vs r by auto
  have "operatorAddress (projr (transform_operator fw now m operator)) = op_id operator"
    if "stake_converts fw operator" for operator
    using transform_operator_props [OF r [OF that]] by simp
  then show "map operatorAddress vs = map op_id (filter (stake_converts fw) os)"
    by (simp add: vs)
qed

lemma transformValidatorData_addresses:
  assumes "transformValidatorData fw now data = Inr (vs, console)"
  shows "map operatorAddress vs =
           map op_id (filter (stake_converts fw) (case operators data of None \<Rightarrow> [] | Some os \<Rightarrow> os))"
proof -
  from assms obtain m where
    vs: "(case operators data of None \<Rightarrow> ([], [])
         | Some os \<Rightarrow> operators_forEach fw now m os ([], [])) = (vs, console)"
    by (auto simp: transformValidatorData_def split: sum.splits)
  show ?thesis
  proof (cases "operators data")
    case None
    with vs show ?thesis by simp
  next
    case (Some os)
    with vs have "operators_forEach fw now m os ([], []) = (vs, console)" by simp
    from operators_forEach_props(1) [OF this] Some show ?thesis by simp
  qed
qed

lemma transformValidatorData_props:
  assumes "transformValidatorData fw now data = Inr (vs, console)" and "v \<in> set vs"
  shows "map operatorAddress vs =
           map op_id (filter (stake_converts fw) (case operators data of None \<Rightarrow> [] | Some os \<Rightarrow> os))
    \<and> (\<exists>operator \<in> set (case operators data of None \<Rightarrow> [] | Some os \<Rightarrow> os).
           operatorAddress v = op_id operator
           \<and> fw (or_str (op_totalShares operator) ''0'') = Inr (totalDelegatedStakeStETH v)
           \<and> slashHistory v =
               slashes_of fw (op_id operator) (case slashings data of None \<Rightarrow> [] | Some ss \<Rightarrow> ss)
           \<and> v_status v = (if slashHistory v \<noteq> [] then ''slashed'' else ''active''))"
proof -
  from assms(1) obtain m where
    m: "(case slashings data of None \<Rightarrow> Inr Map.empty
         | Some ss \<Rightarrow> slashings_forEach fw ss Map.empty) = Inr m"
    and vs: "(case operators data of None \<Rightarrow> ([], [])
         | Some os \<Rightarrow> operators_forEach fw now m os ([], [])) = (vs, console)"
    by (auto simp: transformValidatorData_def split: sum.splits)
  have hist: "history_of m oid =
      slashes_of fw oid (case slashings data of None \<Rightarrow> [] | Some ss \<Rightarrow> ss)" for oid
  proof (cases "slashings data")
    case None
    with m show ?thesis by (auto simp: history_of_def slashes_of_def)
  next
    case (Some ss)
    with m have "slashings_forEach fw ss Map.empty = Inr m" by simp
    from slashings_forEach_history [OF this, of oid] Some
    show ?thesis by (simp add: history_of_def)
  qed
  show ?thesis
  proof (cases "operators data")
    case None
    with vs assms(2) show ?thesis by simp
  next
    case (Some os)
    with vs have "operators_forEach fw now m os ([], []) = (vs, console)" by simp
    note p = operators_forEach_props [OF this]
    from p(2) assms(2)
    obtain operator where op: "operator \<in> set os" "transform_operator fw now m operator = Inr v"
      by auto
    from transform_operator_props [OF op(2)] hist [of "op_id operator"] op(1) Some p(1)
    show ?thesis by auto
  qed
qed

text \<open>
  Claim C8. Every operator record that the normalizer emits has the status \<open>slashed\<close> and a
  non-empty slash history, or the status \<open>active\<close> and an empty one; the records are those
  of the operators whose stake converts, in order; the slash history of a record is made
  of the slashing events of its operator; its stake is the conversion of the total-shares
  field, and of \<open>"0"\<close> when that field is absent. And \<open>addSlashEvent\<close> on a validator whose
  status is \<open>active\<close> appends the event and leaves the status \<open>slashed\<close>.
\<close>

theorem operator_status_follows_slash_history:
  "(\<forall>vs console v. transformValidatorData fw now data = Inr (vs, console) \<and> v \<in> set vs \<longrightarrow>
      (v_status v = ''slashed'' \<and> slashHistory v \<noteq> [] \<or> v_status v = ''active'' \<and> slashHistory v = [])
      \<and> map operatorAddress vs =
          map op_id (filter (stake_converts fw) (case operators data of None \<Rightarrow> [] | Some os \<Rightarrow> os))
      \<and> (\<exists>operator \<in> set (case operators data of None \<Rightarrow> [] | Some os \<Rightarrow> os).
            operatorAddress v = op_id operator
            \<and> slashHistory v =
                slashes_of fw (op_id operator) (case slashings data of None \<Rightarrow> [] | Some ss \<Rightarrow> ss)
            \<and> fw (or_str (op_totalShares operator) ''0'') = Inr (totalDelegatedStakeStETH v)
            \<and> (op_totalShares operator = None \<longrightarrow> fw ''0'' = Inr (totalDelegatedStakeStETH v))))
   \<and> (v_status w = ''active'' \<longrightarrow>
        v_status (addSlashEvent time slashData w) = ''slashed''
        \<and> slashHistory (addSlashEvent time slashData w) = slashHistory w @ [slashData])"
proof (intro conjI allI impI)
  fix vs console v
  assume h: "transformValidatorData fw now data = Inr (vs, console) \<and> v \<in> set vs"
  from transformValidatorData_props [of fw now data vs console v] h
  have all: "map operatorAddress vs =
          map op_id (filter (stake_converts fw) (case operators data of None \<Rightarrow> [] | Some os \<Rightarrow> os))"
    by blast
  from transformValidatorData_props [of fw now data vs console v] h
  obtain operator where op: "operator \<in> set (case operators data of None \<Rightarrow> [] | Some os \<Rightarrow> os)"
    "operatorAddress v = op_id operator"
    "fw (or_str (op_totalShares operator) ''0'') = Inr (totalDelegatedStakeStETH v)"
    "slashHistory v =
       slashes_of fw (op_id operator) (case slashings data of None \<Rightarrow> [] | Some ss \<Rightarrow> ss)"
    "v_status v = (if slashHistory v \<noteq> [] then ''slashed'' else ''active'')"
    by blast
  from op(5) show "v_status v = ''slashed'' \<and> slashHistory v \<noteq> []
      \<or> v_status v = ''active'' \<and> slashHistory v = []"
    by auto
  show "map operatorAddress vs =
          map op_id (filter (stake_converts fw) (case operators data of None \<Rightarrow> [] | Some os \<Rightarrow> os))"
    by (rule all)
  show "\<exists>operator \<in> set (case operators data of None \<Rightarrow> [] | Some os \<Rightarrow> os).
            operatorAddress v = op_id operator
            \<and> slashHistory v =
                slashes_of fw (op_id operator) (case slashings data of None \<Rightarrow> [] | Some ss \<Rightarrow> ss)
            \<and> fw (or_str (op_totalShares operator) ''0'') = Inr (totalDelegatedStakeStETH v)
            \<and> (op_totalShares operator = None \<longrightarrow> fw ''0'' = Inr (totalDelegatedStakeStETH v))"
    using op by (intro bexI [of _ operator]) (auto simp: or_str_def)
next
  assume "v_status w = ''active''"
  then show "v_status (addSlashEvent time slashData w) = ''slashed''"
    by (simp add: addSlashEvent_def validator_pre_save_def)
next
  show "slashHistory (addSlashEvent time slashData w) = slashHistory w @ [slashData]"
    by (simp add: addSlashEvent_def validator_pre_save_def)
qed

lemma sample_validator_data_eval:
  "transformValidatorData fromWei_ether (DateMs 0) sample_validator_data =
     Inr ([\<lparr>operatorAddress = ''0x01'', totalDelegatedStakeStETH = ''0'', slashHistory = [],
             v_status = ''active'', registrationTimestamp = DateMs 1600000000000,
             lastActivityTimestamp = DateMs 0, delegatorCount = 0, commission = 0,
             metadataURI = None, lastUpdated = None\<rparr>,
           \<lparr>operatorAddress = ''0x02'', totalDelegatedStakeStETH = ''2'',
             slashHistory =
               [\<lparr>se_timestamp = Num 1700000000 0, se_amountStETH = ''0.5'',
                 se_reason = ''Protocol violation'', se_transactionHash = ''0xabc'',
                 se_blockNumber = Num 18000000 0\<rparr>],
             v_status = ''slashed'', registrationTimestamp = DateMs 1600000000000,
             lastActivityTimestamp = DateMs 0, delegatorCount = 0, commission = 0,
             metadataURI = None, lastUpdated = None\<rparr>], [])"
  by (simp add: js_eval)

theorem operator_status_follows_slash_history_witness:
  "map v_status (fst (projr (transformValidatorData fromWei_ether (DateMs 0) sample_validator_data)))
     = [''active'', ''slashed'']
   \<and> map (\<lambda>v. length (slashHistory v))
       (fst (projr (transformValidatorData fromWei_ether (DateMs 0) sample_validator_data))) = [0, 1]
   \<and> map totalDelegatedStakeStETH
       (fst (projr (transformValidatorData fromWei_ether (DateMs 0) sample_validator_data)))
     = [''0'', ''2'']
   \<and> fromWei_ether ''0'' = Inr ''0''
   \<and> v_status (addSlashEvent (DateMs 1)
        \<lparr>se_timestamp = Num 1700000000 0, se_amountStETH = ''0.5'',
         se_reason = ''Protocol violation'', se_transactionHash = ''0xabc'',
         se_blockNumber = Num 18000000 0\<rparr>
        (hd (fst (projr (transformValidatorData fromWei_ether (DateMs 0) sample_validator_data)))))
     = ''slashed''"
proof -
  let ?ev = "\<lparr>se_timestamp = Num 1700000000 0, se_amountStETH = ''0.5'',
         se_reason = ''Protocol violation'', se_transactionHash = ''0xabc'',
         se_blockNumber = Num 18000000 0\<rparr>"
  let ?v1 = "\<lparr>operatorAddress = ''0x01'', totalDelegatedStakeStETH = ''0'', slashHistory = [],
             v_status = ''active'', registrationTimestamp = DateMs 1600000000000,
             lastActivityTimestamp = DateMs 0, delegatorCount = 0, commission = 0,
             metadataURI = None, lastUpdated = None\<rparr>"
  let ?v2 = "\<lparr>operatorAddress = ''0x02'', totalDelegatedStakeStETH = ''2'',
             slashHistory = [?ev],
             v_status = ''slashed'', registrationTimestamp = DateMs 1600000000000,
             lastActivityTimestamp = DateMs 0, delegatorCount = 0, commission = 0,
             metadataURI = None, lastUpdated = None\<rparr>"
  note run = sample_validator_data_eval
  note t = operator_status_follows_slash_history
    [of fromWei_ether "DateMs 0" sample_validator_data ?v1 "DateMs 1" ?ev]
  have active: "v_status ?v1 = ''active''" by simp
  from t [THEN conjunct2, rule_format, OF active]
  have slashed: "v_status (addSlashEvent (DateMs 1) ?ev ?v1) = ''slashed''" by blast
  have zero: "fromWei_ether ''0'' = Inr ''0''" by (simp add: js_eval)
  from run slashed zero show ?thesis by simp
qed

section \<open>Proofs: the query of the operators\<close>

lemma slashings_forEach_total:
  "list_all (\<lambda>slash. sl_operator slash \<noteq> None \<and> \<not> isl (fw (sl_amount slash))) ss \<Longrightarrow>
   \<exists>m'. slashings_forEach fw ss m = Inr m'"
proof (induction ss arbitrary: m)
  case Nil
  show ?case by simp
next
  case (Cons slash ss)
  from Cons.prems obtain oid a where oid: "sl_operator slash = Some oid" and a: "fw (sl_amount slash) = Inr a"
    by (cases "fw (sl_amount slash)") auto
  from Cons.prems have "list_all (\<lambda>slash. sl_operator slash \<noteq> None \<and> \<not> isl (fw (sl_amount slash))) ss"
    by simp
  from Cons.IH [OF this] oid a show ?case
    by (simp add: slash_event_of_def)
qed

lemma transformValidatorData_total:
  assumes "list_all (\<lambda>slash. sl_operator slash \<noteq> None \<and> \<not> isl (fw (sl_amount slash)))
             (case slashings data of None \<Rightarrow> [] | Some ss \<Rightarrow> ss)"
  shows "\<exists>vs console. transformValidatorData fw now data = Inr (vs, console)"
proof (cases "slashings data")
  case None
  then show ?thesis by (simp add: transformValidatorData_def)
next
  case (Some ss)
  with assms obtain m where "slashings_forEach fw ss Map.empty = Inr m"
    using slashings_forEach_total [of fw ss Map.empty] by auto
  with Some show ?thesis
    by (cases "case operators data of None \<Rightarrow> ([], [])
         | Some os \<Rightarrow> operators_forEach fw now m os ([], [])")
       (simp add: transformValidatorData_def)
qed

lemma retry_loop_returns:
  "retry_loop d operation m a = (Inr (Some x), tr) \<Longrightarrow> \<exists>k. a \<le> k \<and> k \<le> m \<and> operation k = Inr x"
proof (induction d operation m a arbitrary: tr rule: retry_loop.induct)
  case (1 d operation m a)
  show ?case
  proof (cases "a \<le> m")
    case False
    with "1.prems" show ?thesis by (subst (asm) retry_loop.simps) simp
  next
    case le: True
    show ?thesis
    proof (cases "operation a")
      case (Inr v)
      with le "1.prems" have "v = x" by (subst (asm) retry_loop.simps) simp
      with Inr le show ?thesis by auto
    next
      case (Inl e)
      show ?thesis
      proof (cases "a = m")
        case True
        with Inl le "1.prems" show ?thesis by (subst (asm) retry_loop.simps) simp
      next
        case False
        with Inl le "1.prems" have "fst (retry_loop d operation m (a + 1)) = Inr (Some x)"
          by (subst (asm) retry_loop.simps) (simp add: after_events_def)
        then obtain tr' where "retry_loop d operation m (a + 1) = (Inr (Some x), tr')"
          by (cases "retry_loop d operation m (a + 1)") auto
        from "1.IH" [OF le Inl False this] obtain k where "a + 1 \<le> k" "k \<le> m" "operation k = Inr x"
          by blast
        then have "a \<le> k \<and> k \<le> m \<and> operation k = Inr x" by simp
        then show ?thesis by blast
      qed
    qed
  qed
qed

text \<open>
  Claim C10. For all arguments \<open>first\<close> and \<open>skip\<close>, the query of \<open>fetchValidatorData\<close> asks
  for the slashing events with the fixed page size 100 and no offset, while the page of
  the operators is \<open>(first, skip)\<close>; so the service returns the 100 most recently created
  slashing events. Whenever \<open>fetchValidatorData\<close> returns validators and the service
  answers from its upstream state, the slash history of every validator returned is made
  of the events of its operator among those 100 events of the state at the attempt that
  succeeded, whatever other slashing events exist upstream.
\<close>

theorem slashings_page_is_fixed:
  "page_first (query_variables first skip) (q_slashings GetOperators) = 100
   \<and> page_skip (query_variables first skip) (q_slashings GetOperators) = 0
   \<and> page_first (query_variables first skip) (q_operators GetOperators) = first
   \<and> page_skip (query_variables first skip) (q_operators GetOperators) = skip
   \<and> slashings (subgraph_response up GetOperators (query_variables first skip))
        = Some (take 100 (up_slashings up))
   \<and> (\<forall>vs console trace.
        (\<forall>k data. request k GetOperators (query_variables first skip) = Inr data \<longrightarrow>
           data = subgraph_response (upstream_at k) GetOperators (query_variables first skip))
        \<and> fetchValidatorData fw retryDelay maxRetries now request first skip
             = (Inr (Some (vs, console)), trace) \<longrightarrow>
        (\<exists>k. 1 \<le> k \<and> k \<le> maxRetries
           \<and> (\<forall>v \<in> set vs.
                 slashHistory v =
                   slashes_of fw (operatorAddress v) (take 100 (up_slashings (upstream_at k))))))"
proof (intro conjI allI impI)
  show "page_first (query_variables first skip) (q_slashings GetOperators) = 100"
    by (simp add: page_first_def GetOperators_def arg_value_def)
  show "page_skip (query_variables first skip) (q_slashings GetOperators) = 0"
    by (simp add: page_skip_def GetOperators_def)
  show "page_first (query_variables first skip) (q_operators GetOperators) = first"
    by (simp add: page_first_def GetOperators_def arg_value_def query_variables_def)
  show "page_skip (query_variables first skip) (q_operators GetOperators) = skip"
    by (simp add: page_skip_def GetOperators_def arg_value_def query_variables_def)
  show sl: "slashings (subgraph_response up GetOperators (query_variables first skip))
        = Some (take 100 (up_slashings up))" for up
    by (simp add: subgraph_response_def page_of_def page_first_def page_skip_def
        GetOperators_def arg_value_def)
  fix vs console trace
  assume h: "(\<forall>k data. request k GetOperators (query_variables first skip) = Inr data \<longrightarrow>
           data = subgraph_response (upstream_at k) GetOperators (query_variables first skip))
        \<and> fetchValidatorData fw retryDelay maxRetries now request first skip
             = (Inr (Some (vs, console)), trace)"
  let ?op = "\<lambda>attempt. case request attempt GetOperators (query_variables first skip) of
            Inl e \<Rightarrow> Inl e
          | Inr data \<Rightarrow> transformValidatorData fw (now attempt) data"
  from h have "retry_loop retryDelay ?op maxRetries 1 = (Inr (Some (vs, console)), trace)"
    by (simp add: fetchValidatorData_def retryOperation_def)
  from retry_loop_returns [OF this] obtain k where
    k: "1 \<le> k" "k \<le> maxRetries" "?op k = Inr (vs, console)" by blast
  from k(3) obtain data where
    data: "request k GetOperators (query_variables first skip) = Inr data"
      "transformValidatorData fw (now k) data = Inr (vs, console)"
    by (auto split: sum.splits)
  from h data(1) have d: "data = subgraph_response (upstream_at k) GetOperators (query_variables first skip)"
    by blast
  have "slashHistory v = slashes_of fw (operatorAddress v) (take 100 (up_slashings (upstream_at k)))"
    if "v \<in> set vs" for v
    using transformValidatorData_props [OF data(2) that] sl [of "upstream_at k"] d by auto
  with k show "\<exists>k. 1 \<le> k \<and> k \<le> maxRetries
           \<and> (\<forall>v \<in> set vs.
                 slashHistory v =
                   slashes_of fw (operatorAddress v) (take 100 (up_slashings (upstream_at k))))"
    by blast
qed

theorem slashings_page_is_fixed_witness:
  "length (up_slashings busy_upstream) = 101
   \<and> length (filter (\<lambda>slash. sl_operator slash = Some ''0x01'') (up_slashings busy_upstream)) = 1
   \<and> map operatorAddress
        (fst (the (projr (fst (fetchValidatorData fromWei_ether 5000 3 epoch_clock busy_service 100 0)))))
       = [''0x01'']
   \<and> map slashHistory
        (fst (the (projr (fst (fetchValidatorData fromWei_ether 5000 3 epoch_clock busy_service 100 0)))))
       = [[]]"
proof -
  let ?vars = "query_variables 100 0"
  let ?data = "subgraph_response busy_upstream GetOperators ?vars"
  have zero: "fromWei_ether ''0'' = Inr ''0''" by (simp add: js_eval)
  have page: "take 100 (up_slashings busy_upstream) = replicate 100 (slashing_of ''0x02'')"
    by (simp add: busy_upstream_def)
  have sl: "slashings ?data = Some (replicate 100 (slashing_of ''0x02''))"
    using slashings_page_is_fixed [of 100 0 busy_upstream, THEN conjunct2, THEN conjunct2, THEN conjunct2,
        THEN conjunct2, THEN conjunct1] page by simp
  have ops: "operators ?data = Some (up_operators busy_upstream)"
    by (simp add: subgraph_response_def page_of_def page_first_def page_skip_def GetOperators_def
        arg_value_def query_variables_def busy_upstream_def)
  have "list_all (\<lambda>slash. sl_operator slash \<noteq> None \<and> \<not> isl (fromWei_ether (sl_amount slash)))
          (case slashings ?data of None \<Rightarrow> [] | Some ss \<Rightarrow> ss)"
    using zero by (simp add: sl list_all_iff slashing_of_def)
  from transformValidatorData_total [OF this, of "DateMs 0"] obtain vs console where
    run: "transformValidatorData fromWei_ether (DateMs 0) ?data = Inr (vs, console)" by blast
  have fetch: "fetchValidatorData fromWei_ether 5000 3 epoch_clock busy_service 100 0
      = (Inr (Some (vs, console)), [Invoked 1])"
    using run
    by (simp add: fetchValidatorData_def retryOperation_def retry_loop.simps [of _ _ _ 1]
        busy_service_def epoch_clock_def)
  have conv: "filter (stake_converts fromWei_ether) (up_operators busy_upstream)
      = up_operators busy_upstream"
    using zero by (simp add: busy_upstream_def stake_converts_def or_str_def)
  have addr: "map operatorAddress vs = [''0x01'']"
    using transformValidatorData_addresses [OF run]
    unfolding ops option.case conv by (simp add: busy_upstream_def)
  have answers: "\<forall>k data. busy_service k GetOperators ?vars = Inr data \<longrightarrow>
      data = subgraph_response ((\<lambda>k. busy_upstream) k) GetOperators ?vars"
    by (simp add: busy_service_def)
  from slashings_page_is_fixed [of 100 0 busy_upstream busy_service "\<lambda>k. busy_upstream"
      fromWei_ether 5000 3 epoch_clock,
      THEN conjunct2, THEN conjunct2, THEN conjunct2, THEN conjunct2, THEN conjunct2,
      rule_format, of vs console "[Invoked 1]"] answers fetch
  have hist: "\<forall>v \<in> set vs. slashHistory v =
      slashes_of fromWei_ether (operatorAddress v) (take 100 (up_slashings busy_upstream))"
    by blast
  from addr obtain v where vs: "vs = [v]" and v: "operatorAddress v = ''0x01''"
    by (cases vs) auto
  from hist vs v have "slashHistory v = []"
    by (simp add: page slashes_of_def slashing_of_def)
  with vs v fetch show ?thesis
    by (simp add: busy_upstream_def slashing_of_def)
qed

section \<open>Proofs: the rewards-service client\<close>

lemma endpoints_loop_hit:
  assumes "endpoint_data fw now_seconds http_get address (base @ endpoint) = Some payload"
  shows "endpoints_loop fw now_seconds http_get base address (endpoint # rest)
           = (Some payload, [base @ endpoint], [])"
  using assms by (auto simp: endpoint_data_def split: sum.splits option.splits)

lemma endpoints_loop_miss:
  assumes "endpoint_data fw now_seconds http_get address (base @ endpoint) = None"
  shows "fst (endpoints_loop fw now_seconds http_get base address (endpoint # rest))
           = fst (endpoints_loop fw now_seconds http_get base address rest)
    \<and> fst (snd (endpoints_loop fw now_seconds http_get base address (endpoint # rest)))
           = (base @ endpoint) # fst (snd (endpoints_loop fw now_seconds http_get base address rest))"
  using assms
  by (auto simp: endpoint_data_def after_request_def split: sum.splits option.splits)

text \<open>
  Claim C7, as amended. Without a configured API key (none, or the empty string)
  \<open>fetchRewardsFromRated\<close> returns \<open>null\<close> and requests nothing. With a key it requests the
  primary endpoint; if that yields data (a response with a body that normalizes), the
  data is returned and the secondary endpoint is not requested; otherwise the secondary
  endpoint is requested and what it yields is returned, \<open>null\<close> when it yields nothing. An
  endpoint yields nothing when the request is rejected, when the response has no body,
  and also when the body does not normalize: the exception is caught with the others.
  No exception leaves the function: its result is always a value.
\<close>

theorem fetchRewardsFromRated_fallback:
  "((RATED_API_KEY env = None \<or> RATED_API_KEY env = Some []) \<longrightarrow>
      fetchRewardsFromRated fw now_seconds env http_get address = (None, [], []))
   \<and> ((\<exists>k. RATED_API_KEY env = Some k \<and> k \<noteq> []) \<longrightarrow>
        (\<forall>payload.
           endpoint_data fw now_seconds http_get address
             (ratedApiUrl env @ ''/v1/eigenlayer/rewards/delegator/'' @ address) = Some payload \<longrightarrow>
           fst (fetchRewardsFromRated fw now_seconds env http_get address) = Some payload
           \<and> fst (snd (fetchRewardsFromRated fw now_seconds env http_get address))
               = [ratedApiUrl env @ ''/v1/eigenlayer/rewards/delegator/'' @ address])
      \<and> (endpoint_data fw now_seconds http_get address
             (ratedApiUrl env @ ''/v1/eigenlayer/rewards/delegator/'' @ address) = None \<longrightarrow>
           fst (fetchRewardsFromRated fw now_seconds env http_get address)
             = endpoint_data fw now_seconds http_get address
                 (ratedApiUrl env @ ''/v1/eigenlayer/rewards/rewards?delegator='' @ address)
           \<and> fst (snd (fetchRewardsFromRated fw now_seconds env http_get address))
               = [ratedApiUrl env @ ''/v1/eigenlayer/rewards/delegator/'' @ address,
                  ratedApiUrl env @ ''/v1/eigenlayer/rewards/rewards?delegator='' @ address]))"
proof (intro conjI impI allI)
  assume "RATED_API_KEY env = None \<or> RATED_API_KEY env = Some ''''"
  then show "fetchRewardsFromRated fw now_seconds env http_get address = (None, [], [])"
    by (auto simp: fetchRewardsFromRated_def truthy_str_def)
next
  fix payload
  assume key: "\<exists>k. RATED_API_KEY env = Some k \<and> k \<noteq> ''''"
    and hit: "endpoint_data fw now_seconds http_get address
             (ratedApiUrl env @ ''/v1/eigenlayer/rewards/delegator/'' @ address) = Some payload"
  from key have run: "fetchRewardsFromRated fw now_seconds env http_get address
      = endpoints_loop fw now_seconds http_get (ratedApiUrl env) address (rated_endpoints address)"
    by (auto simp: fetchRewardsFromRated_def truthy_str_def)
  from endpoints_loop_hit [OF hit]
  show "fst (fetchRewardsFromRated fw now_seconds env http_get address) = Some payload"
    and "fst (snd (fetchRewardsFromRated fw now_seconds env http_get address))
               = [ratedApiUrl env @ ''/v1/eigenlayer/rewards/delegator/'' @ address]"
    by (simp_all add: run rated_endpoints_def)
next
  assume key: "\<exists>k. RATED_API_KEY env = Some k \<and> k \<noteq> ''''"
    and miss: "endpoint_data fw now_seconds http_get address
             (ratedApiUrl env @ ''/v1/eigenlayer/rewards/delegator/'' @ address) = None"
  from key have run: "fetchRewardsFromRated fw now_seconds env http_get address
      = endpoints_loop fw now_seconds http_get (ratedApiUrl env) address (rated_endpoints address)"
    by (auto simp: fetchRewardsFromRated_def truthy_str_def)
  let ?second = "ratedApiUrl env @ ''/v1/eigenlayer/rewards/rewards?delegator='' @ address"
  have second: "fst (endpoints_loop fw now_seconds http_get (ratedApiUrl env) address
                  [''/v1/eigenlayer/rewards/rewards?delegator='' @ address])
        = endpoint_data fw now_seconds http_get address ?second
      \<and> fst (snd (endpoints_loop fw now_seconds http_get (ratedApiUrl env) address
                  [''/v1/eigenlayer/rewards/rewards?delegator='' @ address])) = [?second]"
  proof (cases "endpoint_data fw now_seconds http_get address ?second")
    case None
    from endpoints_loop_miss [OF None, of "[]"] None show ?thesis by simp
  next
    case (Some payload)
    from endpoints_loop_hit [OF Some, of "[]"] Some show ?thesis by simp
  qed
  from endpoints_loop_miss [OF miss, of "[''/v1/eigenlayer/rewards/rewards?delegator='' @ address]"] second
  show "fst (fetchRewardsFromRated fw now_seconds env http_get address)
             = endpoint_data fw now_seconds http_get address ?second"
    and "fst (snd (fetchRewardsFromRated fw now_seconds env http_get address))
               = [ratedApiUrl env @ ''/v1/eigenlayer/rewards/delegator/'' @ address, ?second]"
    by (simp_all add: run rated_endpoints_def)
qed

lemma body_one_and_a_half_eval:
  "transformRatedRewardsData fromWei_ether (Num 1700000000 0) body_one_and_a_half ''0xAb'' =
     Inr payload_from_body"
  by (simp add: js_eval)

lemma body_with_null_item_eval:
  "transformRatedRewardsData fromWei_ether (Num 1700000000 0) body_with_null_item ''0xAb'' = Inl TypeError"
  by (simp add: transformRatedRewardsData_def body_with_null_item_def reward_step_def)

lemma sample_urls:
  "ratedApiUrl configured_env @ ''/v1/eigenlayer/rewards/delegator/'' @ ''0xAb'' = primary_url"
  "ratedApiUrl configured_env @ ''/v1/eigenlayer/rewards/rewards?delegator='' @ ''0xAb'' = secondary_url"
  "primary_url \<noteq> secondary_url"
  by (simp_all add: configured_env_def primary_url_def secondary_url_def)

theorem fetchRewardsFromRated_fallback_witness:
  "fetchRewardsFromRated fromWei_ether (Num 1700000000 0) unconfigured_env http_404_then_body ''0xAb''
     = (None, [], [])
   \<and> fst (fetchRewardsFromRated fromWei_ether (Num 1700000000 0) configured_env http_404_then_body ''0xAb'')
       = Some payload_from_body
   \<and> fst (snd (fetchRewardsFromRated fromWei_ether (Num 1700000000 0) configured_env
                  http_404_then_body ''0xAb''))
       = [primary_url, secondary_url]
   \<and> fst (fetchRewardsFromRated fromWei_ether (Num 1700000000 0) configured_env http_all_fail ''0xAb'')
       = None"
proof -
  have nokey: "RATED_API_KEY unconfigured_env = None \<or> RATED_API_KEY unconfigured_env = Some []"
    by (simp add: unconfigured_env_def)
  have key: "\<exists>k. RATED_API_KEY configured_env = Some k \<and> k \<noteq> []"
    by (simp add: configured_env_def)
  have p404: "endpoint_data fromWei_ether (Num 1700000000 0) http_404_then_body ''0xAb'' primary_url = None"
    using sample_urls(3) by (simp add: endpoint_data_def http_404_then_body_def)
  have s404: "endpoint_data fromWei_ether (Num 1700000000 0) http_404_then_body ''0xAb'' secondary_url
      = Some payload_from_body"
    by (simp add: endpoint_data_def http_404_then_body_def body_one_and_a_half_eval)
  have fail: "endpoint_data fromWei_ether (Num 1700000000 0) http_all_fail ''0xAb'' url = None" for url
    by (simp add: endpoint_data_def http_all_fail_def)
  note a = fetchRewardsFromRated_fallback [of unconfigured_env fromWei_ether "Num 1700000000 0"
      http_404_then_body "''0xAb''", THEN conjunct1, rule_format, OF nokey]
  note b = fetchRewardsFromRated_fallback [of configured_env fromWei_ether "Num 1700000000 0"
      http_404_then_body "''0xAb''", THEN conjunct2, rule_format, OF key, THEN conjunct2,
      unfolded sample_urls, rule_format, OF p404]
  note c = fetchRewardsFromRated_fallback [of configured_env fromWei_ether "Num 1700000000 0"
      http_all_fail "''0xAb''", THEN conjunct2, rule_format, OF key, THEN conjunct2,
      unfolded sample_urls, rule_format, OF fail]
  from a b c s404 fail show ?thesis by simp
qed

text \<open>
  The claim as stated fails: with a key configured, let the primary endpoint return a
  body whose \<open>rewards\<close> array holds a \<open>null\<close> item and the secondary endpoint a valid body.
  The primary endpoint is then the first that returns a body, but its normalization
  throws, and the function returns the data of the secondary endpoint.
\<close>

theorem fetchRewardsFromRated_skips_body_counterexample:
  "returns_body http_null_item_then_body primary_url
   \<and> transformRatedRewardsData fromWei_ether (Num 1700000000 0) body_with_null_item ''0xAb''
       = Inl TypeError
   \<and> fetchRewardsFromRated fromWei_ether (Num 1700000000 0) configured_env
        http_null_item_then_body ''0xAb''
       = (Some payload_from_body, [primary_url, secondary_url], [TypeError])
   \<and> endpoint_data fromWei_ether (Num 1700000000 0) http_null_item_then_body ''0xAb'' secondary_url
       = Some payload_from_body"
proof -
  have "fetchRewardsFromRated fromWei_ether (Num 1700000000 0) configured_env
        http_null_item_then_body ''0xAb''
       = (Some payload_from_body, [primary_url, secondary_url], [TypeError])"
    using sample_urls
    by (simp add: fetchRewardsFromRated_def configured_env_def truthy_str_def rated_endpoints_def
        http_null_item_then_body_def body_with_null_item_eval body_one_and_a_half_eval
        after_request_def primary_url_def secondary_url_def)
  moreover have "endpoint_data fromWei_ether (Num 1700000000 0) http_null_item_then_body ''0xAb''
      secondary_url = Some payload_from_body"
    using sample_urls(3)
    by (simp add: endpoint_data_def http_null_item_then_body_def body_one_and_a_half_eval)
  moreover have "returns_body http_null_item_then_body primary_url"
    by (simp add: returns_body_def http_null_item_then_body_def)
  ultimately show ?thesis using body_with_null_item_eval by simp
qed

section \<open>Proofs: the total of the reward normalizer\<close>

lemma rewards_forEach_fold:
  "rewards_forEach fw now_seconds items acc = Inr acc' \<Longrightarrow>
     snd acc' =
       foldl (\<lambda>total amount. toString (js_add (parseFloat total) (parseFloat amount)))
         (snd acc) (converted_amounts fw items)
     \<and> map rb_amountStETH (fst acc') = map rb_amountStETH (fst acc) @ converted_amounts fw items"
proof (induction items arbitrary: acc)
  case Nil
  then show ?case by (simp add: converted_amounts_def)
next
  case (Cons item items)
  from Cons.prems obtain acc1 where
    step: "reward_step fw now_seconds item acc = Inr acc1"
    and rest: "rewards_forEach fw now_seconds items acc1 = Inr acc'"
    by (auto split: sum.splits)
  from step obtain reward amount where
    item: "item = Some reward"
    and amount: "fw (or_str (rw_amount reward) (or_str (rw_value reward) ''0'')) = Inr amount"
    and total1: "snd acc1 = toString (js_add (parseFloat (snd acc)) (parseFloat amount))"
    and amounts1: "map rb_amountStETH (fst acc1) = map rb_amountStETH (fst acc) @ [amount]"
    by (auto simp: reward_step_def split: option.splits sum.splits)
  from item amount have conv: "converted_amounts fw (item # items) = amount # converted_amounts fw items"
    by (simp add: converted_amounts_def)
  from Cons.IH [OF rest] total1 amounts1 show ?case
    by (simp add: conv)
qed

text \<open>
  Claim C2, as amended. For every rewards-service payload that normalizes, the breakdown
  holds the converted amounts of the items, in order, and \<open>totalRewardsReceivedStETH\<close> is
  their floating-point total: starting from \<open>"0"\<close>, each converted amount is added to the
  running total in binary64 arithmetic (\<open>parseFloat\<close> of both, the operator \<open>+\<close>) and the
  sum is printed by \<open>toString\<close>. A payload without a \<open>rewards\<close> array has the total \<open>"0"\<close>.
\<close>

theorem total_is_floating_point_sum:
  "(transformRatedRewardsData fw now_seconds data wallet = Inr payload \<longrightarrow>
      map rb_amountStETH (rp_rewardsBreakdown payload)
        = converted_amounts fw (case rewards data of None \<Rightarrow> [] | Some items \<Rightarrow> items)
      \<and> rp_totalRewardsReceivedStETH payload
        = float_total (converted_amounts fw (case rewards data of None \<Rightarrow> [] | Some items \<Rightarrow> items)))
   \<and> float_total [] = ''0''
   \<and> float_total (amounts @ [amount])
        = toString (js_add (parseFloat (float_total amounts)) (parseFloat amount))"
proof (intro conjI impI)
  assume run: "transformRatedRewardsData fw now_seconds data wallet = Inr payload"
  show "map rb_amountStETH (rp_rewardsBreakdown payload)
        = converted_amounts fw (case rewards data of None \<Rightarrow> [] | Some items \<Rightarrow> items)"
  proof (cases "rewards data")
    case None
    with run show ?thesis
      by (auto simp: transformRatedRewardsData_def converted_amounts_def)
  next
    case (Some items)
    with run obtain acc where acc: "rewards_forEach fw now_seconds items ([], ''0'') = Inr acc"
      and p: "payload = \<lparr>rp_walletAddress = toLowerCase wallet,
               rp_totalRewardsReceivedStETH = snd acc, rp_rewardsBreakdown = fst acc\<rparr>"
      by (auto simp: transformRatedRewardsData_def split: sum.splits)
    from rewards_forEach_fold [OF acc] p Some show ?thesis by simp
  qed
  show "rp_totalRewardsReceivedStETH payload
        = float_total (converted_amounts fw (case rewards data of None \<Rightarrow> [] | Some items \<Rightarrow> items))"
  proof (cases "rewards data")
    case None
    with run show ?thesis
      by (auto simp: transformRatedRewardsData_def converted_amounts_def float_total_def)
  next
    case (Some items)
    with run obtain acc where acc: "rewards_forEach fw now_seconds items ([], ''0'') = Inr acc"
      and p: "payload = \<lparr>rp_walletAddress = toLowerCase wallet,
               rp_totalRewardsReceivedStETH = snd acc, rp_rewardsBreakdown = fst acc\<rparr>"
      by (auto simp: transformRatedRewardsData_def split: sum.splits)
    from rewards_forEach_fold [OF acc] p Some show ?thesis by (simp add: float_total_def)
  qed
next
  show "float_total [] = ''0''" by (simp add: float_total_def)
  show "float_total (amounts @ [amount])
        = toString (js_add (parseFloat (float_total amounts)) (parseFloat amount))"
    by (simp add: float_total_def)
qed

lemma add_one_and_a_half: "toString (js_add (parseFloat ''0'') (parseFloat ''1.5'')) = ''1.5''"
  by (simp add: js_eval)

theorem total_is_floating_point_sum_witness:
  "rp_totalRewardsReceivedStETH
     (projr (transformRatedRewardsData fromWei_ether (Num 1700000000 0) body_one_and_a_half ''0xAb''))
     = ''1.5''
   \<and> float_total [''1.5''] = ''1.5''"
proof -
  have run: "transformRatedRewardsData fromWei_ether (Num 1700000000 0) body_one_and_a_half ''0xAb''
      = Inr payload_from_body"
    by (rule body_one_and_a_half_eval)
  note t = total_is_floating_point_sum [of fromWei_ether "Num 1700000000 0" body_one_and_a_half
      "''0xAb''" payload_from_body "[]" "''1.5''"]
  from t have step: "float_total ([] @ [''1.5''])
      = toString (js_add (parseFloat (float_total [])) (parseFloat ''1.5''))"
    and zero: "float_total [] = ''0''"
    by blast+
  from step zero have "float_total [''1.5''] = ''1.5''"
    by (simp add: add_one_and_a_half)
  with run show ?thesis by (simp add: payload_from_body_def)
qed

lemma add_tenth: "toString (js_add (parseFloat ''0'') (parseFloat ''0.1'')) = ''0.1''"
  by (simp add: js_eval)

lemma add_fifth: "toString (js_add (parseFloat ''0.1'') (parseFloat ''0.2'')) = ''0.30000000000000004''"
  by (simp add: js_eval)

lemma convert_tenth: "fromWei_ether ''100000000000000000'' = Inr ''0.1''"
  by (simp add: js_eval)

lemma convert_fifth: "fromWei_ether ''200000000000000000'' = Inr ''0.2''"
  by (simp add: js_eval)

lemma exact_sum: "exact_decimal_total [''100000000000000000'', ''200000000000000000''] = Inr ''0.3''"
  by (simp add: js_eval)

text \<open>
  The claim as stated fails: for the rewards of 0.1 and 0.2 ether the total is
  \<open>"0.30000000000000004"\<close>, the binary64 sum, and not the exact decimal sum \<open>"0.3"\<close>.
\<close>

theorem total_is_not_exact_counterexample:
  "map rb_amountStETH
     (rp_rewardsBreakdown
        (projr (transformRatedRewardsData fromWei_ether (Num 1700000000 0) body_tenth_and_fifth ''0xAb'')))
     = [''0.1'', ''0.2'']
   \<and> rp_totalRewardsReceivedStETH
        (projr (transformRatedRewardsData fromWei_ether (Num 1700000000 0) body_tenth_and_fifth ''0xAb''))
     = ''0.30000000000000004''
   \<and> exact_decimal_total [''100000000000000000'', ''200000000000000000''] = Inr ''0.3''"
  by (simp add: transformRatedRewardsData_def body_tenth_and_fifth_def reward_step_def reward_item_def
      or_str_def or_num_def truthy_str_def convert_tenth convert_fifth add_tenth add_fifth exact_sum)

section \<open>Proofs: the statistics pass\<close>

lemma count_is_delegators:
  "countDocuments_target (operatorAddress v) (db_restakers db) = delegators_of db v"
  by (simp add: countDocuments_target_def delegators_of_def)

lemma statistics_loop_inv:
  assumes "statistics_loop save_ok now i vs (db, ws) = ((db', ws'), ok)"
    and "drop i (db_validators db) = vs"
  shows "db_restakers db' = db_restakers db
    \<and> length (db_validators db') = length (db_validators db)
    \<and> (\<forall>j < i. db_validators db' ! j = db_validators db ! j)
    \<and> take (length ws) ws' = ws
    \<and> (\<forall>j \<in> set (drop (length ws) ws').
          i \<le> j \<and> j < length (db_validators db) \<and> stale db (db_validators db ! j))
    \<and> (ok \<longrightarrow>
          (\<forall>j. i \<le> j \<and> j < length (db_validators db) \<longrightarrow>
             operatorAddress (db_validators db' ! j) = operatorAddress (db_validators db ! j)
             \<and> delegatorCount (db_validators db' ! j) = delegators_of db (db_validators db ! j)
             \<and> (stale db (db_validators db ! j) \<longrightarrow> j \<in> set (drop (length ws) ws'))
             \<and> (\<not> stale db (db_validators db ! j) \<longrightarrow>
                   db_validators db' ! j = db_validators db ! j)))"
  using assms
proof (induction vs arbitrary: i db ws)
  case Nil
  then have "length (db_validators db) \<le> i" by simp
  with Nil show ?case by auto
next
  case (Cons v rest)
  let ?vals = "db_validators db"
  from Cons.prems(2) have i: "i < length ?vals"
    by (metis drop_eq_Nil list.distinct(1) not_le)
  from Cons.prems(2) i have v: "v = ?vals ! i"
    by (metis Cons_nth_drop_Suc list.inject)
  from Cons.prems(2) i have rest: "drop (Suc i) ?vals = rest"
    by (metis Cons_nth_drop_Suc list.inject)
  let ?c = "delegators_of db v"
  let ?v' = "validator_pre_save (now i) (v\<lparr>delegatorCount := ?c\<rparr>)"
  show ?case
  proof (cases "stale db v")
    case False
    then have same: "delegatorCount v = countDocuments_target (operatorAddress v) (db_restakers db)"
      by (simp add: stale_def count_is_delegators)
    with Cons.prems(1)
    have run: "statistics_loop save_ok now (Suc i) rest (db, ws) = ((db', ws'), ok)"
      by simp
    note ih = Cons.IH [OF run rest]
    have A: "\<forall>j \<in> set (drop (length ws) ws').
          i \<le> j \<and> j < length ?vals \<and> stale db (?vals ! j)"
    proof
      fix j assume "j \<in> set (drop (length ws) ws')"
      with ih have "Suc i \<le> j \<and> j < length ?vals \<and> stale db (?vals ! j)" by blast
      then show "i \<le> j \<and> j < length ?vals \<and> stale db (?vals ! j)" by simp
    qed
    have B: "operatorAddress (db_validators db' ! j) = operatorAddress (?vals ! j)
             \<and> delegatorCount (db_validators db' ! j) = delegators_of db (?vals ! j)
             \<and> (stale db (?vals ! j) \<longrightarrow> j \<in> set (drop (length ws) ws'))
             \<and> (\<not> stale db (?vals ! j) \<longrightarrow> db_validators db' ! j = ?vals ! j)"
      if "ok" and j: "i \<le> j \<and> j < length ?vals" for j
    proof (cases "j = i")
      case True
      with ih have "db_validators db' ! j = ?vals ! j" by simp
      with True v False show ?thesis by (simp add: stale_def)
    next
      case False
      with j have "Suc i \<le> j \<and> j < length ?vals" by simp
      with ih \<open>ok\<close> show ?thesis by blast
    qed
    from ih have C: "db_restakers db' = db_restakers db"
      "length (db_validators db') = length ?vals"
      "\<forall>j < i. db_validators db' ! j = ?vals ! j"
      "take (length ws) ws' = ws"
      by simp_all
    from A B C show ?thesis by blast
  next
    case True
    then have diff: "delegatorCount v \<noteq> countDocuments_target (operatorAddress v) (db_restakers db)"
      by (simp add: stale_def count_is_delegators)
    show ?thesis
    proof (cases "save_ok ?v'")
      case False
      with diff Cons.prems(1) have "db' = db" "ws' = ws" "\<not> ok"
        by (simp_all add: count_is_delegators)
      then show ?thesis by simp
    next
      case ok_save: True
      let ?db1 = "db\<lparr>db_validators := ?vals[i := ?v']\<rparr>"
      from diff ok_save Cons.prems(1)
      have run: "statistics_loop save_ok now (Suc i) rest (?db1, ws @ [i]) = ((db', ws'), ok)"
        by (simp add: count_is_delegators)
      have rest1: "drop (Suc i) (db_validators ?db1) = rest"
        using rest by simp
      note ih = Cons.IH [OF run rest1]
      have del1: "delegators_of ?db1 w = delegators_of db w" for w
        by (simp add: delegators_of_def)
      have stale1: "stale ?db1 w = stale db w" for w
        by (simp add: stale_def del1)
      have nth1: "db_validators ?db1 ! j = ?vals ! j" if "Suc i \<le> j" for j
      proof -
        from that have "i \<noteq> j" by simp
        then show ?thesis by simp
      qed
      have at_i: "db_validators db' ! i = ?v'"
        using ih i by simp
      have ws_i: "take (length ws) ws' = ws" "ws' ! length ws = i" "length ws < length ws'"
      proof -
        from ih have t: "take (Suc (length ws)) ws' = ws @ [i]" by simp
        then have len: "length ws < length ws'"
          by (metis length_append_singleton length_take lessI min_less_iff_conj)
        from t have "take (length ws) (take (Suc (length ws)) ws') = take (length ws) (ws @ [i])"
          by simp
        then show "take (length ws) ws' = ws" by simp
        from t len show "ws' ! length ws = i"
          by (metis lessI nth_append_length nth_take)
        show "length ws < length ws'" by (rule len)
      qed
      have split: "drop (length ws) ws' = i # drop (Suc (length ws)) ws'"
        using ws_i by (metis Cons_nth_drop_Suc)
      have A: "\<forall>j \<in> set (drop (length ws) ws').
          i \<le> j \<and> j < length ?vals \<and> stale db (?vals ! j)"
      proof
        fix j assume mem: "j \<in> set (drop (length ws) ws')"
        show "i \<le> j \<and> j < length ?vals \<and> stale db (?vals ! j)"
        proof (cases "j = i")
          case True
          with i v \<open>stale db v\<close> show ?thesis by simp
        next
          case False
          with mem split have "j \<in> set (drop (length (ws @ [i])) ws')" by simp
          with ih have "Suc i \<le> j \<and> j < length ?vals \<and> stale ?db1 (db_validators ?db1 ! j)"
            by simp
          then have f: "Suc i \<le> j" "j < length ?vals" "stale ?db1 (db_validators ?db1 ! j)"
            by blast+
          from f(3) have "stale db (?vals ! j)"
            unfolding nth1 [OF f(1)] stale1 .
          with f show ?thesis by simp
        qed
      qed
      have B: "operatorAddress (db_validators db' ! j) = operatorAddress (?vals ! j)
             \<and> delegatorCount (db_validators db' ! j) = delegators_of db (?vals ! j)
             \<and> (stale db (?vals ! j) \<longrightarrow> j \<in> set (drop (length ws) ws'))
             \<and> (\<not> stale db (?vals ! j) \<longrightarrow> db_validators db' ! j = ?vals ! j)"
        if "ok" and j: "i \<le> j \<and> j < length ?vals" for j
      proof (cases "j = i")
        case True
        with at_i v \<open>stale db v\<close> split show ?thesis
          by (simp add: validator_pre_save_def)
      next
        case False
        with j have Sj: "Suc i \<le> j" by simp
        with j have "Suc i \<le> j \<and> j < length (db_validators ?db1)" by simp
        with ih \<open>ok\<close> have "operatorAddress (db_validators db' ! j) = operatorAddress (db_validators ?db1 ! j)
             \<and> delegatorCount (db_validators db' ! j) = delegators_of ?db1 (db_validators ?db1 ! j)
             \<and> (stale ?db1 (db_validators ?db1 ! j) \<longrightarrow> j \<in> set (drop (length (ws @ [i])) ws'))
             \<and> (\<not> stale ?db1 (db_validators ?db1 ! j) \<longrightarrow>
                   db_validators db' ! j = db_validators ?db1 ! j)"
          by blast
        then have g: "operatorAddress (db_validators db' ! j) = operatorAddress (?vals ! j)
             \<and> delegatorCount (db_validators db' ! j) = delegators_of db (?vals ! j)
             \<and> (stale db (?vals ! j) \<longrightarrow> j \<in> set (drop (length (ws @ [i])) ws'))
             \<and> (\<not> stale db (?vals ! j) \<longrightarrow> db_validators db' ! j = ?vals ! j)"
          unfolding nth1 [OF Sj] stale1 del1 .
        with split show ?thesis by simp
      qed
      from ih have C: "db_restakers db' = db_restakers db"
        "length (db_validators db') = length ?vals"
        "\<forall>j < i. db_validators db' ! j = ?vals ! j"
        by simp_all
      from A B C ws_i(1) show ?thesis by blast
    qed
  qed
qed

lemma reconciled_eq:
  "reconciled now db i =
     validator_pre_save (now i)
       ((db_validators db ! i)\<lparr>delegatorCount :=
          countDocuments_target (operatorAddress (db_validators db ! i)) (db_restakers db)\<rparr>)"
  by (simp add: reconciled_def count_is_delegators)

lemma statistics_loop_stops:
  assumes "statistics_loop save_ok now i vs (db, ws) = ((db', ws'), ok)"
    and "drop i (db_validators db) = vs"
  shows "(ok \<longrightarrow> (\<forall>j. i \<le> j \<and> j < length (db_validators db) \<longrightarrow> \<not> rejected save_ok now db j))
    \<and> (\<not> ok \<longrightarrow>
          (\<exists>k. i \<le> k \<and> k < length (db_validators db) \<and> rejected save_ok now db k
             \<and> (\<forall>j. i \<le> j \<and> j < k \<longrightarrow>
                   \<not> rejected save_ok now db j
                   \<and> operatorAddress (db_validators db' ! j) = operatorAddress (db_validators db ! j)
                   \<and> delegatorCount (db_validators db' ! j) = delegators_of db (db_validators db ! j)
                   \<and> (stale db (db_validators db ! j) \<longrightarrow> j \<in> set (drop (length ws) ws')))
             \<and> (\<forall>j. k \<le> j \<and> j < length (db_validators db) \<longrightarrow>
                   db_validators db' ! j = db_validators db ! j)
             \<and> (\<forall>j \<in> set (drop (length ws) ws'). j < k)))"
  using assms
proof (induction vs arbitrary: i db ws)
  case Nil
  then have "length (db_validators db) \<le> i" "ok" by simp_all
  then show ?case by auto
next
  case (Cons v rest)
  let ?vals = "db_validators db"
  from Cons.prems(2) have i: "i < length ?vals"
    by (metis drop_eq_Nil list.distinct(1) not_le)
  from Cons.prems(2) i have v: "v = ?vals ! i"
    by (metis Cons_nth_drop_Suc list.inject)
  from Cons.prems(2) i have rest: "drop (Suc i) ?vals = rest"
    by (metis Cons_nth_drop_Suc list.inject)
  let ?v' = "validator_pre_save (now i) (v\<lparr>delegatorCount := delegators_of db v\<rparr>)"
  have rec_i: "reconciled now db i = ?v'"
    by (simp add: reconciled_def v)
  show ?case
  proof (cases "stale db v")
    case False
    then have same: "delegatorCount v = countDocuments_target (operatorAddress v) (db_restakers db)"
      by (simp add: stale_def count_is_delegators)
    with Cons.prems(1)
    have run: "statistics_loop save_ok now (Suc i) rest (db, ws) = ((db', ws'), ok)"
      by simp
    note ih = Cons.IH [OF run rest]
    note inv = statistics_loop_inv [OF run rest]
    from inv have at_i: "db_validators db' ! i = ?vals ! i" by simp
    from False v have not_i: "\<not> rejected save_ok now db i"
      by (simp add: rejected_def)
    from False v have count_i: "delegatorCount (?vals ! i) = delegators_of db (?vals ! i)"
      by (simp add: stale_def)
    have A: "\<not> rejected save_ok now db j" if "ok" and "i \<le> j \<and> j < length ?vals" for j
    proof (cases "j = i")
      case True
      with not_i show ?thesis by simp
    next
      case False
      with that have "Suc i \<le> j \<and> j < length ?vals" by simp
      with ih \<open>ok\<close> show ?thesis by blast
    qed
    have B: "\<exists>k. i \<le> k \<and> k < length ?vals \<and> rejected save_ok now db k
             \<and> (\<forall>j. i \<le> j \<and> j < k \<longrightarrow>
                   \<not> rejected save_ok now db j
                   \<and> operatorAddress (db_validators db' ! j) = operatorAddress (?vals ! j)
                   \<and> delegatorCount (db_validators db' ! j) = delegators_of db (?vals ! j)
                   \<and> (stale db (?vals ! j) \<longrightarrow> j \<in> set (drop (length ws) ws')))
             \<and> (\<forall>j. k \<le> j \<and> j < length ?vals \<longrightarrow> db_validators db' ! j = ?vals ! j)
             \<and> (\<forall>j \<in> set (drop (length ws) ws'). j < k)"
      if "\<not> ok"
    proof -
      from ih that obtain k where k: "Suc i \<le> k" "k < length ?vals" "rejected save_ok now db k"
        and before: "\<forall>j. Suc i \<le> j \<and> j < k \<longrightarrow>
                   \<not> rejected save_ok now db j
                   \<and> operatorAddress (db_validators db' ! j) = operatorAddress (?vals ! j)
                   \<and> delegatorCount (db_validators db' ! j) = delegators_of db (?vals ! j)
                   \<and> (stale db (?vals ! j) \<longrightarrow> j \<in> set (drop (length ws) ws'))"
        and after: "\<forall>j. k \<le> j \<and> j < length ?vals \<longrightarrow> db_validators db' ! j = ?vals ! j"
        and wr: "\<forall>j \<in> set (drop (length ws) ws'). j < k"
        by blast
      have all: "\<not> rejected save_ok now db j
                   \<and> operatorAddress (db_validators db' ! j) = operatorAddress (?vals ! j)
                   \<and> delegatorCount (db_validators db' ! j) = delegators_of db (?vals ! j)
                   \<and> (stale db (?vals ! j) \<longrightarrow> j \<in> set (drop (length ws) ws'))"
        if j: "i \<le> j \<and> j < k" for j
      proof (cases "j = i")
        case True
        with not_i at_i count_i False v show ?thesis by simp
      next
        case False
        with j have "Suc i \<le> j \<and> j < k" by simp
        with before show ?thesis by blast
      qed
      from k(1) have "i \<le> k" by simp
      with k(2,3) all after wr show ?thesis by blast
    qed
    from A B show ?thesis by blast
  next
    case True
    then have diff: "delegatorCount v \<noteq> countDocuments_target (operatorAddress v) (db_restakers db)"
      by (simp add: stale_def count_is_delegators)
    show ?thesis
    proof (cases "save_ok ?v'")
      case False
      with diff Cons.prems(1) have "db' = db" "ws' = ws" "\<not> ok"
        by (simp_all add: count_is_delegators)
      moreover from True False v have "rejected save_ok now db i"
        by (simp add: rejected_def rec_i)
      ultimately show ?thesis using i by auto
    next
      case ok_save: True
      let ?db1 = "db\<lparr>db_validators := ?vals[i := ?v']\<rparr>"
      from diff ok_save Cons.prems(1)
      have run: "statistics_loop save_ok now (Suc i) rest (?db1, ws @ [i]) = ((db', ws'), ok)"
        by (simp add: count_is_delegators)
      have rest1: "drop (Suc i) (db_validators ?db1) = rest"
        using rest by simp
      note ih = Cons.IH [OF run rest1]
      note inv = statistics_loop_inv [OF run rest1]
      have del1: "delegators_of ?db1 w = delegators_of db w" for w
        by (simp add: delegators_of_def)
      have stale1: "stale ?db1 w = stale db w" for w
        by (simp add: stale_def del1)
      have nth1: "db_validators ?db1 ! j = ?vals ! j" if "Suc i \<le> j" for j
      proof -
        from that have "i \<noteq> j" by simp
        then show ?thesis by simp
      qed
      have rej1: "rejected save_ok now ?db1 j = rejected save_ok now db j" if "Suc i \<le> j" for j
        unfolding rejected_def reconciled_def nth1 [OF that] stale1 del1 ..
      have len1: "length (db_validators ?db1) = length ?vals" by simp
      have at_i: "db_validators db' ! i = ?v'"
        using inv i by simp
      from ok_save have not_i: "\<not> rejected save_ok now db i"
        by (simp add: rejected_def rec_i)
      have split: "drop (length ws) ws' = i # drop (Suc (length ws)) ws'"
      proof -
        from inv have t: "take (Suc (length ws)) ws' = ws @ [i]" by simp
        then have len: "length ws < length ws'"
          by (metis length_append_singleton length_take lessI min_less_iff_conj)
        from t len have "ws' ! length ws = i"
          by (metis lessI nth_append_length nth_take)
        with len show ?thesis by (metis Cons_nth_drop_Suc)
      qed
      have A: "\<not> rejected save_ok now db j" if "ok" and "i \<le> j \<and> j < length ?vals" for j
      proof (cases "j = i")
        case True
        with not_i show ?thesis by simp
      next
        case False
        with that have Sj: "Suc i \<le> j" and "Suc i \<le> j \<and> j < length (db_validators ?db1)"
          by simp_all
        with ih \<open>ok\<close> have "\<not> rejected save_ok now ?db1 j" by blast
        then show ?thesis unfolding rej1 [OF Sj] .
      qed
      have B: "\<exists>k. i \<le> k \<and> k < length ?vals \<and> rejected save_ok now db k
             \<and> (\<forall>j. i \<le> j \<and> j < k \<longrightarrow>
                   \<not> rejected save_ok now db j
                   \<and> operatorAddress (db_validators db' ! j) = operatorAddress (?vals ! j)
                   \<and> delegatorCount (db_validators db' ! j) = delegators_of db (?vals ! j)
                   \<and> (stale db (?vals ! j) \<longrightarrow> j \<in> set (drop (length ws) ws')))
             \<and> (\<forall>j. k \<le> j \<and> j < length ?vals \<longrightarrow> db_validators db' ! j = ?vals ! j)
             \<and> (\<forall>j \<in> set (drop (length ws) ws'). j < k)"
        if "\<not> ok"
      proof -
        from ih that obtain k where k: "Suc i \<le> k" "k < length (db_validators ?db1)"
            "rejected save_ok now ?db1 k"
          and before: "\<forall>j. Suc i \<le> j \<and> j < k \<longrightarrow>
                   \<not> rejected save_ok now ?db1 j
                   \<and> operatorAddress (db_validators db' ! j) = operatorAddress (db_validators ?db1 ! j)
                   \<and> delegatorCount (db_validators db' ! j) = delegators_of ?db1 (db_validators ?db1 ! j)
                   \<and> (stale ?db1 (db_validators ?db1 ! j) \<longrightarrow> j \<in> set (drop (length (ws @ [i])) ws'))"
          and after: "\<forall>j. k \<le> j \<and> j < length (db_validators ?db1) \<longrightarrow>
                   db_validators db' ! j = db_validators ?db1 ! j"
          and wr: "\<forall>j \<in> set (drop (length (ws @ [i])) ws'). j < k"
          by blast
        from k(3) have rk: "rejected save_ok now db k" unfolding rej1 [OF k(1)] .
        from k(2) have lk: "k < length ?vals" by simp
        have all: "\<not> rejected save_ok now db j
                   \<and> operatorAddress (db_validators db' ! j) = operatorAddress (?vals ! j)
                   \<and> delegatorCount (db_validators db' ! j) = delegators_of db (?vals ! j)
                   \<and> (stale db (?vals ! j) \<longrightarrow> j \<in> set (drop (length ws) ws'))"
          if j: "i \<le> j \<and> j < k" for j
        proof (cases "j = i")
          case True
          with not_i at_i v split show ?thesis
            by (simp add: validator_pre_save_def)
        next
          case False
          with j have Sj: "Suc i \<le> j" by simp
          with j before have "\<not> rejected save_ok now ?db1 j
                   \<and> operatorAddress (db_validators db' ! j) = operatorAddress (db_validators ?db1 ! j)
                   \<and> delegatorCount (db_validators db' ! j) = delegators_of ?db1 (db_validators ?db1 ! j)
                   \<and> (stale ?db1 (db_validators ?db1 ! j) \<longrightarrow> j \<in> set (drop (length (ws @ [i])) ws'))"
            by blast
          then have "\<not> rejected save_ok now db j
                   \<and> operatorAddress (db_validators db' ! j) = operatorAddress (?vals ! j)
                   \<and> delegatorCount (db_validators db' ! j) = delegators_of db (?vals ! j)
                   \<and> (stale db (?vals ! j) \<longrightarrow> j \<in> set (drop (length (ws @ [i])) ws'))"
            unfolding rej1 [OF Sj] nth1 [OF Sj] stale1 del1 .
          with split show ?thesis by simp
        qed
        have aft: "db_validators db' ! j = ?vals ! j" if j: "k \<le> j \<and> j < length ?vals" for j
        proof -
          from j k(1) have Sj: "Suc i \<le> j" by simp
          from j have "k \<le> j \<and> j < length (db_validators ?db1)" by simp
          with after have "db_validators db' ! j = db_validators ?db1 ! j" by blast
          then show ?thesis unfolding nth1 [OF Sj] .
        qed
        have wr': "j < k" if "j \<in> set (drop (length ws) ws')" for j
        proof (cases "j = i")
          case True
          with k(1) show ?thesis by simp
        next
          case False
          with that split have "j \<in> set (drop (length (ws @ [i])) ws')" by simp
          with wr show ?thesis by blast
        qed
        from k(1) have "i \<le> k" by simp
        with lk rk all aft wr' show ?thesis by blast
      qed
      from A B show ?thesis by blast
    qed
  qed
qed


lemma sample_db_eval:
  "updateStatistics operatorAddress_validates stats_clock sample_db =
     ((sample_db\<lparr>db_validators :=
         [(sample_validator ''0x0101010101010101010101010101010101010101'' 2)
            \<lparr>lastUpdated := Some (DateMs 1800000000000)\<rparr>,
          sample_validator ''0x0202020202020202020202020202020202020202'' 1]\<rparr>, [0]), True)"
  by (simp add: js_eval)

lemma short_address_db_eval:
  "updateStatistics operatorAddress_validates stats_clock short_address_db =
     ((short_address_db, []), False)"
  by (simp add: js_eval)




section \<open>The reward records of the population stage\<close>

lemma update_first_present:
  "find (\<lambda>d. walletAddress d = reward_key p) docs = Some doc \<Longrightarrow>
     find (\<lambda>d. walletAddress d = reward_key p) (update_first now p docs)
       = Some (set_payload now p doc)
     \<and> length (update_first now p docs) = length docs"
  by (induction docs) (auto simp: reward_key_def set_payload_def split: if_splits)

lemma update_first_absent:
  "find (\<lambda>d. walletAddress d = reward_key p) docs = None \<Longrightarrow>
     update_first now p docs = docs @ [new_reward_doc now p]"
  by (induction docs) (auto simp: reward_key_def split: if_splits)

lemma update_first_frame:
  "k \<noteq> reward_key p \<Longrightarrow>
     find (\<lambda>d. walletAddress d = k) (update_first now p docs) = find (\<lambda>d. walletAddress d = k) docs"
  by (induction docs) (auto simp: reward_key_def set_payload_def new_reward_doc_def)

lemma set_payload_holds: "holds_payload p (set_payload now p doc)"
  by (simp add: holds_payload_def set_payload_def reward_key_def)

lemma update_first_holds:
  "\<exists>doc. find (\<lambda>d. walletAddress d = reward_key p) (update_first now p docs) = Some doc
         \<and> holds_payload p doc"
proof (cases "find (\<lambda>d. walletAddress d = reward_key p) docs")
  case None
  then have "\<forall>d \<in> set docs. walletAddress d \<noteq> reward_key p"
    by (simp add: find_None_iff)
  then have "find (\<lambda>d. walletAddress d = reward_key p) (docs @ [new_reward_doc now p])
      = Some (new_reward_doc now p)"
    by (induction docs) (auto simp: new_reward_doc_def reward_key_def)
  with update_first_absent [OF None] show ?thesis
    by (simp add: holds_payload_def new_reward_doc_def reward_key_def)
next
  case (Some doc)
  from update_first_present [OF Some] set_payload_holds show ?thesis by blast
qed

lemma wallets_loop_fold:
  "wallets_loop write_ok useMockData mock fetch now wallets (db, n) =
     (db\<lparr>db_rewards :=
           foldl (\<lambda>docs p. update_first now p docs) (db_rewards db)
             (persisted_payloads write_ok useMockData mock fetch wallets)\<rparr>,
      n + length (persisted_payloads write_ok useMockData mock fetch wallets))"
proof (induction wallets arbitrary: db n)
  case Nil
  show ?case by (simp add: persisted_payloads_def)
next
  case (Cons wallet wallets)
  show ?case
    by (simp add: Cons.IH persisted_payloads_def Reward_findOneAndUpdate_def)
qed

lemma fold_holds:
  "distinct (map reward_key ps) \<Longrightarrow> p \<in> set ps \<Longrightarrow>
     \<exists>doc. find (\<lambda>d. walletAddress d = reward_key p)
             (foldl (\<lambda>docs p. update_first now p docs) docs ps) = Some doc
          \<and> holds_payload p doc"
proof (induction ps arbitrary: p rule: rev_induct)
  case Nil
  then show ?case by simp
next
  case (snoc q ps)
  show ?case
  proof (cases "p = q")
    case True
    then show ?thesis using update_first_holds [of q now] by simp
  next
    case False
    with snoc.prems have mem: "p \<in> set ps" and d: "distinct (map reward_key ps)"
      and out: "reward_key q \<notin> reward_key ` set ps"
      by auto
    from mem out have ne: "reward_key p \<noteq> reward_key q"
      by (metis imageI)
    from snoc.IH [OF d mem] update_first_frame [OF ne] show ?thesis by simp
  qed
qed

lemma merge_breakdown_present:
  "find (\<lambda>b. rb_operatorAddress b = operator) bs = Some b \<Longrightarrow>
     find (\<lambda>b. rb_operatorAddress b = operator) (merge_breakdown operator amount t h n bs)
       = Some (add_to_breakdown amount t h n b)
     \<and> map rb_operatorAddress (merge_breakdown operator amount t h n bs) = map rb_operatorAddress bs"
  by (induction bs) (auto simp: add_to_breakdown_def split: if_splits)

lemma set_frequency_keeps:
  "rewardsBreakdown (set_frequency days doc) = rewardsBreakdown doc"
  "totalRewardsReceivedStETH (set_frequency days doc) = totalRewardsReceivedStETH doc"
  by (simp_all add: set_frequency_def)

lemma reward_pre_save_keeps:
  "rewardsBreakdown (reward_pre_save now doc) = rewardsBreakdown doc"
  "totalRewardsReceivedStETH (reward_pre_save now doc) = totalRewardsReceivedStETH doc"
  by (simp_all add: reward_pre_save_def set_first_last_def set_frequency_keeps set_average_def
      set_event_count_def split: list.splits)

lemma populateRewards_holds:
  assumes "distinct (stored_keys useMockData mock fetch db)"
    and "wallet \<in> set (map userAddress (db_restakers db))"
    and "js_positive (parseFloat (rp_totalRewardsReceivedStETH
                                    (reward_data_for useMockData mock fetch wallet)))"
    and "write_ok (reward_data_for useMockData mock fetch wallet)"
  shows "\<exists>doc. find_reward (reward_key (reward_data_for useMockData mock fetch wallet))
                 (fst (populateRewards write_ok useMockData mock fetch now db)) = Some doc
               \<and> holds_payload (reward_data_for useMockData mock fetch wallet) doc"
proof -
  let ?ws = "unique_first (map userAddress (db_restakers db))"
  let ?ps = "persisted_payloads write_ok useMockData mock fetch ?ws"
  have "distinct (map reward_key ?ps)"
    using assms(1) by (simp add: persisted_payloads_def stored_keys_def distinct_map_filter comp_def)
  moreover from assms(2,3,4) have "reward_data_for useMockData mock fetch wallet \<in> set ?ps"
    by (simp add: persisted_payloads_def unique_first_def)
  ultimately show ?thesis
    using fold_holds [of ?ps "reward_data_for useMockData mock fetch wallet" now "db_rewards db"]
    by (simp add: populateRewards_def wallets_loop_fold find_reward_def)
qed

text \<open>
  Claim C1, as amended. The population stage writes each wallet's payload with
  \<open>findOneAndUpdate\<close> and \<open>upsert\<close>, which replaces: on a wallet that already has a record, the
  record's total and its breakdown become those of the payload, whatever they were, its
  \<open>updatedAt\<close> becomes the time of the write, no record is added, and the record of every
  other wallet is left as it was. Consequently, after any run of the stage (a second run on
  the same upstream data is one), the record of every wallet whose payload has a positive
  total and whose write the database accepted holds the total and the breakdown of that
  payload, not their sum with what was stored before; this for wallets whose payloads are
  stored under different keys. The
  additive merge is the one of \<open>addReward\<close>, which the stage does not call: for an operator
  that already has a breakdown, that breakdown's amount is incremented by the new amount
  and the new timestamp is appended to it, no breakdown is added, and the total of the
  record is incremented by the amount.
\<close>

theorem population_replaces_reward_record:
  "(find_reward (reward_key p) db = Some doc \<longrightarrow>
      find_reward (reward_key p) (Reward_findOneAndUpdate now p db) = Some (set_payload now p doc)
      \<and> holds_payload p (set_payload now p doc)
      \<and> updatedAt (set_payload now p doc) = now
      \<and> length (db_rewards (Reward_findOneAndUpdate now p db)) = length (db_rewards db))
   \<and> (other \<noteq> reward_key p \<longrightarrow>
        find_reward other (Reward_findOneAndUpdate now p db) = find_reward other db)
   \<and> (distinct (stored_keys useMockData mock fetch db) \<longrightarrow>
        (\<forall>wallet \<in> set (map userAddress (db_restakers db)).
           js_positive (parseFloat (rp_totalRewardsReceivedStETH
                                      (reward_data_for useMockData mock fetch wallet)))
           \<and> write_ok (reward_data_for useMockData mock fetch wallet) \<longrightarrow>
           (\<exists>stored.
              find_reward (reward_key (reward_data_for useMockData mock fetch wallet))
                (fst (populateRewards write_ok useMockData mock fetch now db)) = Some stored
              \<and> holds_payload (reward_data_for useMockData mock fetch wallet) stored)))
   \<and> (getRewardsFromOperator operator doc = Some b \<longrightarrow>
        getRewardsFromOperator operator (addReward t operator amount timestamp tx_hash block_no doc)
          = Some (add_to_breakdown amount timestamp tx_hash block_no b)
        \<and> length (rewardsBreakdown (addReward t operator amount timestamp tx_hash block_no doc))
            = length (rewardsBreakdown doc))
   \<and> totalRewardsReceivedStETH (addReward t operator amount timestamp tx_hash block_no doc)
       = toString (js_add (parseFloat (totalRewardsReceivedStETH doc)) (parseFloat amount))"
proof -
  have a: "find_reward (reward_key p) db = Some doc \<longrightarrow>
      find_reward (reward_key p) (Reward_findOneAndUpdate now p db) = Some (set_payload now p doc)
      \<and> holds_payload p (set_payload now p doc)
      \<and> updatedAt (set_payload now p doc) = now
      \<and> length (db_rewards (Reward_findOneAndUpdate now p db)) = length (db_rewards db)"
  proof
    assume f: "find_reward (reward_key p) db = Some doc"
    then have f': "find (\<lambda>d. walletAddress d = reward_key p) (db_rewards db) = Some doc"
      by (simp add: find_reward_def)
    have "holds_payload p (set_payload now p doc)"
      by (rule set_payload_holds)
    moreover have "updatedAt (set_payload now p doc) = now"
      by (simp add: set_payload_def)
    ultimately
    show "find_reward (reward_key p) (Reward_findOneAndUpdate now p db) = Some (set_payload now p doc)
      \<and> holds_payload p (set_payload now p doc)
      \<and> updatedAt (set_payload now p doc) = now
      \<and> length (db_rewards (Reward_findOneAndUpdate now p db)) = length (db_rewards db)"
      using update_first_present [OF f', of now]
      by (simp add: find_reward_def Reward_findOneAndUpdate_def)
  qed
  have b: "other \<noteq> reward_key p \<longrightarrow>
        find_reward other (Reward_findOneAndUpdate now p db) = find_reward other db"
    by (simp add: find_reward_def Reward_findOneAndUpdate_def update_first_frame)
  have c: "distinct (stored_keys useMockData mock fetch db) \<longrightarrow>
        (\<forall>wallet \<in> set (map userAddress (db_restakers db)).
           js_positive (parseFloat (rp_totalRewardsReceivedStETH
                                      (reward_data_for useMockData mock fetch wallet)))
           \<and> write_ok (reward_data_for useMockData mock fetch wallet) \<longrightarrow>
           (\<exists>stored.
              find_reward (reward_key (reward_data_for useMockData mock fetch wallet))
                (fst (populateRewards write_ok useMockData mock fetch now db)) = Some stored
              \<and> holds_payload (reward_data_for useMockData mock fetch wallet) stored))"
    using populateRewards_holds by blast
  have d: "getRewardsFromOperator operator doc = Some b \<longrightarrow>
        getRewardsFromOperator operator (addReward t operator amount timestamp tx_hash block_no doc)
          = Some (add_to_breakdown amount timestamp tx_hash block_no b)
        \<and> length (rewardsBreakdown (addReward t operator amount timestamp tx_hash block_no doc))
            = length (rewardsBreakdown doc)"
  proof
    assume "getRewardsFromOperator operator doc = Some b"
    then have f: "find (\<lambda>b. rb_operatorAddress b = toLowerCase operator) (rewardsBreakdown doc) = Some b"
      by (simp add: getRewardsFromOperator_def)
    from merge_breakdown_present [OF f, of amount timestamp tx_hash block_no]
    have m: "find (\<lambda>b. rb_operatorAddress b = toLowerCase operator)
          (merge_breakdown (toLowerCase operator) amount timestamp tx_hash block_no (rewardsBreakdown doc))
          = Some (add_to_breakdown amount timestamp tx_hash block_no b)"
      and l: "map rb_operatorAddress
          (merge_breakdown (toLowerCase operator) amount timestamp tx_hash block_no (rewardsBreakdown doc))
          = map rb_operatorAddress (rewardsBreakdown doc)"
      by blast+
    from l have "length (merge_breakdown (toLowerCase operator) amount timestamp tx_hash block_no
          (rewardsBreakdown doc)) = length (rewardsBreakdown doc)"
      by (rule map_eq_imp_length_eq)
    with m show "getRewardsFromOperator operator (addReward t operator amount timestamp tx_hash block_no doc)
          = Some (add_to_breakdown amount timestamp tx_hash block_no b)
        \<and> length (rewardsBreakdown (addReward t operator amount timestamp tx_hash block_no doc))
            = length (rewardsBreakdown doc)"
      by (simp add: addReward_def reward_pre_save_keeps getRewardsFromOperator_def)
  qed
  have e: "totalRewardsReceivedStETH (addReward t operator amount timestamp tx_hash block_no doc)
       = toString (js_add (parseFloat (totalRewardsReceivedStETH doc)) (parseFloat amount))"
    by (simp add: addReward_def reward_pre_save_keeps)
  from a b c d e show ?thesis by blast
qed

text \<open>
  The theorem at the store that holds an earlier reward of 4 for the wallet \<open>0xabab...\<close>: the
  population stage replaces the total by 1.5, and \<open>addReward\<close> of 1.5 would have made it 5.5.
\<close>

theorem population_replaces_reward_record_witness:
  "find_reward (reward_key payload_one_and_a_half) db_with_earlier_reward = Some earlier_reward_doc
   \<and> find_reward (reward_key payload_one_and_a_half)
         (Reward_findOneAndUpdate (DateMs 5) payload_one_and_a_half db_with_earlier_reward)
       = Some (set_payload (DateMs 5) payload_one_and_a_half earlier_reward_doc)
   \<and> totalRewardsReceivedStETH (set_payload (DateMs 5) payload_one_and_a_half earlier_reward_doc)
       = ''1.5''
   \<and> map rb_amountStETH
         (rewardsBreakdown (set_payload (DateMs 5) payload_one_and_a_half earlier_reward_doc))
       = [''1.5'']
   \<and> map rb_timestamps
         (rewardsBreakdown (set_payload (DateMs 5) payload_one_and_a_half earlier_reward_doc))
       = [[Num 1700000000 0]]
   \<and> updatedAt (set_payload (DateMs 5) payload_one_and_a_half earlier_reward_doc) = DateMs 5
   \<and> length (db_rewards
         (Reward_findOneAndUpdate (DateMs 5) payload_one_and_a_half db_with_earlier_reward)) = 1
   \<and> find_reward ''0x0202020202020202020202020202020202020202''
         (Reward_findOneAndUpdate (DateMs 5) payload_one_and_a_half db_with_earlier_reward) = None
   \<and> distinct (stored_keys False mock_one_and_a_half fetch_one_and_a_half db_with_earlier_reward)
   \<and> map totalRewardsReceivedStETH
         (db_rewards (fst (populateRewards write_accepted False mock_one_and_a_half fetch_one_and_a_half (DateMs 5)
                             db_with_earlier_reward))) = [''1.5'']
   \<and> getRewardsFromOperator ''0x0101010101010101010101010101010101010101'' earlier_reward_doc = Some earlier_breakdown
   \<and> getRewardsFromOperator ''0x0101010101010101010101010101010101010101''
         (addReward 1800000000000 ''0x0101010101010101010101010101010101010101'' ''1.5'' (Num 1700000000 0) None None earlier_reward_doc)
       = Some (add_to_breakdown ''1.5'' (Num 1700000000 0) None None earlier_breakdown)
   \<and> rb_amountStETH (add_to_breakdown ''1.5'' (Num 1700000000 0) None None earlier_breakdown)
       = ''5.5''
   \<and> rb_timestamps (add_to_breakdown ''1.5'' (Num 1700000000 0) None None earlier_breakdown)
       = [Num 1600000000 0, Num 1700000000 0]
   \<and> length (rewardsBreakdown
         (addReward 1800000000000 ''0x0101010101010101010101010101010101010101'' ''1.5'' (Num 1700000000 0) None None earlier_reward_doc))
       = 1
   \<and> totalRewardsReceivedStETH
         (addReward 1800000000000 ''0x0101010101010101010101010101010101010101'' ''1.5'' (Num 1700000000 0) None None earlier_reward_doc)
       = ''5.5''"
proof -
  note T = population_replaces_reward_record [where p = payload_one_and_a_half
      and db = db_with_earlier_reward and doc = earlier_reward_doc and now = "DateMs 5"
      and other = "''0x0202020202020202020202020202020202020202''"
      and write_ok = write_accepted and useMockData = False and mock = mock_one_and_a_half
      and fetch = fetch_one_and_a_half and operator = "''0x0101010101010101010101010101010101010101''" and b = earlier_breakdown
      and t = 1800000000000 and amount = "''1.5''" and timestamp = "Num 1700000000 0"
      and tx_hash = None and block_no = None]
  have h1: "find_reward (reward_key payload_one_and_a_half) db_with_earlier_reward
      = Some earlier_reward_doc"
    by (simp add: js_eval)
  have h2: "distinct (stored_keys False mock_one_and_a_half fetch_one_and_a_half
      db_with_earlier_reward)"
    by (simp add: js_eval)
  have h3: "getRewardsFromOperator ''0x0101010101010101010101010101010101010101'' earlier_reward_doc = Some earlier_breakdown"
    by (simp add: js_eval)
  have h4: "''0x0202020202020202020202020202020202020202'' \<noteq> reward_key payload_one_and_a_half"
    by (simp add: js_eval)
  have h5: "''0xabababababababababababababababababababab'' \<in> set (map userAddress (db_restakers db_with_earlier_reward))"
    by (simp add: js_eval)
  have h6: "js_positive (parseFloat (rp_totalRewardsReceivedStETH
      (reward_data_for False mock_one_and_a_half fetch_one_and_a_half ''0xabababababababababababababababababababab'')))"
    by (simp add: js_eval)
  have h8: "write_accepted (reward_data_for False mock_one_and_a_half fetch_one_and_a_half
      ''0xabababababababababababababababababababab'')"
    by (simp add: write_accepted_def)
  have h7: "reward_data_for False mock_one_and_a_half fetch_one_and_a_half ''0xabababababababababababababababababababab''
      = payload_one_and_a_half"
    by (simp add: reward_data_for_def fetch_one_and_a_half_def)
  have v0: "find_reward ''0x0202020202020202020202020202020202020202'' db_with_earlier_reward = None"
    by (simp add: js_eval)
  have v1: "totalRewardsReceivedStETH (set_payload (DateMs 5) payload_one_and_a_half
      earlier_reward_doc) = ''1.5''"
    by (simp add: js_eval)
  have v2: "map rb_amountStETH
      (rewardsBreakdown (set_payload (DateMs 5) payload_one_and_a_half earlier_reward_doc))
      = [''1.5'']"
    by (simp add: js_eval)
  have v3: "map rb_timestamps
      (rewardsBreakdown (set_payload (DateMs 5) payload_one_and_a_half earlier_reward_doc))
      = [[Num 1700000000 0]]"
    by (simp add: js_eval)
  have v4: "length (db_rewards db_with_earlier_reward) = 1"
    by (simp add: js_eval)
  have v5: "length (rewardsBreakdown earlier_reward_doc) = 1"
    by (simp add: js_eval)
  have v6: "toString (js_add (parseFloat ''4'') (parseFloat ''1.5'')) = ''5.5''"
    by (simp add: js_eval)
  have v7: "rb_amountStETH (add_to_breakdown ''1.5'' (Num 1700000000 0) None None
      earlier_breakdown) = ''5.5''"
    using v6 by (simp add: add_to_breakdown_def earlier_breakdown_def)
  have v8: "rb_timestamps (add_to_breakdown ''1.5'' (Num 1700000000 0) None None
      earlier_breakdown) = [Num 1600000000 0, Num 1700000000 0]"
    by (simp add: add_to_breakdown_def earlier_breakdown_def)
  have v9: "totalRewardsReceivedStETH earlier_reward_doc = ''4''"
    by (simp add: earlier_reward_doc_def)
  have v10: "map totalRewardsReceivedStETH
         (db_rewards (fst (populateRewards write_accepted False mock_one_and_a_half fetch_one_and_a_half (DateMs 5)
                             db_with_earlier_reward))) = [''1.5'']"
  proof -
    from T h2 have "\<forall>wallet \<in> set (map userAddress (db_restakers db_with_earlier_reward)).
        js_positive (parseFloat (rp_totalRewardsReceivedStETH
          (reward_data_for False mock_one_and_a_half fetch_one_and_a_half wallet)))
        \<and> write_accepted (reward_data_for False mock_one_and_a_half fetch_one_and_a_half wallet)
        \<longrightarrow> (\<exists>stored.
           find_reward (reward_key (reward_data_for False mock_one_and_a_half fetch_one_and_a_half
                wallet))
             (fst (populateRewards write_accepted False mock_one_and_a_half fetch_one_and_a_half (DateMs 5)
                db_with_earlier_reward)) = Some stored
           \<and> holds_payload (reward_data_for False mock_one_and_a_half fetch_one_and_a_half wallet)
               stored)"
      by blast
    with h5 h6 h8 have "\<exists>stored.
           find_reward (reward_key (reward_data_for False mock_one_and_a_half fetch_one_and_a_half
                ''0xabababababababababababababababababababab''))
             (fst (populateRewards write_accepted False mock_one_and_a_half fetch_one_and_a_half (DateMs 5)
                db_with_earlier_reward)) = Some stored
           \<and> holds_payload (reward_data_for False mock_one_and_a_half fetch_one_and_a_half ''0xabababababababababababababababababababab'')
               stored"
      by blast
    then obtain stored where
      s: "find_reward (reward_key payload_one_and_a_half)
            (fst (populateRewards write_accepted False mock_one_and_a_half fetch_one_and_a_half (DateMs 5)
               db_with_earlier_reward)) = Some stored"
        "holds_payload payload_one_and_a_half stored"
      unfolding h7 by blast
    have l: "db_rewards (fst (populateRewards write_accepted False mock_one_and_a_half fetch_one_and_a_half
        (DateMs 5) db_with_earlier_reward))
        = [set_payload (DateMs 5) payload_one_and_a_half earlier_reward_doc]"
      by (simp add: js_eval)
    from s(1) have "stored = set_payload (DateMs 5) payload_one_and_a_half earlier_reward_doc"
      unfolding find_reward_def l by (simp add: js_eval)
    with s(2) show ?thesis
      unfolding l by (simp add: holds_payload_def payload_one_and_a_half_def)
  qed
  from T h1 h3 h4 have "find_reward (reward_key payload_one_and_a_half)
         (Reward_findOneAndUpdate (DateMs 5) payload_one_and_a_half db_with_earlier_reward)
       = Some (set_payload (DateMs 5) payload_one_and_a_half earlier_reward_doc)
     \<and> updatedAt (set_payload (DateMs 5) payload_one_and_a_half earlier_reward_doc) = DateMs 5
     \<and> length (db_rewards
         (Reward_findOneAndUpdate (DateMs 5) payload_one_and_a_half db_with_earlier_reward))
       = length (db_rewards db_with_earlier_reward)
     \<and> find_reward ''0x0202020202020202020202020202020202020202''
         (Reward_findOneAndUpdate (DateMs 5) payload_one_and_a_half db_with_earlier_reward)
       = find_reward ''0x0202020202020202020202020202020202020202'' db_with_earlier_reward
     \<and> getRewardsFromOperator ''0x0101010101010101010101010101010101010101''
         (addReward 1800000000000 ''0x0101010101010101010101010101010101010101'' ''1.5'' (Num 1700000000 0) None None earlier_reward_doc)
       = Some (add_to_breakdown ''1.5'' (Num 1700000000 0) None None earlier_breakdown)
     \<and> length (rewardsBreakdown
         (addReward 1800000000000 ''0x0101010101010101010101010101010101010101'' ''1.5'' (Num 1700000000 0) None None earlier_reward_doc))
       = length (rewardsBreakdown earlier_reward_doc)
     \<and> totalRewardsReceivedStETH
         (addReward 1800000000000 ''0x0101010101010101010101010101010101010101'' ''1.5'' (Num 1700000000 0) None None earlier_reward_doc)
       = toString (js_add (parseFloat (totalRewardsReceivedStETH earlier_reward_doc))
           (parseFloat ''1.5''))"
    by blast
  with h1 h2 h3 v1 v2 v3 v7 v8 v10 show ?thesis
    unfolding v0 v4 v5 v9 v6 by blast
qed

text \<open>
  Claim C1 as stated fails. The claim has repeated runs of the population stage increment the
  totals and append the timestamps. With the rewards service answering 1.5 for the wallet
  \<open>0xabab...\<close>, the first run stores the total 1.5 and the second run leaves it at 1.5, with
  the single timestamp of the payload, where the sum of the two runs would be 3.
\<close>

theorem population_does_not_accumulate_counterexample:
  "map totalRewardsReceivedStETH
     (db_rewards (fst (populateRewards write_accepted False mock_one_and_a_half fetch_one_and_a_half (DateMs 5)
                         one_wallet_db))) = [''1.5'']
   \<and> map totalRewardsReceivedStETH
       (db_rewards (fst (populateRewards write_accepted False mock_one_and_a_half fetch_one_and_a_half (DateMs 9)
          (fst (populateRewards write_accepted False mock_one_and_a_half fetch_one_and_a_half (DateMs 5)
                  one_wallet_db))))) = [''1.5'']
   \<and> map rewardsBreakdown
       (db_rewards (fst (populateRewards write_accepted False mock_one_and_a_half fetch_one_and_a_half (DateMs 9)
          (fst (populateRewards write_accepted False mock_one_and_a_half fetch_one_and_a_half (DateMs 5)
                  one_wallet_db)))))
       = [[\<lparr>rb_operatorAddress = ''0x0101010101010101010101010101010101010101'',
            rb_amountStETH = ''1.5'',
            rb_timestamps = [Num 1700000000 0], rb_transactionHashes = [],
            rb_blockNumbers = []\<rparr>]]
   \<and> toString (js_add (parseFloat ''1.5'') (parseFloat ''1.5'')) = ''3''
   \<and> ''3'' \<noteq> ''1.5''"
  by (simp add: js_eval)


end
